(* ===== verification/Prelude.thy ===== *)
theory Prelude
  imports Complex_Main
begin

text \<open>
  Shared vocabulary of the development. The plugins are JavaScript that exchange JSON
  with a WebSocket peer and with HTTP services and keep JavaScript objects in the Redux
  store, so the common data type is a JSON value \<open>jval\<close> with the parts of JavaScript
  semantics the code relies on:
  \<^item> truthiness (\<open>js_truthy\<close>), used by every \<open>if(x)\<close>, \<open>x ? a : b\<close> and \<open>x || y\<close>;
  \<^item> property reads (\<open>js_prop\<close>), which throw a TypeError on \<open>null\<close> and
    \<open>undefined\<close> and give \<open>undefined\<close> for a missing key;
  \<^item> objects as association lists in insertion order, written by \<open>obj_set\<close>
    (\<open>o[k] = v\<close>) and \<open>obj_assign\<close> (\<open>Object.assign\<close>, the \<open>object-assign\<close>
    package the sources import);
  \<^item> the equality tests of the sources, strict \<open>===\<close> and loose \<open>==\<close> against
    a string constant.
  JSON numbers are modelled as integers: no value the properties depend on is fractional.
\<close>

named_theorems js_simps "evaluation rules of the JavaScript vocabulary"

datatype js_error = TypeError | InvalidStateError | SyntaxError | Error

datatype jval =
    JUndef
  | JNull
  | JBool bool
  | JNum int
  | JStr string
  | JArr "jval list"
  | JObj "(string \<times> jval) list"

type_synonym jobj = "(string \<times> jval) list"

text \<open>JavaScript truthiness: \<open>undefined\<close>, \<open>null\<close>, \<open>false\<close>, \<open>0\<close> and
  \<open>\"\"\<close> are falsy, every object and array is truthy.\<close>

fun js_truthy :: "jval \<Rightarrow> bool" where
  "js_truthy JUndef = False"
| "js_truthy JNull = False"
| "js_truthy (JBool b) = b"
| "js_truthy (JNum n) = (n \<noteq> 0)"
| "js_truthy (JStr s) = (s \<noteq> [])"
| "js_truthy (JArr _) = True"
| "js_truthy (JObj _) = True"

text \<open>Reading key \<open>k\<close> of an object literal: \<open>undefined\<close> when it is missing.\<close>

definition jget :: "jobj \<Rightarrow> string \<Rightarrow> jval" where
  "jget ob k = (case map_of ob k of None \<Rightarrow> JUndef | Some v \<Rightarrow> v)"

text \<open>\<open>x.k\<close> on any value: a TypeError on \<open>null\<close>/\<open>undefined\<close>; \<open>undefined\<close> on
  a primitive or an array (the sources read no array or string property by name).\<close>

fun js_prop :: "jval \<Rightarrow> string \<Rightarrow> js_error + jval" where
  "js_prop JUndef k = Inl TypeError"
| "js_prop JNull k = Inl TypeError"
| "js_prop (JObj ob) k = Inr (jget ob k)"
| "js_prop v k = Inr JUndef"

text \<open>\<open>o[k] = v\<close>: overwrite the key in place, or append it (insertion order).\<close>

fun obj_set :: "(string \<times> 'v) list \<Rightarrow> string \<Rightarrow> 'v \<Rightarrow> (string \<times> 'v) list" where
  "obj_set [] k v = [(k, v)]"
| "obj_set ((k', v') # xs) k v =
     (if k' = k then (k, v) # xs else (k', v') # obj_set xs k v)"

text \<open>\<open>Object.assign(t, src)\<close>: the own keys of \<open>src\<close> copied in order.\<close>

fun obj_assign :: "(string \<times> 'v) list \<Rightarrow> (string \<times> 'v) list \<Rightarrow> (string \<times> 'v) list" where
  "obj_assign t [] = t"
| "obj_assign t ((k, v) # src) = obj_assign (obj_set t k v) src"

text \<open>\<open>x === ''s''\<close> and \<open>x == ''s''\<close> for a string constant \<open>s\<close>. Loose equality
  converts an array to the string of its elements joined by commas; for a constant that
  has no comma, is not empty, not a numeral, not \<open>true\<close>/\<open>false\<close> and not
  \<open>[object Object]\<close> (all constants the sources compare with), only a string or a
  one-element array holding such a value can be loosely equal to it.\<close>

definition strict_eq_str :: "jval \<Rightarrow> string \<Rightarrow> bool" where
  "strict_eq_str v s = (v = JStr s)"

fun loose_eq_str :: "jval \<Rightarrow> string \<Rightarrow> bool" where
  "loose_eq_str (JStr t) s = (t = s)"
| "loose_eq_str (JArr [v]) s = loose_eq_str v s"
| "loose_eq_str _ s = False"

text \<open>\<open>a === b\<close> on values read from JSON: primitives compare by value, and two
  objects or arrays parsed from JSON are distinct references.\<close>

fun js_strict_eq :: "jval \<Rightarrow> jval \<Rightarrow> bool" where
  "js_strict_eq JUndef JUndef = True"
| "js_strict_eq JNull JNull = True"
| "js_strict_eq (JBool a) (JBool b) = (a = b)"
| "js_strict_eq (JNum a) (JNum b) = (a = b)"
| "js_strict_eq (JStr a) (JStr b) = (a = b)"
| "js_strict_eq _ _ = False"

text \<open>\<open>x.k\<close> where \<open>x\<close> is known to be neither \<open>null\<close> nor \<open>undefined\<close>
  (it was read successfully before), so the read cannot throw.\<close>

definition field :: "jval \<Rightarrow> string \<Rightarrow> jval" where
  "field v k = (case js_prop v k of Inr x \<Rightarrow> x | Inl _ \<Rightarrow> JUndef)"

text \<open>Statements that may throw, run in order: the first exception ends the block.\<close>

definition js_seq :: "'e + 'a \<Rightarrow> ('a \<Rightarrow> 'e + 'b) \<Rightarrow> 'e + 'b" where
  "js_seq m f = (case m of Inl e \<Rightarrow> Inl e | Inr a \<Rightarrow> f a)"

text \<open>\<open>a.map(f)\<close>, \<open>a.filter(f)\<close>, \<open>a.find(f)\<close>, \<open>a.reduce(f, x)\<close>: a
  TypeError unless \<open>a\<close> is an array (\<open>null\<close> and \<open>undefined\<close> have no
  properties, and a string, number, boolean or plain object has no such method).\<close>

definition js_array :: "jval \<Rightarrow> js_error + jval list" where
  "js_array v = (case v of JArr vs \<Rightarrow> Inr vs | _ \<Rightarrow> Inl TypeError)"

text \<open>\<open>xs.find(x => x[k] === v)\<close>: the first element whose property \<open>k\<close> is
  \<open>v\<close>; the elements after it are not read.\<close>

fun find_by :: "string \<Rightarrow> jval \<Rightarrow> jval list \<Rightarrow> js_error + jval option" where
  "find_by k v [] = Inr None"
| "find_by k v (x # xs) =
     js_seq (js_prop x k) (\<lambda>w. if js_strict_eq w v then Inr (Some x) else find_by k v xs)"

text \<open>\<open>url.replace(/\\/$/g, "")\<close>: the pattern matches only at the end of the string,
  so at most one trailing slash is removed.\<close>

definition strip_trailing_slash :: "string \<Rightarrow> string" where
  "strip_trailing_slash u = (if u \<noteq> [] \<and> last u = CHR ''/'' then butlast u else u)"

definition keys_distinct :: "(string \<times> 'v) list \<Rightarrow> bool" where
  "keys_distinct ob = distinct (map fst ob)"

lemma js_seq_Inl [simp, js_simps]: "js_seq (Inl e) f = Inl e"
  by (simp add: js_seq_def)

lemma js_seq_Inr [simp, js_simps]: "js_seq (Inr a) f = f a"
  by (simp add: js_seq_def)

lemma js_seq_eq_Inr: "js_seq m f = Inr b \<longleftrightarrow> (\<exists>a. m = Inr a \<and> f a = Inr b)"
  by (cases m) (simp_all add: js_seq_def)

lemma jget_Nil [simp, js_simps]: "jget [] k = JUndef"
  by (simp add: jget_def)

lemma jget_Cons [simp, js_simps]:
  "jget ((k', v) # ob) k = (if k' = k then v else jget ob k)"
  by (simp add: jget_def)

lemma map_of_obj_set [simp]: "map_of (obj_set ob k v) = (map_of ob)(k \<mapsto> v)"
  by (induction ob) (auto simp: fun_eq_iff)

lemma keys_obj_set [simp]: "map fst (obj_set ob k v) =
  (if k \<in> set (map fst ob) then map fst ob else map fst ob @ [k])"
  by (induction ob) (auto split: if_splits)

lemma obj_set_mem [simp]: "(k, v) \<in> set (obj_set ob k v)"
  by (induction ob) auto

lemma jget_obj_set [simp, js_simps]:
  "jget (obj_set ob k v) k' = (if k' = k then v else jget ob k')"
  by (simp add: jget_def)

lemma map_of_obj_assign [simp]:
  "map_of (obj_assign t src) = map_of t ++ map_of (rev src)"
  by (induction t src rule: obj_assign.induct) (auto simp: fun_eq_iff map_add_def split: option.split)

lemma jget_obj_assign:
  "jget (obj_assign t src) k =
     (case map_of (rev src) k of None \<Rightarrow> jget t k | Some v \<Rightarrow> v)"
  by (simp add: jget_def map_add_def split: option.split)

lemma keys_distinct_Nil [simp]: "keys_distinct []"
  by (simp add: keys_distinct_def)

lemma keys_distinct_obj_set [intro]:
  "keys_distinct ob \<Longrightarrow> keys_distinct (obj_set ob k v)"
  by (simp add: keys_distinct_def)

lemma keys_distinct_obj_assign [intro]:
  "keys_distinct t \<Longrightarrow> keys_distinct (obj_assign t src)"
  by (induction t src rule: obj_assign.induct) auto

lemma map_of_rev_distinct: "keys_distinct d \<Longrightarrow> map_of (rev d) = map_of d"
  by (induction d)
    (auto simp: keys_distinct_def fun_eq_iff map_add_def rev_image_eqI split: option.split)

lemma obj_set_present:
  "keys_distinct ob \<Longrightarrow> map_of ob k = Some v \<Longrightarrow> obj_set ob k v = ob"
  by (induction ob) (auto simp: keys_distinct_def)

lemma obj_assign_empty_copy:
  "keys_distinct ob \<Longrightarrow> obj_assign [] ob = ob"
proof -
  have "keys_distinct (t @ ob) \<Longrightarrow> obj_assign t ob = t @ ob" for t
  proof (induction ob arbitrary: t)
    case Nil
    then show ?case by simp
  next
    case (Cons p ob)
    obtain k v where p: "p = (k, v)" by (cases p)
    with Cons.prems have "k \<notin> set (map fst t)"
      by (auto simp: keys_distinct_def)
    then have "obj_set t k v = t @ [(k, v)]"
      by (induction t) auto
    with Cons.prems Cons.IH [of "t @ [(k, v)]"] p show ?case by simp
  qed
  then show "keys_distinct ob \<Longrightarrow> obj_assign [] ob = ob" by simp
qed

lemma js_prop_Inr_field:
  "v \<noteq> JNull \<Longrightarrow> v \<noteq> JUndef \<Longrightarrow> js_prop v k = Inr (field v k)"
  by (cases v) (simp_all add: field_def)

lemma field_JObj [simp, js_simps]: "field (JObj ob) k = jget ob k"
  by (simp add: field_def)

lemma js_strict_eq_JStr [simp, js_simps]: "js_strict_eq v (JStr s) = (v = JStr s)"
  by (cases v) simp_all

lemma loose_eq_str_JStr_strict: "strict_eq_str v s \<Longrightarrow> loose_eq_str v s"
  by (simp add: strict_eq_str_def)

end
