(* ===== verification/CccReducer.thy ===== *)
theory CccReducer
  imports Prelude
begin

text \<open>
  The actions the plugins dispatch to the Redux store, and the store slice this
  repository owns: the reducer \<open>ccc\<close> of \<^verbatim>\<open>src/js/plugins/reducers/ccc.js\<close>.
  \<open>app_action\<close> has one constructor per action creator the plugins call through their
  props (\<open>changeCCCState\<close> of \<^verbatim>\<open>./actions/ccc\<close>, the qwc2 actions for tasks,
  layers, map and theme); it is the interface on which the components and the store
  agree. The reducer state is a JavaScript object (an association list of \<open>jval\<close>)
  and the reducer is the \<open>Object.assign\<close> of the source.
\<close>

datatype layer_role = THEME | SELECTION

datatype app_action =
    ChangeCCCState jobj
  | SetCurrentTask "string option" "string option" "string option"
  | SetCurrentTaskBlocked bool
  | RemoveLayer string
  | AddLayerFeatures string layer_role jval bool
  | RefreshLayer layer_role
  | ZoomToPoint "real \<times> real" int jval
  | ZoomToExtent "(int \<times> int \<times> int \<times> int) option" jval
  | SetCurrentTheme jval
  | AddThemeSublayer jval

text \<open>The extent of \<open>ZoomToExtent\<close> is \<open>None\<close> for OpenLayers' empty extent
  \<open>[Infinity, Infinity, -Infinity, -Infinity]\<close>.\<close>

text \<open>The default state of the reducer (\<open>state = {...}\<close> in its signature).\<close>

definition ccc_init :: jobj where
  "ccc_init = [(''action'', JNull), (''geomType'', JNull), (''feature'', JNull)]"

text \<open>Line 20: \<open>action.data.feature ? action.data.changed !== false ? true : false : false\<close>.\<close>

definition changed_of :: "jobj \<Rightarrow> bool" where
  "changed_of d = (js_truthy (jget d ''feature'') \<and> jget d ''changed'' \<noteq> JBool False)"

text \<open>\<open>assign({}, state, action.data, {changed: changed})\<close> for \<open>CHANGE_CCC_STATE\<close>;
  every other action leaves the state as it is.\<close>

fun ccc :: "jobj \<Rightarrow> app_action \<Rightarrow> jobj" where
  "ccc st (ChangeCCCState d) =
     obj_assign (obj_assign (obj_assign [] st) d) [(''changed'', JBool (changed_of d))]"
| "ccc st _ = st"

text \<open>The values \<open>action\<close> takes: \<open>null\<close> and the three modes
  \<open>CCCInterface\<close> sets (lines 163, 175, 198 and 305).\<close>

definition ccc_action_ok :: "jval \<Rightarrow> bool" where
  "ccc_action_ok v = (v \<in> {JNull, JStr ''Draw'', JStr ''Edit'', JStr ''Show''})"

definition is_jbool :: "jval \<Rightarrow> bool" where
  "is_jbool v = (case v of JBool _ \<Rightarrow> True | _ \<Rightarrow> False)"

text \<open>The typing of the slice: \<open>action\<close> is one of the modes and \<open>changed\<close>, once
  present, a boolean.\<close>

definition ccc_typed :: "jobj \<Rightarrow> bool" where
  "ccc_typed st = (ccc_action_ok (jget st ''action'') \<and>
     (case map_of st ''changed'' of None \<Rightarrow> True | Some v \<Rightarrow> is_jbool v))"

text \<open>The invariant the reducer keeps: the slice is typed, and a truthy \<open>changed\<close>
  flag comes with a truthy \<open>feature\<close> (the Commit button of \<open>CCCInterface\<close> is
  enabled by the flag and reads the feature's geometry).\<close>

definition ccc_inv :: "jobj \<Rightarrow> bool" where
  "ccc_inv st = (keys_distinct st \<and> ccc_typed st \<and>
     (js_truthy (jget st ''changed'') \<longrightarrow> js_truthy (jget st ''feature'')))"

text \<open>An action whose data is an object literal (no key twice) that sets \<open>action\<close>,
  if at all, to one of the modes.\<close>

definition wf_action :: "app_action \<Rightarrow> bool" where
  "wf_action a = (case a of ChangeCCCState d \<Rightarrow> keys_distinct d \<and>
     (case map_of d ''action'' of None \<Rightarrow> True | Some v \<Rightarrow> ccc_action_ok v) | _ \<Rightarrow> True)"

lemma ccc_change_map_of:
  "keys_distinct st \<Longrightarrow> map_of (ccc st (ChangeCCCState d)) ''changed'' = Some (JBool (changed_of d))"
  by (simp add: map_of_obj_assign)

lemma jget_ccc_change:
  "keys_distinct st \<Longrightarrow> jget (ccc st (ChangeCCCState d)) k =
     (if k = ''changed'' then JBool (changed_of d)
      else case map_of (rev d) k of None \<Rightarrow> jget st k | Some v \<Rightarrow> v)"
  by (simp add: jget_obj_assign obj_assign_empty_copy)

lemma jget_ccc_change_distinct:
  "keys_distinct st \<Longrightarrow> keys_distinct d \<Longrightarrow> jget (ccc st (ChangeCCCState d)) k =
     (if k = ''changed'' then JBool (changed_of d)
      else if map_of d k = None then jget st k else jget d k)"
  by (subst jget_ccc_change) (auto simp: map_of_rev_distinct jget_def split: option.split)

lemma keys_distinct_ccc [intro]: "keys_distinct st \<Longrightarrow> keys_distinct (ccc st a)"
  by (cases a) (simp_all add: keys_distinct_obj_assign keys_distinct_obj_set)

lemma ccc_typed_ccc:
  assumes st: "keys_distinct st" and d: "keys_distinct d" and typed: "ccc_typed st"
    and act: "case map_of d ''action'' of None \<Rightarrow> True | Some v \<Rightarrow> ccc_action_ok v"
  shows "ccc_typed (ccc st (ChangeCCCState d))"
proof -
  have "ccc_action_ok (jget (ccc st (ChangeCCCState d)) ''action'')"
  proof (cases "map_of d ''action''")
    case None
    with typed show ?thesis
      by (simp del: ccc.simps add: jget_ccc_change_distinct [OF st d] ccc_typed_def)
  next
    case (Some v)
    then have "jget d ''action'' = v" by (simp add: jget_def)
    with Some act show ?thesis
      by (simp del: ccc.simps add: jget_ccc_change_distinct [OF st d])
  qed
  moreover have "map_of (ccc st (ChangeCCCState d)) ''changed'' = Some (JBool (changed_of d))"
    by (rule ccc_change_map_of [OF st])
  ultimately show ?thesis
    by (simp del: ccc.simps add: ccc_typed_def is_jbool_def)
qed

lemma ccc_inv_ccc:
  assumes "ccc_inv st" and "wf_action a"
  shows "ccc_inv (ccc st a)"
proof (cases a)
  case (ChangeCCCState d)
  with assms have d: "keys_distinct d" and st: "keys_distinct st"
    by (simp_all add: wf_action_def ccc_inv_def)
  from assms ChangeCCCState have typed: "ccc_typed (ccc st a)"
    by (simp del: ccc.simps add: ccc_typed_ccc [OF st d] wf_action_def ccc_inv_def)
  have "js_truthy (jget (ccc st a) ''feature'')" if "js_truthy (jget (ccc st a) ''changed'')"
  proof -
    from that ChangeCCCState st have "changed_of d"
      by (simp add: jget_ccc_change_distinct [OF st d] del: ccc.simps)
    then have "js_truthy (jget d ''feature'')" by (simp add: changed_of_def)
    moreover from this have "map_of d ''feature'' \<noteq> None"
      by (auto simp: jget_def split: option.splits)
    ultimately show ?thesis
      using ChangeCCCState by (auto simp: jget_ccc_change_distinct [OF st d] simp del: ccc.simps)
  qed
  with st typed ChangeCCCState show ?thesis
    by (simp add: ccc_inv_def keys_distinct_ccc del: ccc.simps)
qed (use assms in simp_all)

lemma ccc_inv_fold:
  "ccc_inv st \<Longrightarrow> list_all wf_action as \<Longrightarrow> ccc_inv (fold (\<lambda>a st. ccc st a) as st)"
  by (induction as arbitrary: st) (simp_all add: ccc_inv_ccc)

lemma ccc_init_inv: "ccc_inv ccc_init"
  by (simp add: ccc_inv_def ccc_typed_def ccc_action_ok_def ccc_init_def keys_distinct_def)

text \<open>C14: on the abstract map of the object, \<open>CHANGE_CCC_STATE\<close> is the update of
  the old state by the action's data (later keys of the data win), followed by the
  \<open>changed\<close> flag of line 20, which is true exactly when the data has a truthy
  \<open>feature\<close> and a \<open>changed\<close> that is not \<open>false\<close> (a missing one included).\<close>

theorem ccc_change_map:
  assumes "keys_distinct st"
  shows "map_of (ccc st (ChangeCCCState d)) =
    (map_of st ++ map_of (rev d))(''changed'' \<mapsto>
       JBool (js_truthy (jget d ''feature'') \<and> jget d ''changed'' \<noteq> JBool False))"
  using assms by (simp add: map_of_rev_distinct changed_of_def)

theorem ccc_change_map_witness:
  "map_of (ccc ccc_init (ChangeCCCState [(''action'', JStr ''Draw'')])) =
   (map_of ccc_init ++ map_of [(''action'', JStr ''Draw'')])(''changed'' \<mapsto> JBool False)"
  using ccc_change_map [of ccc_init "[(''action'', JStr ''Draw'')]"]
  by (simp add: ccc_init_def keys_distinct_def changed_of_def del: ccc.simps)

end
