(* ===== verification/Store.thy ===== *)
theory Store
  imports CccReducer
begin

text \<open>
  The part of the application's Redux store that the CCC bridge reads back through its
  props: the \<open>ccc\<close> slice (the reducer of this repository), the current task and
  its blocked flag, and the layer list from which the \<open>selector\<close> of
  \<^verbatim>\<open>CCCInterface.jsx\<close> derives the \<open>cccselection\<close> prop. The task and layer
  reducers belong to the qwc2 library, which the sources only call; they are modelled
  here by the behaviour the component relies on (\<open>store_task\<close>, \<open>store_layers\<close>):
  \<^item> \<open>setCurrentTask\<close> does nothing while the current task is blocked, and otherwise
    sets the task and its mode;
  \<^item> \<open>setCurrentTaskBlocked(b)\<close> sets the blocked flag;
  \<^item> \<open>addLayerFeatures(layer, features, clear)\<close> adds the layer if it is missing
    and replaces (\<open>clear\<close>) or extends its features; \<open>removeLayer(id)\<close> drops it.
\<close>

record store =
  st_ccc :: jobj
  st_task :: "string option"
  st_task_mode :: "string option"
  st_blocked :: bool
  st_layers :: "(string \<times> jval list) list"

definition store_init :: store where
  "store_init = \<lparr>st_ccc = ccc_init, st_task = None, st_task_mode = None,
     st_blocked = False, st_layers = []\<rparr>"

fun feature_list :: "jval \<Rightarrow> jval list" where
  "feature_list (JArr fs) = fs"
| "feature_list v = []"

fun store_layers :: "(string \<times> jval list) list \<Rightarrow> app_action \<Rightarrow> (string \<times> jval list) list" where
  "store_layers ls (RemoveLayer lid) = filter (\<lambda>(i, _). i \<noteq> lid) ls"
| "store_layers ls (AddLayerFeatures lid role fs clear) =
     (case map_of ls lid of
        None \<Rightarrow> ls @ [(lid, feature_list fs)]
      | Some old \<Rightarrow> obj_set ls lid (if clear then feature_list fs else old @ feature_list fs))"
| "store_layers ls _ = ls"

fun store_task :: "store \<Rightarrow> app_action \<Rightarrow> store" where
  "store_task s (SetCurrentTask t m c) =
     (if st_blocked s then s else s\<lparr>st_task := t, st_task_mode := m\<rparr>)"
| "store_task s (SetCurrentTaskBlocked b) = s\<lparr>st_blocked := b\<rparr>"
| "store_task s _ = s"

text \<open>One dispatch: every reducer sees the action.\<close>

definition store_dispatch :: "store \<Rightarrow> app_action \<Rightarrow> store" where
  "store_dispatch s a =
     store_task (s\<lparr>st_ccc := ccc (st_ccc s) a, st_layers := store_layers (st_layers s) a\<rparr>) a"

text \<open>The \<open>cccselection\<close> prop of the \<open>selector\<close>:
  \<open>!!(state.layers.flat || []).find(layer => layer.id === 'cccselection')\<close>.\<close>

definition cccselection :: "store \<Rightarrow> bool" where
  "cccselection s = list_ex (\<lambda>(i, _). i = ''cccselection'') (st_layers s)"

lemma store_task_ccc [simp]: "st_ccc (store_task s a) = st_ccc s"
  by (cases a) simp_all

lemma store_task_layers [simp]: "st_layers (store_task s a) = st_layers s"
  by (cases a) simp_all

lemma st_ccc_store_dispatch [simp]: "st_ccc (store_dispatch s a) = ccc (st_ccc s) a"
  by (simp add: store_dispatch_def)

lemma st_layers_store_dispatch [simp]:
  "st_layers (store_dispatch s a) = store_layers (st_layers s) a"
  by (simp add: store_dispatch_def)

lemma st_task_store_dispatch [simp]:
  "st_task (store_dispatch s a) =
     (case a of SetCurrentTask t m c \<Rightarrow> if st_blocked s then st_task s else t | _ \<Rightarrow> st_task s)"
  by (cases a) (simp_all add: store_dispatch_def)

lemma st_blocked_store_dispatch [simp]:
  "st_blocked (store_dispatch s a) =
     (case a of SetCurrentTaskBlocked b \<Rightarrow> b | _ \<Rightarrow> st_blocked s)"
  by (cases a) (simp_all add: store_dispatch_def)

lemma cccselection_remove [simp]:
  "cccselection (store_dispatch s (RemoveLayer ''cccselection'')) = False"
  by (simp add: cccselection_def list_ex_iff)

lemma cccselection_add [simp]:
  "cccselection (store_dispatch s (AddLayerFeatures ''cccselection'' r fs c)) = True"
  by (auto simp: cccselection_def list_ex_iff split: option.split intro: bexI [OF _ obj_set_mem])

end
