(* ===== verification/JsonText.thy ===== *)
theory JsonText
  imports Prelude "HOL-Library.Sublist"
begin

text \<open>
  Text produced from JSON values: \<open>String(v)\<close>, which JavaScript applies when a value
  is concatenated with a string or put in a template literal (\<open>js_str\<close>), and
  \<open>JSON.stringify\<close> (\<open>json_stringify\<close>), the encoding the services expect. With
  them, the ASCII parts of \<open>toLowerCase\<close> and \<open>trim\<close>, which the search box applies
  to the text the user typed. A HOL string is a list of bytes; \<open>toLowerCase\<close> and
  \<open>trim\<close> are modelled on ASCII, and the non-ASCII letters that JavaScript would also
  lower-case (such as the umlauts of a UTF-8 encoded address) are kept as they are.
\<close>

definition dq :: char where "dq = CHR 0x22"

definition bslash :: char where "bslash = CHR 0x5C"

text \<open>\<open>Array.prototype.join(sep)\<close> on strings.\<close>

fun join_sep :: "string \<Rightarrow> string list \<Rightarrow> string" where
  "join_sep sep [] = []"
| "join_sep sep [x] = x"
| "join_sep sep (x # y # xs) = x @ sep @ join_sep sep (y # xs)"

fun nat_str :: "nat \<Rightarrow> string" where
  "nat_str n = (if n < 10 then [char_of (48 + n)] else nat_str (n div 10) @ [char_of (48 + n mod 10)])"

definition int_str :: "int \<Rightarrow> string" where
  "int_str i = (if i < 0 then CHR ''-'' # nat_str (nat (- i)) else nat_str (nat i))"

text \<open>\<open>String(v)\<close>: an array is the comma-joined list of its elements, with
  \<open>null\<close> and \<open>undefined\<close> elements empty.\<close>

fun js_str :: "jval \<Rightarrow> string" where
  "js_str JUndef = ''undefined''"
| "js_str JNull = ''null''"
| "js_str (JBool b) = (if b then ''true'' else ''false'')"
| "js_str (JNum n) = int_str n"
| "js_str (JStr s) = s"
| "js_str (JArr vs) = join_sep '','' (map (\<lambda>v. if v = JNull \<or> v = JUndef then [] else js_str v) vs)"
| "js_str (JObj ob) = ''[object Object]''"

text \<open>\<open>JSON.stringify\<close> of a string: the quotes, the backslash and the control
  characters are escaped.\<close>

definition hex4 :: "nat \<Rightarrow> string" where
  "hex4 n = [CHR ''0'', CHR ''0'', (if n div 16 < 10 then char_of (48 + n div 16) else char_of (87 + n div 16)),
     (if n mod 16 < 10 then char_of (48 + n mod 16) else char_of (87 + n mod 16))]"

definition json_esc :: "char \<Rightarrow> string" where
  "json_esc c =
     (if c = dq then [bslash, dq]
      else if c = bslash then [bslash, bslash]
      else if c = CHR 0x08 then [bslash, CHR ''b'']
      else if c = CHR 0x0C then [bslash, CHR ''f'']
      else if c = CHR 0x0A then [bslash, CHR ''n'']
      else if c = CHR 0x0D then [bslash, CHR ''r'']
      else if c = CHR 0x09 then [bslash, CHR ''t'']
      else if of_char c < (32::nat) then bslash # CHR ''u'' # hex4 (of_char c)
      else [c])"

definition json_quote :: "string \<Rightarrow> string" where
  "json_quote s = dq # concat (map json_esc s) @ [dq]"

text \<open>\<open>JSON.stringify\<close> of a value; \<open>undefined\<close> in an array is written
  \<open>null\<close> and a key whose value is \<open>undefined\<close> is left out.\<close>

fun json_stringify :: "jval \<Rightarrow> string" where
  "json_stringify JUndef = ''null''"
| "json_stringify JNull = ''null''"
| "json_stringify (JBool b) = (if b then ''true'' else ''false'')"
| "json_stringify (JNum n) = int_str n"
| "json_stringify (JStr s) = json_quote s"
| "json_stringify (JArr vs) = CHR ''['' # join_sep '','' (map json_stringify vs) @ '']''"
| "json_stringify (JObj ob) = CHR ''{'' #
     join_sep '','' (map (\<lambda>(k, v). json_quote k @ '':'' @ json_stringify v)
       (filter (\<lambda>(k, v). v \<noteq> JUndef) ob)) @ ''}''"

definition ascii_lower :: "string \<Rightarrow> string" where
  "ascii_lower s = map (\<lambda>c. if (65::nat) \<le> of_char c \<and> of_char c \<le> (90::nat)
     then char_of (of_char c + (32::nat)) else c) s"

definition js_space :: "char \<Rightarrow> bool" where
  "js_space c = (c \<in> {CHR 0x20, CHR 0x09, CHR 0x0A, CHR 0x0B, CHR 0x0C, CHR 0x0D})"

definition js_trim :: "string \<Rightarrow> string" where
  "js_trim s = rev (dropWhile js_space (rev (dropWhile js_space s)))"

text \<open>A string that \<open>JSON.stringify\<close> writes between its quotes unchanged.\<close>

definition json_plain :: "string \<Rightarrow> bool" where
  "json_plain s = (\<forall>c \<in> set s. c \<noteq> dq \<and> c \<noteq> bslash \<and> (32::nat) \<le> of_char c)"

text \<open>The numbers of the model are integers. \<open>ToNumber\<close> of a string reads an optional
  sign and decimal digits between white space, and the empty string as 0; the other
  numeric strings (fractions, exponents, hexadecimal, \<open>Infinity\<close>) are not integers of
  the model and read as \<open>NaN\<close>, written \<open>None\<close>.\<close>

fun dec_digits :: "nat \<Rightarrow> string \<Rightarrow> nat option" where
  "dec_digits n [] = Some n"
| "dec_digits n (c # cs) =
     (if (48::nat) \<le> of_char c \<and> of_char c \<le> (57::nat) then dec_digits (10 * n + (of_char c - 48)) cs
      else None)"

definition js_str_num :: "string \<Rightarrow> int option" where
  "js_str_num s =
     (let t = js_trim s in
      if t = [] then Some 0
      else if hd t = CHR ''-'' then (if tl t = [] then None else map_option (\<lambda>n. - int n) (dec_digits 0 (tl t)))
      else if hd t = CHR ''+'' then (if tl t = [] then None else map_option int (dec_digits 0 (tl t)))
      else map_option int (dec_digits 0 t))"

text \<open>\<open>ToPrimitive\<close>: an object or an array becomes its string.\<close>

definition js_prim :: "jval \<Rightarrow> jval" where
  "js_prim v = (case v of JArr _ \<Rightarrow> JStr (js_str v) | JObj _ \<Rightarrow> JStr (js_str v) | _ \<Rightarrow> v)"

fun js_to_number :: "jval \<Rightarrow> int option" where
  "js_to_number JUndef = None"
| "js_to_number JNull = Some 0"
| "js_to_number (JBool b) = Some (if b then 1 else 0)"
| "js_to_number (JNum n) = Some n"
| "js_to_number (JStr s) = js_str_num s"
| "js_to_number v = js_str_num (js_str v)"

text \<open>\<open>a < b\<close> on two strings: the order of their code units.\<close>

fun str_lt :: "string \<Rightarrow> string \<Rightarrow> bool" where
  "str_lt [] ys = (ys \<noteq> [])"
| "str_lt (x # xs) [] = False"
| "str_lt (x # xs) (y # ys) = ((of_char x :: nat) < of_char y \<or> (x = y \<and> str_lt xs ys))"

text \<open>\<open>a < b\<close>: two strings compare as strings, anything else as numbers, and a
  comparison with \<open>NaN\<close> is false.\<close>

definition js_lt :: "jval \<Rightarrow> jval \<Rightarrow> bool" where
  "js_lt a b =
     (case (js_prim a, js_prim b) of
        (JStr x, JStr y) \<Rightarrow> str_lt x y
      | (pa, pb) \<Rightarrow> (case (js_to_number pa, js_to_number pb) of
          (Some x, Some y) \<Rightarrow> x < y
        | _ \<Rightarrow> False))"

text \<open>\<open>a + b\<close> where neither side is \<open>undefined\<close>: a string on either side
  concatenates, otherwise the numbers are added.\<close>

definition num_or_zero :: "jval \<Rightarrow> int" where
  "num_or_zero v = (case js_to_number v of Some n \<Rightarrow> n | None \<Rightarrow> 0)"

definition js_add :: "jval \<Rightarrow> jval \<Rightarrow> jval" where
  "js_add a b =
     (let pa = js_prim a; pb = js_prim b in
      case (pa, pb) of
        (JStr _, _) \<Rightarrow> JStr (js_str pa @ js_str pb)
      | (_, JStr _) \<Rightarrow> JStr (js_str pa @ js_str pb)
      | _ \<Rightarrow> JNum (num_or_zero pa + num_or_zero pb))"

lemma json_esc_length: "1 \<le> length (json_esc c)"
  by (simp add: json_esc_def hex4_def)

lemma json_esc_concat_length:
  "length s + (if dq \<in> set s then 1 else 0) \<le> length (concat (map json_esc s))"
proof (induction s)
  case (Cons c s)
  have "c = dq \<Longrightarrow> length (json_esc c) = 2" by (simp add: json_esc_def)
  with Cons json_esc_length [of c] show ?case by (auto split: if_splits)
qed simp

lemma json_quote_length: "length s + 2 + (if dq \<in> set s then 1 else 0) \<le> length (json_quote s)"
  using json_esc_concat_length [of s] by (simp add: json_quote_def)

lemma json_esc_plain: "c \<noteq> dq \<Longrightarrow> c \<noteq> bslash \<Longrightarrow> (32::nat) \<le> of_char c \<Longrightarrow> json_esc c = [c]"
  by (auto simp: json_esc_def)

lemma json_quote_plain: "json_plain s \<Longrightarrow> json_quote s = dq # s @ [dq]"
proof -
  assume "json_plain s"
  then have "concat (map json_esc s) = s"
    by (induction s) (auto simp: json_plain_def json_esc_plain)
  then show ?thesis by (simp add: json_quote_def)
qed

end
