(* ===== verification/CccZoom.thy ===== *)
theory CccZoom
  imports JsonText
begin

text \<open>
  The zoom helpers of \<^verbatim>\<open>src/js/plugins/CCCInterface.jsx\<close>:
  \<open>getMaxZoomForMinScale\<close> (lines 233--245), the extent test of \<open>zoomToFeature\<close>
  (lines 222--232) and the centre computed by \<open>processZoomTo\<close> (lines 202--221).
  The extent of a GeoJSON geometry is computed by OpenLayers
  (\<open>new GeoJSON().readFeature(feature).getGeometry().getExtent()\<close>); it is modelled by
  \<open>geometry_extent\<close>: OpenLayers reads the geometry (\<open>geometry_points\<close>: the
  coordinate pairs of the six simple GeoJSON types and of a \<open>GeometryCollection\<close>, an
  \<open>Error\<close> for an unknown type, a TypeError for a missing geometry) and takes the
  bounding box of its points, or the empty extent of a geometry without points. The
  coordinates of the simple types are taken to be nested arrays of numbers, as GeoJSON
  requires.
\<close>

text \<open>\<open>scales[i] < minScale\<close> with a number on the left (\<open>JsonText.js_lt\<close>):
  \<open>null\<close>, booleans and numeric strings convert to numbers, \<open>undefined\<close>,
  objects and other strings to \<open>NaN\<close>, for which every comparison is false.\<close>

definition js_num_lt :: "int \<Rightarrow> jval \<Rightarrow> bool" where
  "js_num_lt n v = js_lt (JNum n) v"

text \<open>The loop \<open>for (i = 0; i < scales.length; ++i) { if (scales[i] < minScale) break;
  else maxZoom = i; }\<close>, over the remaining scales, the index \<open>i\<close> and \<open>maxZoom\<close>.\<close>

fun maxZoom_loop :: "(int \<Rightarrow> bool) \<Rightarrow> int list \<Rightarrow> nat \<Rightarrow> nat \<Rightarrow> nat" where
  "maxZoom_loop below [] i maxZoom = maxZoom"
| "maxZoom_loop below (sc # scs) i maxZoom =
     (if below sc then maxZoom else maxZoom_loop below scs (Suc i) i)"

definition getMaxZoomForMinScale :: "int list \<Rightarrow> jval \<Rightarrow> nat" where
  "getMaxZoomForMinScale scales minScale =
     maxZoom_loop (\<lambda>sc. js_num_lt sc minScale) scales 0 0"

text \<open>The reference: the last index of the longest prefix of scales none of which is
  below the minimum scale, or 0 when that prefix is empty.\<close>

definition maxZoom_spec :: "(int \<Rightarrow> bool) \<Rightarrow> int list \<Rightarrow> nat" where
  "maxZoom_spec below scales = length (takeWhile (\<lambda>sc. \<not> below sc) scales) - 1"

fun flat_coords :: "jval \<Rightarrow> (int \<times> int) list" where
  "flat_coords (JArr (JNum x # JNum y # _)) = [(x, y)]"
| "flat_coords (JArr vs) = concat (map flat_coords vs)"
| "flat_coords _ = []"

definition bbox_of :: "(int \<times> int) list \<Rightarrow> (int \<times> int \<times> int \<times> int) option" where
  "bbox_of ps = (case ps of [] \<Rightarrow> None | p # qs \<Rightarrow>
     Some (fold min (map fst qs) (fst p), fold min (map snd qs) (snd p),
           fold max (map fst qs) (fst p), fold max (map snd qs) (snd p)))"

definition geojson_types :: "string list" where
  "geojson_types = [''Point'', ''MultiPoint'', ''LineString'', ''MultiLineString'',
     ''Polygon'', ''MultiPolygon'']"

text \<open>OpenLayers' \<open>readGeometry\<close>: a falsy geometry is none, so that
  \<open>getGeometry().getExtent()\<close> throws a TypeError; an unknown \<open>type\<close> throws
  \<open>Error('Unsupported GeoJSON type')\<close>; a \<open>GeometryCollection\<close> reads each of its
  \<open>geometries\<close> in turn (\<open>.map\<close>, a TypeError on a non-array). The result is the
  list of coordinate pairs of the geometry.\<close>

function geometry_points :: "jval \<Rightarrow> js_error + (int \<times> int) list"
  and collection_points :: "jval \<Rightarrow> js_error + (int \<times> int) list" where
  "geometry_points (JObj ob) =
     (case jget ob ''type'' of
        JStr t \<Rightarrow> if t \<in> set geojson_types then Inr (flat_coords (jget ob ''coordinates''))
                 else if t = ''GeometryCollection'' then collection_points (jget ob ''geometries'')
                 else Inl Error
      | _ \<Rightarrow> Inl Error)"
| "geometry_points (JArr vs) = Inl Error"
| "geometry_points (JStr t) = (if t = [] then Inl TypeError else Inl Error)"
| "geometry_points (JNum n) = (if n = 0 then Inl TypeError else Inl Error)"
| "geometry_points (JBool b) = (if b then Inl Error else Inl TypeError)"
| "geometry_points JNull = Inl TypeError"
| "geometry_points JUndef = Inl TypeError"
| "collection_points (JArr []) = Inr []"
| "collection_points (JArr (g # gs)) =
     js_seq (geometry_points g) (\<lambda>p. js_seq (collection_points (JArr gs)) (\<lambda>q. Inr (p @ q)))"
| "collection_points (JObj ob) = Inl TypeError"
| "collection_points (JStr t) = Inl TypeError"
| "collection_points (JNum n) = Inl TypeError"
| "collection_points (JBool b) = Inl TypeError"
| "collection_points JNull = Inl TypeError"
| "collection_points JUndef = Inl TypeError"
  by pat_completeness auto

termination
proof (relation "measure (case_sum size size)")
  have sz: "size (jget ob k) < size (JObj ob)" for ob k
  proof (cases "map_of ob k")
    case (Some v)
    then have "(k, v) \<in> set ob" by (rule map_of_SomeD)
    then have "size v < size (JObj ob)" by (induction ob) auto
    with Some show ?thesis by (simp add: jget_def)
  qed (simp add: jget_def)
  fix ob :: jobj and t
  show "(Inr (jget ob ''geometries''), Inl (JObj ob)) \<in> measure (case_sum size size)"
    using sz [of ob "''geometries''"] by simp
qed auto

text \<open>\<open>getExtent()\<close>: the bounding box of the points, \<open>None\<close> for the empty extent
  \<open>[Infinity, Infinity, -Infinity, -Infinity]\<close> of a geometry without points.\<close>

definition geometry_extent :: "jval \<Rightarrow> js_error + (int \<times> int \<times> int \<times> int) option" where
  "geometry_extent g = js_seq (geometry_points g) (\<lambda>ps. Inr (bbox_of ps))"

text \<open>\<open>[0.5 * (e[0] + e[2]), 0.5 * (e[1] + e[3])]\<close>.\<close>

definition extent_center :: "int \<times> int \<times> int \<times> int \<Rightarrow> real \<times> real" where
  "extent_center e = (case e of (x1, y1, x2, y2) \<Rightarrow>
     (0.5 * (of_int x1 + of_int x2), 0.5 * (of_int y1 + of_int y2)))"

text \<open>\<open>extent[0] == extent[2] || extent[1] == extent[3]\<close>: a point or an axis-parallel
  segment, which \<open>zoomToFeature\<close> zooms to as a point.\<close>

definition degenerate_extent :: "int \<times> int \<times> int \<times> int \<Rightarrow> bool" where
  "degenerate_extent e = (case e of (x1, y1, x2, y2) \<Rightarrow> x1 = x2 \<or> y1 = y2)"

text \<open>A bounding box \<open>[x1, y1, x2, y2]\<close> read from JSON.\<close>

fun bbox4 :: "jval \<Rightarrow> (int \<times> int \<times> int \<times> int) option" where
  "bbox4 (JArr (JNum a # JNum b # JNum c # JNum d # _)) = Some (a, b, c, d)"
| "bbox4 _ = None"

lemma js_num_lt_JNum [simp]: "js_num_lt n (JNum m) = (n < m)"
  by (simp add: js_num_lt_def js_lt_def js_prim_def)

lemma maxZoom_loop_spec:
  "maxZoom_loop below scs i mz =
     (if takeWhile (\<lambda>sc. \<not> below sc) scs = [] then mz
      else i + length (takeWhile (\<lambda>sc. \<not> below sc) scs) - 1)"
  by (induction below scs i mz rule: maxZoom_loop.induct) auto

text \<open>C12: the loop of \<open>getMaxZoomForMinScale\<close> computes its reference: the last index
  of the longest prefix of the scales none of which is below the minimum scale, and 0 when
  the first scale is already below it.\<close>

theorem getMaxZoomForMinScale_spec:
  "getMaxZoomForMinScale scales minScale = maxZoom_spec (\<lambda>sc. js_num_lt sc minScale) scales"
  by (simp add: getMaxZoomForMinScale_def maxZoom_spec_def maxZoom_loop_spec)

text \<open>C13: the zoom level \<open>getMaxZoomForMinScale\<close> returns is an index of the scale
  list, so it is a level the map has.\<close>

theorem getMaxZoomForMinScale_bound:
  assumes "scales \<noteq> []"
  shows "getMaxZoomForMinScale scales minScale < length scales"
proof -
  let ?n = "length (takeWhile (\<lambda>sc. \<not> js_num_lt sc minScale) scales)"
  have "?n \<le> length scales" by (rule length_takeWhile_le)
  moreover have pos: "0 < length scales" using assms by simp
  ultimately have "?n - 1 < length scales" by linarith
  with pos show ?thesis
    by (simp add: getMaxZoomForMinScale_def maxZoom_loop_spec)
qed

theorem getMaxZoomForMinScale_bound_witness:
  "getMaxZoomForMinScale [1000, 500, 250] (JNum 400) = 1 \<and>
   getMaxZoomForMinScale [1000, 500, 250] (JNum 400) < length [1000, 500, 250::int]"
  using getMaxZoomForMinScale_bound [of "[1000, 500, 250]" "JNum 400"]
  by (simp add: getMaxZoomForMinScale_def)

end
