(* ===== verification/UriEncoding.thy ===== *)
theory UriEncoding
  imports Prelude
begin

text \<open>
  \<open>encodeURIComponent\<close>, which \<open>CCCInterface.initialize\<close> applies to the
  \<open>appintegration\<close> parameter and \<open>Autologin\<close> to the return URL, and its inverse
  \<open>decodeURIComponent\<close>, which the receiving service applies. A HOL \<open>char\<close> is a
  byte, so a string is its UTF-8 encoding and the percent-encoding is byte-wise, as
  ECMAScript specifies it: the unreserved characters
  \<open>A-Z a-z 0-9 - _ . ! ~ * ' ( )\<close> stay, every other byte becomes \<open>%XX\<close> with
  upper-case hexadecimal digits.
\<close>

definition uri_unreserved :: "char \<Rightarrow> bool" where
  "uri_unreserved c = (let n = of_char c :: nat in
     (65 \<le> n \<and> n \<le> 90) \<or> (97 \<le> n \<and> n \<le> 122) \<or> (48 \<le> n \<and> n \<le> 57) \<or>
     n \<in> {45, 95, 46, 33, 126, 42, 39, 40, 41})"

definition hex_digit :: "nat \<Rightarrow> char" where
  "hex_digit n = char_of (if n < 10 then 48 + n else 55 + n)"

definition hex_value :: "char \<Rightarrow> nat option" where
  "hex_value c = (let n = of_char c :: nat in
     if 48 \<le> n \<and> n \<le> 57 then Some (n - 48)
     else if 65 \<le> n \<and> n \<le> 70 then Some (n - 55)
     else if 97 \<le> n \<and> n \<le> 102 then Some (n - 87)
     else None)"

definition pct_encode :: "char \<Rightarrow> string" where
  "pct_encode c = (if uri_unreserved c then [c]
     else [CHR ''%'', hex_digit (of_char c div 16), hex_digit (of_char c mod 16)])"

definition encodeURIComponent :: "string \<Rightarrow> string" where
  "encodeURIComponent s = concat (map pct_encode s)"

text \<open>Decoding fails (\<open>URIError\<close>, here \<open>None\<close>) on a \<open>%\<close> that is not followed
  by two hexadecimal digits.\<close>

fun decodeURIComponent :: "string \<Rightarrow> string option" where
  "decodeURIComponent [] = Some []"
| "decodeURIComponent (c # cs) =
     (if c = CHR ''%'' then
        (case cs of
           h1 # h2 # rest \<Rightarrow>
             (case (hex_value h1, hex_value h2) of
                (Some a, Some b) \<Rightarrow> map_option (Cons (char_of (16 * a + b))) (decodeURIComponent rest)
              | _ \<Rightarrow> None)
         | _ \<Rightarrow> None)
      else map_option (Cons c) (decodeURIComponent cs))"

lemma hex_value_hex_digit [simp]: "n < 16 \<Longrightarrow> hex_value (hex_digit n) = Some n"
  by (simp add: hex_value_def hex_digit_def Let_def)

lemma unreserved_not_percent: "uri_unreserved c \<Longrightarrow> c \<noteq> CHR ''%''"
  by (auto simp: uri_unreserved_def)

lemma of_char_div_16 [simp]: "of_char c div 16 < (16::nat)"
  using nat_of_char_less_256 [of c] by linarith

lemma char_of_hex_split [simp]: "char_of (16 * (of_char c div 16) + of_char c mod (16::nat)) = c"
  by simp

lemma decode_encode_append:
  "decodeURIComponent (encodeURIComponent s @ t) = map_option ((@) s) (decodeURIComponent t)"
  by (induction s) (auto simp: encodeURIComponent_def pct_encode_def unreserved_not_percent option.map_comp o_def option.map_ident)

text \<open>Decoding an encoded string gives the string back.\<close>

lemma decode_encode_URIComponent:
  "decodeURIComponent (encodeURIComponent s) = Some s"
  by (induction s) (auto simp: encodeURIComponent_def pct_encode_def unreserved_not_percent)

end
