(* ===== verification/CccInterface.thy ===== *)
theory CccInterface
  imports Store CccZoom UriEncoding JsonText
begin

text \<open>
  The collaborative-editing bridge \<open>CCCInterface\<close> of
  \<^verbatim>\<open>src/js/plugins/CCCInterface.jsx\<close>: its state and one definition per method.
  The state \<open>ccc_sys\<close> joins what the code keeps in four places: the module variables
  \<open>CccConnection\<close> (here only whether it is \<open>null\<close>) and \<open>CccAppConfig\<close>; the
  instance fields \<open>ready\<close>, \<open>session\<close>, \<open>currentContext\<close>; the React state
  \<open>status\<close>; and the Redux store the props are read from. Three more fields record
  the environment the handlers run in: the browser's state of the WebSocket (\<open>sock\<close>),
  whether the configuration request and how many zoom requests are outstanding, and
  whether the component has mounted. Everything the handlers do to the outside is
  appended to \<open>effects\<close> in program order: Redux dispatches (which also update
  \<open>store\<close>), WebSocket sends, HTTP requests, the document title, alerts, and an
  exception that escapes a handler (\<open>Uncaught\<close>).

  A handler that can throw returns an \<open>outcome\<close>: \<open>Inr\<close> of the final state, or
  \<open>Inl\<close> of the error and the state reached when it was thrown (the effects performed
  before the throw stay, as in the browser). \<open>finish\<close> turns the outcome of an event
  handler into the next state.
\<close>

datatype status = NORMAL | CONFIG_ERROR | CONNECTION_ERROR

datatype sock_state = NoSocket | Connecting | Open | Failing | Closed

datatype effect =
    Dispatch app_action
  | Send jval
  | HttpGet string
  | HttpPost string jval
  | SetTitle jval
  | Alert jval
  | Uncaught js_error

text \<open>The constants the component reads: the \<open>cccConfigService\<close> entry of the
  application configuration, the \<open>session\<close> and \<open>appintegration\<close> URL parameters,
  the \<open>themes\<close> prop and the map scales of the props.\<close>

record ccc_env =
  env_cccConfigService :: string
  env_sessionParam :: "string option"
  env_appintegrationParam :: "string option"
  env_themes :: jval
  env_scales :: "int list"

record ccc_sys =
  mounted :: bool
  cccConnection :: bool
  cccAppConfig :: jval
  ready :: bool
  session :: jval
  currentContext :: jval
  status :: status
  sock :: sock_state
  pendingConfig :: bool
  pendingZoom :: nat
  store :: store
  effects :: "effect list"

type_synonym outcome = "(js_error \<times> ccc_sys) + ccc_sys"

definition finish :: "outcome \<Rightarrow> ccc_sys" where
  "finish r = (case r of
     Inl (e, s) \<Rightarrow> s\<lparr>effects := effects s @ [Uncaught e]\<rparr>
   | Inr s \<Rightarrow> s)"

definition emit :: "effect \<Rightarrow> ccc_sys \<Rightarrow> ccc_sys" where
  "emit e s = s\<lparr>effects := effects s @ [e]\<rparr>"

text \<open>A call of one of the action props: the store runs its reducers.\<close>

definition dispatch :: "app_action \<Rightarrow> ccc_sys \<Rightarrow> ccc_sys" where
  "dispatch a s = s\<lparr>store := store_dispatch (store s) a, effects := effects s @ [Dispatch a]\<rparr>"

definition dispatch_all :: "app_action list \<Rightarrow> ccc_sys \<Rightarrow> ccc_sys" where
  "dispatch_all as s = fold dispatch as s"

text \<open>\<open>UrlParams.getParam(name)\<close>: the parameter's string, or \<open>undefined\<close>.\<close>

definition param_val :: "string option \<Rightarrow> jval" where
  "param_val p = (case p of None \<Rightarrow> JUndef | Some v \<Rightarrow> JStr v)"

definition reset :: "ccc_sys \<Rightarrow> ccc_sys" where
  "reset s = s\<lparr>cccConnection := False, cccAppConfig := JNull, ready := False,
     session := JNull, currentContext := JNull\<rparr>"

text \<open>The constructor (which calls \<open>reset\<close>) and the initial React state.\<close>

definition ccc_sys_init :: ccc_sys where
  "ccc_sys_init = \<lparr>mounted = False, cccConnection = False, cccAppConfig = JNull,
     ready = False, session = JNull, currentContext = JNull, status = NORMAL,
     sock = NoSocket, pendingConfig = False, pendingZoom = 0, store = store_init,
     effects = []\<rparr>"

definition initialize :: "ccc_env \<Rightarrow> ccc_sys \<Rightarrow> ccc_sys" where
  "initialize E s =
     (let s1 = s\<lparr>session := param_val (env_sessionParam E)\<rparr> in
      if js_truthy (session s1) \<and> js_truthy (param_val (env_appintegrationParam E)) then
        emit (HttpGet (env_cccConfigService E @ ''?app='' @
                encodeURIComponent (the (env_appintegrationParam E))))
          (s1\<lparr>session := JStr (''{'' @ the (env_sessionParam E) @ ''}''), pendingConfig := True\<rparr>)
      else s1)"

text \<open>\<open>componentDidMount\<close> and \<open>componentWillReceiveProps\<close>: \<open>initialize\<close> runs
  once, when the themes are first available.\<close>

definition mount :: "ccc_env \<Rightarrow> ccc_sys \<Rightarrow> ccc_sys" where
  "mount E s = (if mounted s then s else initialize E (s\<lparr>mounted := True\<rparr>))"

text \<open>\<open>loadTheme\<close>: \<open>props.themes.items.find(theme => theme.name === CccAppConfig.map)\<close>,
  which throws on a missing \<open>items\<close> and on a \<open>null\<close> theme before the match.\<close>

definition loadTheme :: "ccc_env \<Rightarrow> ccc_sys \<Rightarrow> js_error + ccc_sys" where
  "loadTheme E s =
     js_seq (js_prop (env_themes E) ''items'') (\<lambda>items.
     js_seq (js_array items) (\<lambda>ths.
     js_seq (find_by ''name'' (field (cccAppConfig s) ''map'') ths) (\<lambda>th.
       case th of
         Some th \<Rightarrow> Inr (dispatch (SetCurrentTheme th) s)
       | None \<Rightarrow> Inr s)))"

text \<open>\<open>new WebSocket(CccAppConfig.cccServer)\<close> throws a SyntaxError when the browser
  rejects the URL; \<open>url_ok\<close> is the browser's verdict.\<close>

definition createWebSocket :: "bool \<Rightarrow> ccc_sys \<Rightarrow> js_error + ccc_sys" where
  "createWebSocket url_ok s =
     (if url_ok then Inr (s\<lparr>cccConnection := True, sock := Connecting\<rparr>) else Inl SyntaxError)"

text \<open>The \<open>catch\<close> of the configuration request: it also catches every exception
  thrown in the \<open>then\<close> callback.\<close>

definition configFailed :: "ccc_sys \<Rightarrow> ccc_sys" where
  "configFailed s = reset (s\<lparr>pendingConfig := False, status := CONFIG_ERROR\<rparr>)"

definition configLoaded :: "ccc_env \<Rightarrow> jval \<Rightarrow> bool \<Rightarrow> ccc_sys \<Rightarrow> ccc_sys" where
  "configLoaded E data url_ok s =
     (let s1 = s\<lparr>pendingConfig := False, cccAppConfig := data\<rparr> in
      case js_prop data ''title'' of
        Inl e \<Rightarrow> configFailed s1
      | Inr t \<Rightarrow>
          (case loadTheme E (emit (SetTitle t) s1) of
             Inl e \<Rightarrow> configFailed (emit (SetTitle t) s1)
           | Inr s2 \<Rightarrow>
              (case createWebSocket url_ok s2 of
                 Inl e \<Rightarrow> configFailed s2
               | Inr s3 \<Rightarrow> s3)))"

text \<open>\<open>CccConnection.send(m)\<close> on a connection that is not \<open>null\<close>: the browser
  throws an InvalidStateError while the socket is connecting, sends on an open socket,
  and discards the data on a closing or closed one.\<close>

definition ws_transmit :: "jval \<Rightarrow> ccc_sys \<Rightarrow> outcome" where
  "ws_transmit m s = (case sock s of
     Open \<Rightarrow> Inr (emit (Send m) s)
   | Connecting \<Rightarrow> Inl (InvalidStateError, s)
   | _ \<Rightarrow> Inr s)"

definition connectGis_msg :: "jval \<Rightarrow> jval" where
  "connectGis_msg sess = JObj [(''apiVersion'', JStr ''1.0''), (''method'', JStr ''connectGis''),
     (''session'', sess), (''clientName'', JStr ''Web GIS Client'')]"

definition onopen :: "ccc_sys \<Rightarrow> ccc_sys" where
  "onopen s =
     (let s1 = s\<lparr>sock := Open\<rparr> in
      if js_truthy (session s1) then
        finish (if cccConnection s1 then ws_transmit (connectGis_msg (session s1)) s1
                else Inl (TypeError, s1))
      else s1)"

definition onclose :: "ccc_sys \<Rightarrow> ccc_sys" where
  "onclose s = reset (s\<lparr>sock := Closed, status := CONNECTION_ERROR\<rparr>)"

definition onerror :: "ccc_sys \<Rightarrow> ccc_sys" where
  "onerror s = reset (s\<lparr>sock := Failing, status := CONNECTION_ERROR\<rparr>)"

definition stopEdit :: "ccc_sys \<Rightarrow> ccc_sys" where
  "stopEdit s = dispatch_all
     [ChangeCCCState [(''action'', JNull), (''geomType'', JNull)],
      RemoveLayer ''cccselection'', SetCurrentTaskBlocked False, SetCurrentTask None None None] s"

definition processZoomTo :: "ccc_env \<Rightarrow> jval \<Rightarrow> ccc_sys \<Rightarrow> ccc_sys" where
  "processZoomTo E zoomTo s =
     emit (HttpPost (strip_trailing_slash (env_cccConfigService E) @ ''/zoomTo'') zoomTo)
       (s\<lparr>pendingZoom := Suc (pendingZoom s)\<rparr>)"

text \<open>The \<open>then\<close> callback of the zoom request. \<open>zfe\<close> is what qwc2's
  \<open>MapUtils.getZoomForExtent\<close> returns for the reprojected box. qwc2's
  \<open>reprojectBbox\<close> reads \<open>bbox[0]\<close>: a missing box throws a TypeError, which
  rejects the promise of the request; it has no \<open>catch\<close> (\<open>Uncaught\<close>). A box
  that is not four integers gives \<open>NaN\<close> coordinates, which the integer model does not
  hold; no zoom is modelled for it.\<close>

definition processZoomTo_then :: "ccc_env \<Rightarrow> jval \<Rightarrow> int \<Rightarrow> ccc_sys \<Rightarrow> ccc_sys" where
  "processZoomTo_then E data zfe s =
     (let s0 = s\<lparr>pendingZoom := pendingZoom s - 1\<rparr> in
      if js_truthy data \<and> js_truthy (field data ''result'') then
        (let result = field data ''result'';
             maxZoom = int (getMaxZoomForMinScale (env_scales E) (field result ''minScale''))
         in case bbox4 (field result ''bbox'') of
              None \<Rightarrow> if field result ''bbox'' = JNull \<or> field result ''bbox'' = JUndef
                      then s0\<lparr>effects := effects s0 @ [Uncaught TypeError]\<rparr> else s0
            | Some bb \<Rightarrow>
                (let s1 = dispatch (ZoomToPoint (extent_center bb) (min maxZoom (zfe - 1))
                            (field result ''crs'')) s0 in
                 if js_truthy (field result ''features'')
                 then dispatch (AddLayerFeatures ''cccselection'' SELECTION (field result ''features'') True) s1
                 else s1))
      else s0)"

definition zoomToFeature :: "ccc_env \<Rightarrow> jval \<Rightarrow> ccc_sys \<Rightarrow> outcome" where
  "zoomToFeature E feature s =
     (case geometry_extent (field feature ''geometry'') of
        Inl e \<Rightarrow> Inl (e, s)
      | Inr None \<Rightarrow> Inr (dispatch (ZoomToExtent None (JStr ''EPSG:2056'')) s)
      | Inr (Some ext) \<Rightarrow>
          if degenerate_extent ext then
            (case js_prop (cccAppConfig s) ''minEditScale'' of
               Inl e \<Rightarrow> Inl (e, s)
             | Inr ms \<Rightarrow> Inr (dispatch (ZoomToPoint (extent_center ext)
                   (int (getMaxZoomForMinScale (env_scales E) ms)) (JStr ''EPSG:2056'')) s))
          else Inr (dispatch (ZoomToExtent (Some ext) (JStr ''EPSG:2056'')) s))"

definition geo_feature :: "string \<Rightarrow> jval \<Rightarrow> jval" where
  "geo_feature uid data = JObj [(''type'', JStr ''Feature''), (''id'', JStr uid), (''geometry'', data)]"

text \<open>\<open>processWebSocketMessage\<close> (lines 137--201). \<open>parsed\<close> is the result of
  \<open>JSON.parse(ev.data)\<close>, \<open>None\<close> when it throws (the message is then \<open>{}\<close>);
  \<open>uid\<close> is the value \<open>uuid.v4()\<close> returns. Reading \<open>message.method\<close> throws
  when the message is \<open>null\<close>; after that every read of a property of the message
  succeeds. The first three method tests use \<open>==\<close>, the last three \<open>===\<close>.\<close>

definition processWebSocketMessage :: "ccc_env \<Rightarrow> jval option \<Rightarrow> string \<Rightarrow> ccc_sys \<Rightarrow> outcome" where
  "processWebSocketMessage E parsed uid s =
     (let message = (case parsed of None \<Rightarrow> JObj [] | Some v \<Rightarrow> v) in
      if message = JNull then Inl (TypeError, s) else
      let method = field message ''method'';
          ctx = field message ''context'';
          s1 = (if js_truthy ctx then s\<lparr>currentContext := ctx\<rparr> else s)
      in
      if loose_eq_str method ''notifySessionReady'' then Inr (s1\<lparr>ready := True\<rparr>)
      else if loose_eq_str method ''notifyError'' then Inr (emit (Alert (field message ''message'')) s1)
      else if loose_eq_str method ''createGeoObject'' then
        (let s2 = stopEdit s1;
             zoomTo = field message ''zoomTo'';
             s3 = (if js_strict_eq zoomTo JNull then s2 else processZoomTo E zoomTo s2)
         in case js_prop (cccAppConfig s3) ''editGeomType'' of
              Inl e \<Rightarrow> Inl (e, s3)
            | Inr gt \<Rightarrow> Inr (dispatch_all
                [ChangeCCCState [(''action'', JStr ''Draw''), (''geomType'', gt)],
                 SetCurrentTask (Some ''CccEdit'') None None, SetCurrentTaskBlocked True] s3))
      else if loose_eq_str method ''editGeoObject'' then
        (let s2 = stopEdit s1;
             data = field message ''data'';
             feature = geo_feature uid data
         in case zoomToFeature E feature s2 of
              Inl err \<Rightarrow> Inl err
            | Inr s3 \<Rightarrow>
                (case js_prop data ''type'' of
                   Inl e \<Rightarrow> Inl (e, s3)
                 | Inr gt \<Rightarrow> Inr (dispatch_all
                     [ChangeCCCState [(''action'', JStr ''Edit''), (''geomType'', gt), (''feature'', feature)],
                      SetCurrentTask (Some ''CccEdit'') None None, SetCurrentTaskBlocked True] s3)))
      else if strict_eq_str method ''cancelEditGeoObject'' then Inr (stopEdit s1)
      else if strict_eq_str method ''notifyObjectUpdated'' then Inr (dispatch (RefreshLayer THEME) s1)
      else if strict_eq_str method ''showGeoObject'' then
        (let s2 = stopEdit s1;
             feature = geo_feature uid (field message ''data'')
         in case zoomToFeature E feature s2 of
              Inl err \<Rightarrow> Inl err
            | Inr s3 \<Rightarrow> Inr (dispatch_all
                [AddLayerFeatures ''cccselection'' SELECTION (JArr [feature]) True,
                 ChangeCCCState [(''action'', JStr ''Show'')],
                 SetCurrentTask (Some ''CccEdit'') None (Some ''identify'')] s3))
      else Inr s1)"

definition commit_msg :: "jval \<Rightarrow> jval \<Rightarrow> jval" where
  "commit_msg ctx geom = JObj [(''apiVersion'', JStr ''1.0''),
     (''method'', JStr ''notifyEditGeoObjectDone''), (''context'', ctx), (''data'', geom)]"

text \<open>\<open>buttonClicked\<close> (lines 289--303). For Commit, JavaScript reads
  \<open>CccConnection.send\<close> (a TypeError on \<open>null\<close>) before it evaluates the argument,
  which reads \<open>this.props.ccc.feature.geometry\<close>, and calls \<open>send\<close> last.\<close>

definition buttonClicked :: "string \<Rightarrow> ccc_sys \<Rightarrow> outcome" where
  "buttonClicked key s =
     (let cs = st_ccc (store s) in
      if key = ''Commit'' then
        (if \<not> cccConnection s then Inl (TypeError, s) else
         case js_prop (jget cs ''feature'') ''geometry'' of
           Inl e \<Rightarrow> Inl (e, s)
         | Inr geom \<Rightarrow>
             (case ws_transmit (commit_msg (currentContext s) geom) s of
                Inl err \<Rightarrow> Inl err
              | Inr s1 \<Rightarrow> Inr (stopEdit s1)))
      else if key = ''Cancel'' \<or> (key = ''Deselect'' \<and> strict_eq_str (jget cs ''action'') ''Show'')
      then Inr (stopEdit s)
      else if key = ''Deselect'' then Inr (dispatch (RemoveLayer ''cccselection'') s)
      else Inr s)"

text \<open>The buttons of \<open>renderBody\<close>, each with its \<open>disabled\<close> flag.\<close>

definition renderBody_buttons :: "store \<Rightarrow> (string \<times> bool) list" where
  "renderBody_buttons st =
     (let act = jget (st_ccc st) ''action'' in
      (if strict_eq_str act ''Draw'' \<or> strict_eq_str act ''Edit''
       then [(''Commit'', \<not> js_truthy (jget (st_ccc st) ''changed'')), (''Cancel'', False)]
       else []) @
      (if \<not> strict_eq_str act ''Edit'' then [(''Deselect'', \<not> cccselection st)] else []))"

text \<open>\<open>render\<close>: the error overlay when the status is not \<open>NORMAL\<close>, the element
  \<open><TaskBar task="CccEdit" ...>\<close> with the body's buttons when the ccc state has an
  action, nothing otherwise.\<close>

definition renders_taskbar :: "ccc_sys \<Rightarrow> bool" where
  "renders_taskbar s = (status s = NORMAL \<and> js_truthy (jget (st_ccc (store s)) ''action''))"

text \<open>qwc2's \<open>TaskBar\<close> shows its body only while the current task of the store is
  its \<open>task\<close> prop, here \<open>CccEdit\<close>.\<close>

definition taskbar_shown :: "ccc_sys \<Rightarrow> bool" where
  "taskbar_shown s = (renders_taskbar s \<and> st_task (store s) = Some ''CccEdit'')"

definition rendered_buttons :: "ccc_sys \<Rightarrow> (string \<times> bool) list" where
  "rendered_buttons s = (if taskbar_shown s then renderBody_buttons (store s) else [])"

text \<open>\<open>CCCAttributeCalculator(layer, feature)\<close> (lines 312--350), which the identify
  panel calls for every feature it shows. It reads the module variables the component
  writes, so it shares the state \<open>ccc_sys\<close>. It renders the notify link when there is a
  connection, a configuration with \<open>notifyLayers\<close> and an entry for the feature's layer;
  the result is that entry. \<open>notifyLayers.find\<close> throws when \<open>notifyLayers\<close> is
  not an array and on a \<open>null\<close> entry before the match.\<close>

definition CCCAttributeCalculator :: "ccc_sys \<Rightarrow> jval \<Rightarrow> jval \<Rightarrow> js_error + jval option" where
  "CCCAttributeCalculator s layer feature =
     (if \<not> cccConnection s \<or> \<not> js_truthy (cccAppConfig s) \<or>
         \<not> js_truthy (field (cccAppConfig s) ''notifyLayers'') then Inr None
      else case js_prop feature ''layername'' of
        Inl e \<Rightarrow> Inl e
      | Inr lname \<Rightarrow>
          (let layername = (if js_truthy lname then lname else layer) in
           js_seq (js_array (field (cccAppConfig s) ''notifyLayers'')) (\<lambda>nls.
           find_by ''layer'' layername nls)))"

text \<open>The \<open>reduce\<close> over \<open>Object.entries(feature.attribnames)\<close>: each attribute
  title is renamed to its attribute name.\<close>

fun map_attribs :: "jval \<Rightarrow> (string \<times> jval) list \<Rightarrow> jobj \<Rightarrow> js_error + jobj" where
  "map_attribs props [] res = Inr res"
| "map_attribs props ((title, name) # rest) res =
     (case js_prop props title of
        Inl e \<Rightarrow> Inl e
      | Inr v \<Rightarrow> map_attribs props rest (obj_set res (js_str name) v))"

definition mapped_props :: "jval \<Rightarrow> js_error + jval" where
  "mapped_props feature =
     (let names = field feature ''attribnames'' in
      if js_truthy names then
        (case map_attribs (field feature ''properties'') (case names of JObj ob \<Rightarrow> ob | _ \<Rightarrow> []) [] of
           Inl e \<Rightarrow> Inl e
         | Inr res \<Rightarrow> Inr (JObj res))
      else Inr (field feature ''properties''))"

text \<open>The \<open>reduce\<close> over \<open>notifyEntry.mapping\<close>: \<open>mappedProps[agdi_attr_name] || null\<close>
  under the key \<open>ccc_attr_name\<close>.\<close>

fun map_context :: "jval \<Rightarrow> jval list \<Rightarrow> jobj \<Rightarrow> js_error + jobj" where
  "map_context mp [] res = Inr res"
| "map_context mp (entry # es) res =
     js_seq (js_prop entry ''ccc_attr_name'') (\<lambda>c.
     js_seq (js_prop entry ''agdi_attr_name'') (\<lambda>a.
     js_seq (js_prop mp (js_str a)) (\<lambda>v.
       map_context mp es (obj_set res (js_str c) (if js_truthy v then v else JNull)))))"

definition notify_msg :: "jobj \<Rightarrow> jval" where
  "notify_msg ctx = JObj [(''apiVersion'', JStr ''1.0''), (''method'', JStr ''notifyGeoObjectSelected''),
     (''context_list'', JArr [JObj ctx])]"

text \<open>The \<open>clickHandler\<close> of the link, run when the user clicks it, possibly long after
  it was rendered: it tests the connection again, then reads \<open>CccConnection.send\<close>,
  evaluates the message and sends it.\<close>

definition attr_click :: "jval \<Rightarrow> jval \<Rightarrow> ccc_sys \<Rightarrow> outcome" where
  "attr_click entry feature s =
     (if \<not> cccConnection s then Inr s else
      case mapped_props feature of
        Inl e \<Rightarrow> Inl (e, s)
      | Inr mp \<Rightarrow>
          (case js_seq (js_array (field entry ''mapping'')) (\<lambda>ms. map_context mp ms []) of
             Inl e \<Rightarrow> Inl (e, s)
           | Inr ctx \<Rightarrow> ws_transmit (notify_msg ctx) s))"

end
