(* ===== verification/CccProtocol.thy ===== *)
theory CccProtocol
  imports CccInterface
begin

text \<open>
  The bridge as a state machine. An event is one callback the browser runs: the mount
  of the component, the answer or failure of the configuration request, the socket's
  \<open>onopen\<close>, \<open>onerror\<close>, \<open>onclose\<close> and \<open>onmessage\<close>, the answer of a zoom
  request, a click on an enabled button of the task bar, the task bar's \<open>onHide\<close>, and a
  click on a notify link that \<open>CCCAttributeCalculator\<close> rendered in the identify panel
  (the link can be clicked at any time after it was rendered, so the event carries the
  notify entry and the feature it was rendered for).
  \<open>ccc_handle\<close> runs the handler the source installs for it; \<open>ccc_enabled\<close> says
  when the browser can deliver it (socket events follow the WebSocket life cycle,
  responses need an outstanding request, clicks need a rendered, enabled button).
  \<open>ccc_reach\<close> is the set of states reachable from the initial one, and
  \<open>ccc_sys_inv\<close> the invariant that holds in all of them.
\<close>

datatype ccc_event =
    Mount
  | ConfigResponse jval bool
  | ConfigRequestFailed
  | WsOpen
  | WsError
  | WsClose
  | WsMessage "jval option" string
  | ZoomToResponse jval int
  | ButtonClick string
  | TaskBarHide
  | AttrLinkClick jval jval

fun ccc_handle :: "ccc_env \<Rightarrow> ccc_event \<Rightarrow> ccc_sys \<Rightarrow> ccc_sys" where
  "ccc_handle E Mount s = mount E s"
| "ccc_handle E (ConfigResponse d url_ok) s = configLoaded E d url_ok s"
| "ccc_handle E ConfigRequestFailed s = configFailed s"
| "ccc_handle E WsOpen s = onopen s"
| "ccc_handle E WsError s = onerror s"
| "ccc_handle E WsClose s = onclose s"
| "ccc_handle E (WsMessage m uid) s = finish (processWebSocketMessage E m uid s)"
| "ccc_handle E (ZoomToResponse d zfe) s = processZoomTo_then E d zfe s"
| "ccc_handle E (ButtonClick k) s = finish (buttonClicked k s)"
| "ccc_handle E TaskBarHide s = stopEdit s"
| "ccc_handle E (AttrLinkClick entry f) s = finish (attr_click entry f s)"

text \<open>A zoom answer the model covers: when it has a result, the result's \<open>bbox\<close> is
  four numbers, and qwc2's \<open>getZoomForExtent\<close> answered with a level between 0 and
  the \<open>maxZoom\<close> it was given.\<close>

definition zoom_response_ok :: "ccc_env \<Rightarrow> jval \<Rightarrow> int \<Rightarrow> bool" where
  "zoom_response_ok E d zfe =
     (js_truthy d \<and> js_truthy (field d ''result'') \<longrightarrow>
        bbox4 (field (field d ''result'') ''bbox'') \<noteq> None \<and> 0 \<le> zfe \<and>
        zfe \<le> int (getMaxZoomForMinScale (env_scales E) (field (field d ''result'') ''minScale'')))"

fun ccc_enabled :: "ccc_env \<Rightarrow> ccc_sys \<Rightarrow> ccc_event \<Rightarrow> bool" where
  "ccc_enabled E s Mount = (\<not> mounted s)"
| "ccc_enabled E s (ConfigResponse d url_ok) = pendingConfig s"
| "ccc_enabled E s ConfigRequestFailed = pendingConfig s"
| "ccc_enabled E s WsOpen = (sock s = Connecting)"
| "ccc_enabled E s WsError = (sock s = Connecting \<or> sock s = Open)"
| "ccc_enabled E s WsClose = (sock s = Connecting \<or> sock s = Open \<or> sock s = Failing)"
| "ccc_enabled E s (WsMessage m uid) = (sock s = Open)"
| "ccc_enabled E s (ZoomToResponse d zfe) = (0 < pendingZoom s \<and> zoom_response_ok E d zfe)"
| "ccc_enabled E s (ButtonClick k) = ((k, False) \<in> set (rendered_buttons s))"
| "ccc_enabled E s TaskBarHide = taskbar_shown s"
| "ccc_enabled E s (AttrLinkClick entry f) = mounted s"

inductive ccc_reach :: "ccc_env \<Rightarrow> ccc_sys \<Rightarrow> bool" for E where
  init: "ccc_reach E ccc_sys_init"
| step: "ccc_reach E s \<Longrightarrow> ccc_enabled E s ev \<Longrightarrow> ccc_reach E (ccc_handle E ev s)"

text \<open>Runs: a list of events, each enabled where it is delivered.\<close>

fun ccc_run :: "ccc_env \<Rightarrow> ccc_event list \<Rightarrow> ccc_sys \<Rightarrow> ccc_sys option" where
  "ccc_run E [] s = Some s"
| "ccc_run E (ev # evs) s =
     (if ccc_enabled E s ev then ccc_run E evs (ccc_handle E ev s) else None)"

fun sent_msgs :: "effect list \<Rightarrow> jval list" where
  "sent_msgs [] = []"
| "sent_msgs (Send m # es) = m # sent_msgs es"
| "sent_msgs (_ # es) = sent_msgs es"

definition session_token :: "ccc_env \<Rightarrow> jval" where
  "session_token E = JStr (''{'' @ the (env_sessionParam E) @ ''}'')"

definition out_state :: "outcome \<Rightarrow> ccc_sys" where
  "out_state r = (case r of Inl (e, s) \<Rightarrow> s | Inr s \<Rightarrow> s)"

text \<open>The invariant, in two parts. \<open>link_inv\<close> relates the connection, the
  configuration, the session and the socket, and says that the first message ever sent is
  the handshake; no step but a socket event or the configuration answer changes what it
  reads. \<open>dyn_inv\<close> is about the fields the message handlers write.\<close>

definition link_inv :: "ccc_env \<Rightarrow> ccc_sys \<Rightarrow> bool" where
  "link_inv E s \<longleftrightarrow>
     (cccConnection s \<longleftrightarrow> sock s = Connecting \<or> sock s = Open) \<and>
     (pendingConfig s \<longrightarrow> sock s = NoSocket \<and> status s = NORMAL \<and> session s = session_token E
        \<and> env_sessionParam E \<noteq> None \<and> env_sessionParam E \<noteq> Some []) \<and>
     (cccConnection s \<longrightarrow> session s = session_token E \<and> env_sessionParam E \<noteq> None \<and>
        env_sessionParam E \<noteq> Some [] \<and> cccAppConfig s \<noteq> JNull \<and> cccAppConfig s \<noteq> JUndef) \<and>
     (status s \<noteq> NORMAL \<longrightarrow> \<not> cccConnection s \<and> session s = JNull \<and>
        cccAppConfig s = JNull \<and> \<not> pendingConfig s) \<and>
     (sock s = Failing \<or> sock s = Closed \<longrightarrow> status s = CONNECTION_ERROR) \<and>
     (sock s = NoSocket \<or> sock s = Connecting \<longrightarrow> sent_msgs (effects s) = []) \<and>
     (sent_msgs (effects s) \<noteq> [] \<longrightarrow> env_sessionParam E \<noteq> None \<and> env_sessionParam E \<noteq> Some [] \<and>
        hd (sent_msgs (effects s)) = connectGis_msg (session_token E)) \<and>
     (sock s = Open \<longrightarrow> sent_msgs (effects s) \<noteq> [])"

definition dyn_inv :: "ccc_sys \<Rightarrow> bool" where
  "dyn_inv s \<longleftrightarrow>
     (ready s \<longrightarrow> cccConnection s) \<and>
     (status s \<noteq> NORMAL \<longrightarrow> \<not> ready s \<and> currentContext s = JNull) \<and>
     (renders_taskbar s \<longrightarrow> sock s = Open) \<and>
     ccc_inv (st_ccc (store s))"

definition ccc_sys_inv :: "ccc_env \<Rightarrow> ccc_sys \<Rightarrow> bool" where
  "ccc_sys_inv E s \<longleftrightarrow> (\<not> mounted s \<longrightarrow> s = ccc_sys_init) \<and> link_inv E s \<and> dyn_inv s"

text \<open>A step that touches only \<open>ready\<close>, \<open>currentContext\<close>, the zoom counter and
  the store (by well-formed dispatches), and sends nothing on the socket.\<close>

definition benign :: "ccc_sys \<Rightarrow> ccc_sys \<Rightarrow> bool" where
  "benign s t \<longleftrightarrow> (\<exists>R C P as es. t = s\<lparr>ready := R, currentContext := C, pendingZoom := P,
      store := fold (\<lambda>a st. store_dispatch st a) as (store s), effects := effects s @ es\<rparr> \<and>
      list_all wf_action as \<and> sent_msgs es = [])"

lemma sent_msgs_append [simp]: "sent_msgs (xs @ ys) = sent_msgs xs @ sent_msgs ys"
  by (induction xs rule: sent_msgs.induct) auto

lemma dispatch_all_eq:
  "dispatch_all as s = s\<lparr>store := fold (\<lambda>a st. store_dispatch st a) as (store s),
     effects := effects s @ map Dispatch as\<rparr>"
  by (induction as arbitrary: s) (simp_all add: dispatch_all_def dispatch_def)

lemma sent_msgs_map_Dispatch [simp]: "sent_msgs (map Dispatch as) = []"
  by (induction as) simp_all

lemma benign_refl [simp]: "benign s s"
  unfolding benign_def by (rule exI [of _ "ready s"], rule exI [of _ "currentContext s"],
     rule exI [of _ "pendingZoom s"], rule exI [of _ "[]"], rule exI [of _ "[]"]) simp

lemma benign_trans: assumes "benign s t" and "benign t u" shows "benign s u"
proof -
  from assms(1) obtain R C P as es where
    t: "t = s\<lparr>ready := R, currentContext := C, pendingZoom := P,
      store := fold (\<lambda>a st. store_dispatch st a) as (store s), effects := effects s @ es\<rparr>"
    and as: "list_all wf_action as" and es: "sent_msgs es = []"
    unfolding benign_def by blast
  from assms(2) obtain R' C' P' as' es' where
    u: "u = t\<lparr>ready := R', currentContext := C', pendingZoom := P',
      store := fold (\<lambda>a st. store_dispatch st a) as' (store t), effects := effects t @ es'\<rparr>"
    and as': "list_all wf_action as'" and es': "sent_msgs es' = []"
    unfolding benign_def by blast
  have "u = s\<lparr>ready := R', currentContext := C', pendingZoom := P',
      store := fold (\<lambda>a st. store_dispatch st a) (as @ as') (store s), effects := effects s @ (es @ es')\<rparr>"
    using t u by simp
  moreover have "list_all wf_action (as @ as')" and "sent_msgs (es @ es') = []"
    using as as' es es' by simp_all
  ultimately show ?thesis unfolding benign_def by blast
qed

lemma benign_dispatch_all: "list_all wf_action as \<Longrightarrow> benign s (dispatch_all as s)"
  unfolding benign_def dispatch_all_eq
  by (rule exI [of _ "ready s"], rule exI [of _ "currentContext s"],
     rule exI [of _ "pendingZoom s"], rule exI [of _ as], rule exI [of _ "map Dispatch as"]) simp

lemma benignI:
  "t = s\<lparr>ready := R, currentContext := C, pendingZoom := P,
      store := fold (\<lambda>a st. store_dispatch st a) as (store s), effects := effects s @ es\<rparr> \<Longrightarrow>
   list_all wf_action as \<Longrightarrow> sent_msgs es = [] \<Longrightarrow> benign s t"
  unfolding benign_def by blast

lemma benign_frame:
  "list_all wf_action as \<Longrightarrow> sent_msgs es = [] \<Longrightarrow>
   benign s (s\<lparr>store := fold (\<lambda>a st. store_dispatch st a) as (store s), effects := effects s @ es\<rparr>)"
  by (rule benignI [where R = "ready s" and C = "currentContext s" and P = "pendingZoom s"]) simp_all

lemma benign_fields:
  "benign s (s\<lparr>ready := R, currentContext := C, pendingZoom := P\<rparr>)"
  by (rule benignI [where as = "[]" and es = "[]"]) simp_all

lemma benign_dispatch_all_r:
  "benign s t \<Longrightarrow> list_all wf_action as \<Longrightarrow> benign s (dispatch_all as t)"
  by (erule benign_trans) (simp add: dispatch_all_eq benign_frame)

lemma benign_dispatch_r: "benign s t \<Longrightarrow> wf_action a \<Longrightarrow> benign s (dispatch a t)"
  using benign_dispatch_all_r [of s t "[a]"] by (simp add: dispatch_all_def)

lemma benign_stopEdit_r: "benign s t \<Longrightarrow> benign s (stopEdit t)"
  unfolding stopEdit_def
  by (erule benign_dispatch_all_r) (simp add: wf_action_def keys_distinct_def ccc_action_ok_def)

lemma benign_emit_r: "benign s t \<Longrightarrow> \<forall>m. e \<noteq> Send m \<Longrightarrow> benign s (emit e t)"
  using benign_frame [of "[]" "[e]" t] by (cases e) (auto simp: emit_def intro: benign_trans)

lemma benign_ready_r: "benign s t \<Longrightarrow> benign s (t\<lparr>ready := r\<rparr>)"
  using benign_fields [where s = t and R = r and C = "currentContext t" and P = "pendingZoom t"] by (auto intro: benign_trans)

lemma benign_ctx_r: "benign s t \<Longrightarrow> benign s (t\<lparr>currentContext := c\<rparr>)"
  using benign_fields [where s = t and R = "ready t" and C = c and P = "pendingZoom t"] by (auto intro: benign_trans)

lemma benign_zoom_r: "benign s t \<Longrightarrow> benign s (t\<lparr>pendingZoom := p\<rparr>)"
  using benign_fields [where s = t and R = "ready t" and C = "currentContext t" and P = p] by (auto intro: benign_trans)

lemma benign_processZoomTo_r: "benign s t \<Longrightarrow> benign s (processZoomTo E z t)"
  unfolding processZoomTo_def by (rule benign_emit_r [OF benign_zoom_r]) simp_all

lemma benign_zoomToFeature_r:
  "benign s t \<Longrightarrow> benign s (out_state (zoomToFeature E f t))"
  by (auto simp: zoomToFeature_def out_state_def wf_action_def
      intro!: benign_dispatch_r split: option.split sum.split)

lemma out_state_Inr: "out_state (Inr s) = s" and out_state_Inl: "out_state (Inl (e, s)) = s"
  by (simp_all add: out_state_def)

lemma benign_zoomToFeature_case:
  assumes "benign s t" and "\<And>u. benign s u \<Longrightarrow> benign s (out_state (g u))"
  shows "benign s (out_state (case zoomToFeature E f t of Inl err \<Rightarrow> Inl err | Inr u \<Rightarrow> g u))"
proof (cases "zoomToFeature E f t")
  case (Inl err)
  with benign_zoomToFeature_r [OF assms(1), of E f] show ?thesis by simp
next
  case (Inr u)
  with benign_zoomToFeature_r [OF assms(1), of E f] assms(2) show ?thesis
    by (simp add: out_state_def)
qed

lemma benign_prop_case:
  assumes "benign s t" and "\<And>x. benign s (g x)"
  shows "benign s (out_state (case js_prop v k of Inl e \<Rightarrow> Inl (e, t) | Inr x \<Rightarrow> Inr (g x)))"
  using assms by (simp add: out_state_def split: sum.split)

lemma benign_pwm: "benign s (out_state (processWebSocketMessage E m u s))"
proof -
  define msg where "msg = (case m of None \<Rightarrow> JObj [] | Some v \<Rightarrow> v)"
  define s1 where "s1 = (if js_truthy (field msg ''context'') then s\<lparr>currentContext := field msg ''context''\<rparr> else s)"
  have b1: "benign s s1" by (simp add: s1_def benign_ctx_r)
  have b2: "benign s (stopEdit s1)" by (rule benign_stopEdit_r [OF b1])
  have wf: "list_all wf_action [ChangeCCCState d, SetCurrentTask t md c, SetCurrentTaskBlocked bl]"
    if "wf_action (ChangeCCCState d)" for d t md c bl
    using that by (simp add: wf_action_def)
  show ?thesis
    unfolding processWebSocketMessage_def Let_def msg_def [symmetric] s1_def [symmetric]
    by (auto intro!: benign_zoomToFeature_case benign_prop_case benign_dispatch_all_r
        benign_stopEdit_r benign_emit_r benign_ready_r benign_processZoomTo_r benign_dispatch_r b1 b2 wf
        simp: out_state_Inr out_state_Inl keys_distinct_def wf_action_def ccc_action_ok_def simp del: js_prop.simps)
qed

lemma st_ccc_fold_store_dispatch [simp]:
  "st_ccc (fold (\<lambda>a st. store_dispatch st a) as st) = fold (\<lambda>a c. ccc c a) as (st_ccc st)"
  by (induction as arbitrary: st) simp_all

lemma benign_uncaught: "benign s (s\<lparr>effects := effects s @ [Uncaught e]\<rparr>)"
  using benign_frame [of "[]" "[Uncaught e]" s] by simp

lemma benign_finish:
  assumes "benign s (out_state r)" shows "benign s (finish r)"
proof (cases r)
  case (Inl p)
  obtain e t where r: "r = Inl (e, t)" using Inl by (cases p) auto
  with assms have "benign s t" by (simp add: out_state_def)
  then show ?thesis by (simp add: r finish_def benign_trans [OF _ benign_uncaught])
next
  case (Inr t)
  with assms show ?thesis by (simp add: finish_def out_state_def)
qed

lemma link_inv_cong:
  assumes "cccConnection t = cccConnection s" "pendingConfig t = pendingConfig s"
    "session t = session s" "cccAppConfig t = cccAppConfig s" "status t = status s"
    "sock t = sock s" "sent_msgs (effects t) = sent_msgs (effects s)"
  shows "link_inv E t = link_inv E s"
  unfolding link_inv_def assms ..

lemma inv_benign:
  assumes inv: "ccc_sys_inv E s" and b: "benign s t" and m: "mounted s"
    and rdy: "ready t \<longrightarrow> cccConnection s"
    and ctx: "status s \<noteq> NORMAL \<longrightarrow> currentContext t = JNull"
    and tb: "renders_taskbar t \<longrightarrow> sock s = Open"
  shows "ccc_sys_inv E t"
proof -
  from b obtain R C P as es where
    t: "t = s\<lparr>ready := R, currentContext := C, pendingZoom := P,
      store := fold (\<lambda>a st. store_dispatch st a) as (store s), effects := effects s @ es\<rparr>"
    and as: "list_all wf_action as" and es: "sent_msgs es = []"
    unfolding benign_def by blast
  from inv have link: "link_inv E s" and dyn: "dyn_inv s"
    by (simp_all add: ccc_sys_inv_def)
  have "link_inv E t = link_inv E s"
    by (rule link_inv_cong) (simp_all add: t es)
  with link have link': "link_inv E t" by simp
  have f: "cccConnection t = cccConnection s" "status t = status s" "sock t = sock s"
    "mounted t = mounted s" by (simp_all add: t)
  from link have "status s \<noteq> NORMAL \<longrightarrow> \<not> cccConnection s"
    unfolding link_inv_def by blast
  with rdy have "status t \<noteq> NORMAL \<longrightarrow> \<not> ready t" by (auto simp: f)
  moreover from dyn as have "ccc_inv (st_ccc (store t))"
    by (simp add: t dyn_inv_def ccc_inv_fold)
  ultimately have "dyn_inv t"
    using rdy ctx tb unfolding dyn_inv_def f by blast
  with link' m show ?thesis by (simp add: ccc_sys_inv_def f)
qed

lemma inv_mounted: "ccc_sys_inv E s \<Longrightarrow> sock s \<noteq> NoSocket \<Longrightarrow> mounted s"
  by (auto simp: ccc_sys_inv_def ccc_sys_init_def)

lemma inv_pending_nosock: "ccc_sys_inv E s \<Longrightarrow> pendingConfig s \<Longrightarrow> sock s = NoSocket"
  unfolding ccc_sys_inv_def link_inv_def by blast

lemma inv_open_conn: "ccc_sys_inv E s \<Longrightarrow> sock s = Open \<Longrightarrow> cccConnection s"
  by (simp add: ccc_sys_inv_def link_inv_def)

lemma inv_benign_open:
  assumes "ccc_sys_inv E s" and "sock s = Open" and "benign s t"
  shows "ccc_sys_inv E t"
proof (rule inv_benign [OF assms(1,3)])
  show "mounted s" using assms(1,2) by (simp add: inv_mounted)
  show "ready t \<longrightarrow> cccConnection s" using assms(1,2) by (simp add: inv_open_conn)
  have "status s = NORMAL"
    using assms(1,2) by (simp add: ccc_sys_inv_def link_inv_def) metis
  then show "status s \<noteq> NORMAL \<longrightarrow> currentContext t = JNull" by simp
  show "renders_taskbar t \<longrightarrow> sock s = Open" using assms(2) by simp
qed

lemma inv_message:
  "ccc_sys_inv E s \<Longrightarrow> sock s = Open \<Longrightarrow> ccc_sys_inv E (finish (processWebSocketMessage E m u s))"
  by (rule inv_benign_open) (auto intro: benign_finish benign_pwm)

lemma jget_ccc_init_action [simp]: "jget ccc_init ''action'' = JNull"
  by (simp add: ccc_init_def)

lemma dyn_inv_init_like:
  "\<not> ready s \<Longrightarrow> st_ccc (store s) = ccc_init \<Longrightarrow> currentContext s = JNull \<Longrightarrow> dyn_inv s"
  by (simp add: dyn_inv_def renders_taskbar_def ccc_init_inv)

lemma inv_init: "ccc_sys_inv E ccc_sys_init"
  by (simp add: ccc_sys_inv_def link_inv_def dyn_inv_init_like ccc_sys_init_def store_init_def)

lemma inv_mount:
  assumes "ccc_sys_inv E s" and "\<not> mounted s"
  shows "ccc_sys_inv E (mount E s)"
proof -
  from assms have s: "s = ccc_sys_init" by (simp add: ccc_sys_inv_def)
  let ?t = "ccc_sys_init\<lparr>mounted := True, session := param_val (env_sessionParam E)\<rparr>"
  have dyn: "dyn_inv (?t\<lparr>session := x, pendingConfig := b, effects := es\<rparr>)" for x b es
    by (rule dyn_inv_init_like) (simp_all add: ccc_sys_init_def store_init_def)
  show ?thesis
  proof (cases "js_truthy (param_val (env_sessionParam E)) \<and>
                js_truthy (param_val (env_appintegrationParam E))")
    case True
    then obtain p where p: "env_sessionParam E = Some p" "p \<noteq> []"
      by (cases "env_sessionParam E") (auto simp: param_val_def)
    let ?h = "HttpGet (env_cccConfigService E @ ''?app='' @
                encodeURIComponent (the (env_appintegrationParam E)))"
    from True have eq: "mount E s = ?t\<lparr>session := session_token E, pendingConfig := True,
        effects := [?h]\<rparr>"
      by (simp add: s mount_def initialize_def Let_def ccc_sys_init_def emit_def session_token_def)
    have "link_inv E (?t\<lparr>session := session_token E, pendingConfig := True, effects := [?h]\<rparr>)"
      using p by (simp add: link_inv_def ccc_sys_init_def)
    with dyn show ?thesis by (simp add: eq ccc_sys_inv_def)
  next
    case False
    then have eq: "mount E s = ?t\<lparr>session := param_val (env_sessionParam E), pendingConfig := False,
        effects := []\<rparr>"
      by (auto simp: s mount_def initialize_def Let_def ccc_sys_init_def simp del: js_truthy.simps)
    have "link_inv E (?t\<lparr>session := param_val (env_sessionParam E), pendingConfig := False,
        effects := []\<rparr>)"
      by (simp add: link_inv_def ccc_sys_init_def)
    with dyn show ?thesis by (simp add: eq ccc_sys_inv_def)
  qed
qed

lemma loadTheme_Inr:
  assumes "loadTheme E s = Inr t"
  shows "mounted t = mounted s \<and> cccConnection t = cccConnection s \<and> cccAppConfig t = cccAppConfig s \<and>
    ready t = ready s \<and> session t = session s \<and> currentContext t = currentContext s \<and>
    status t = status s \<and> sock t = sock s \<and> pendingConfig t = pendingConfig s \<and>
    st_ccc (store t) = st_ccc (store s) \<and> sent_msgs (effects t) = sent_msgs (effects s)"
proof -
  have "t = s \<or> (\<exists>th. t = dispatch (SetCurrentTheme th) s)"
    using assms by (auto simp: loadTheme_def js_seq_eq_Inr split: option.splits)
  then show ?thesis by (auto simp: dispatch_def)
qed

lemma inv_configFailed:
  "mounted t \<Longrightarrow> sock t = NoSocket \<Longrightarrow> sent_msgs (effects t) = [] \<Longrightarrow>
   ccc_inv (st_ccc (store t)) \<Longrightarrow> ccc_sys_inv E (configFailed t)"
  by (simp add: ccc_sys_inv_def link_inv_def dyn_inv_def configFailed_def reset_def renders_taskbar_def)

lemma pending_facts:
  assumes "ccc_sys_inv E s" and "pendingConfig s"
  shows "sock s = NoSocket \<and> status s = NORMAL \<and> session s = session_token E \<and>
    env_sessionParam E \<noteq> None \<and> env_sessionParam E \<noteq> Some [] \<and>
    \<not> cccConnection s \<and> \<not> ready s \<and> mounted s \<and> sent_msgs (effects s) = [] \<and>
    ccc_inv (st_ccc (store s)) \<and> \<not> renders_taskbar s"
proof -
  from assms have l: "link_inv E s" and d: "dyn_inv s" and m: "mounted s"
    by (auto simp: ccc_sys_inv_def ccc_sys_init_def)
  from l assms(2) have "sock s = NoSocket \<and> status s = NORMAL \<and> session s = session_token E \<and>
    env_sessionParam E \<noteq> None \<and> env_sessionParam E \<noteq> Some [] \<and> \<not> cccConnection s \<and>
    sent_msgs (effects s) = []"
    by (simp add: link_inv_def)
  with d m show ?thesis by (simp add: dyn_inv_def)
qed

lemma inv_configLoaded:
  assumes inv: "ccc_sys_inv E s" and p: "pendingConfig s"
  shows "ccc_sys_inv E (configLoaded E d ok s)"
proof -
  note s = pending_facts [OF inv p]
  show ?thesis
  proof (cases "js_prop d ''title''")
    case (Inl e)
    with s show ?thesis
      by (simp add: configLoaded_def inv_configFailed)
  next
    case (Inr x)
    note tx = this
    then have d: "d \<noteq> JNull" "d \<noteq> JUndef" by auto
    let ?u = "emit (SetTitle x) (s\<lparr>pendingConfig := False, cccAppConfig := d\<rparr>)"
    show ?thesis
    proof (cases "loadTheme E ?u")
      case (Inl e)
      with tx s show ?thesis by (simp add: configLoaded_def inv_configFailed emit_def)
    next
      case (Inr t)
      note lt = this
      note f = loadTheme_Inr [OF lt]
      show ?thesis
      proof (cases ok)
        case False
        with tx lt f s show ?thesis
          by (simp add: configLoaded_def createWebSocket_def inv_configFailed emit_def)
      next
        case True
        have eq: "configLoaded E d ok s = t\<lparr>cccConnection := True, sock := Connecting\<rparr>"
          using True tx lt by (simp add: configLoaded_def createWebSocket_def)
        have "link_inv E (t\<lparr>cccConnection := True, sock := Connecting\<rparr>)"
          using s d f by (simp add: link_inv_def emit_def)
        moreover have "dyn_inv (t\<lparr>cccConnection := True, sock := Connecting\<rparr>)"
          using s f by (simp add: dyn_inv_def emit_def renders_taskbar_def)
        ultimately show ?thesis using s f by (simp add: eq ccc_sys_inv_def emit_def)
      qed
    qed
  qed
qed

lemma finish_Inr [simp]: "finish (Inr s) = s"
  by (simp add: finish_def)

lemma inv_onopen:
  assumes inv: "ccc_sys_inv E s" and c: "sock s = Connecting"
  shows "ccc_sys_inv E (onopen s)"
proof -
  from inv have l: "link_inv E s" and d: "dyn_inv s" by (simp_all add: ccc_sys_inv_def)
  from inv c have m: "mounted s" by (simp add: inv_mounted)
  from l c have s: "cccConnection s" "session s = session_token E" "status s = NORMAL"
    "sent_msgs (effects s) = []" "\<not> pendingConfig s" "env_sessionParam E \<noteq> None"
    "env_sessionParam E \<noteq> Some []" "cccAppConfig s \<noteq> JNull" "cccAppConfig s \<noteq> JUndef"
    by (auto simp: link_inv_def)
  let ?t = "emit (Send (connectGis_msg (session_token E))) (s\<lparr>sock := Open\<rparr>)"
  from s have eq: "onopen s = ?t"
    by (simp add: onopen_def ws_transmit_def session_token_def)
  have "link_inv E ?t" using s by (simp add: link_inv_def emit_def)
  moreover have "dyn_inv ?t" using d s by (simp add: dyn_inv_def emit_def renders_taskbar_def)
  ultimately show ?thesis using m by (simp add: eq ccc_sys_inv_def emit_def)
qed

lemma inv_lost:
  assumes inv: "ccc_sys_inv E s" and x: "x = Failing \<or> x = Closed"
    and np: "\<not> pendingConfig s" and m: "mounted s"
  shows "ccc_sys_inv E (reset (s\<lparr>sock := x, status := CONNECTION_ERROR\<rparr>))"
proof -
  from inv have l: "link_inv E s" and d: "dyn_inv s" by (simp_all add: ccc_sys_inv_def)
  let ?t = "reset (s\<lparr>sock := x, status := CONNECTION_ERROR\<rparr>)"
  from l have "sent_msgs (effects s) \<noteq> [] \<longrightarrow> env_sessionParam E \<noteq> None \<and>
      env_sessionParam E \<noteq> Some [] \<and> hd (sent_msgs (effects s)) = connectGis_msg (session_token E)"
    unfolding link_inv_def by blast
  with x np have "link_inv E ?t" by (auto simp: link_inv_def reset_def)
  moreover from d have "dyn_inv ?t" by (simp add: dyn_inv_def reset_def renders_taskbar_def)
  ultimately show ?thesis using m by (simp add: ccc_sys_inv_def reset_def)
qed

lemma inv_onerror:
  assumes "ccc_sys_inv E s" and "sock s = Connecting \<or> sock s = Open"
  shows "ccc_sys_inv E (onerror s)"
proof -
  from assms have "\<not> pendingConfig s" using inv_pending_nosock [OF assms(1)] by auto
  moreover from assms have "mounted s" by (auto intro: inv_mounted)
  ultimately show ?thesis using assms(1) unfolding onerror_def by (intro inv_lost) simp_all
qed

lemma inv_onclose:
  assumes "ccc_sys_inv E s" and "sock s = Connecting \<or> sock s = Open \<or> sock s = Failing"
  shows "ccc_sys_inv E (onclose s)"
proof -
  from assms have "\<not> pendingConfig s" using inv_pending_nosock [OF assms(1)] by auto
  moreover from assms have "mounted s" by (auto intro: inv_mounted)
  ultimately show ?thesis using assms(1) unfolding onclose_def by (intro inv_lost) simp_all
qed

lemma dispatch_shape0: "Q [] \<Longrightarrow> \<exists>as. s = dispatch_all as s \<and> Q as"
  by (rule exI [of _ "[]"]) (simp add: dispatch_all_def)

lemma dispatch_shape1: "Q [a] \<Longrightarrow> \<exists>as. dispatch a s = dispatch_all as s \<and> Q as"
  by (rule exI [of _ "[a]"]) (simp add: dispatch_all_def)

lemma dispatch_shape2: "Q [a, b] \<Longrightarrow> \<exists>as. dispatch b (dispatch a s) = dispatch_all as s \<and> Q as"
  by (rule exI [of _ "[a, b]"]) (simp add: dispatch_all_def)

lemma processZoomTo_then_shape:
  "\<exists>as us. processZoomTo_then E d z s =
       dispatch_all as (s\<lparr>pendingZoom := pendingZoom s - 1, effects := effects s @ us\<rparr>) \<and>
     sent_msgs us = [] \<and> list_all (\<lambda>a. \<forall>c. ccc c a = c) as \<and> list_all wf_action as"
proof (cases "js_truthy d \<and> js_truthy (field d ''result'')")
  case False
  then have "processZoomTo_then E d z s =
      dispatch_all [] (s\<lparr>pendingZoom := pendingZoom s - 1, effects := effects s @ []\<rparr>)"
    by (auto simp: processZoomTo_then_def dispatch_all_def)
  then show ?thesis by (intro exI [of _ "[]"] exI [of _ "[]"]) simp
next
  case True
  let ?r = "field d ''result''"
  show ?thesis
  proof (cases "bbox4 (field ?r ''bbox'')")
    case None
    let ?us = "if field ?r ''bbox'' = JNull \<or> field ?r ''bbox'' = JUndef then [Uncaught TypeError] else []"
    have "processZoomTo_then E d z s =
        dispatch_all [] (s\<lparr>pendingZoom := pendingZoom s - 1, effects := effects s @ ?us\<rparr>)"
      using True None by (simp add: processZoomTo_then_def Let_def dispatch_all_def)
    moreover have "sent_msgs ?us = []" by simp
    ultimately show ?thesis by (intro exI [of _ "[]"] exI [of _ ?us]) simp
  next
    case (Some bb)
    let ?a = "ZoomToPoint (extent_center bb)
      (min (int (getMaxZoomForMinScale (env_scales E) (field ?r ''minScale''))) (z - 1)) (field ?r ''crs'')"
    let ?b = "AddLayerFeatures ''cccselection'' SELECTION (field ?r ''features'') True"
    let ?as = "if js_truthy (field ?r ''features'') then [?a, ?b] else [?a]"
    have "processZoomTo_then E d z s =
        dispatch_all ?as (s\<lparr>pendingZoom := pendingZoom s - 1, effects := effects s @ []\<rparr>)"
      using True Some by (simp add: processZoomTo_then_def Let_def dispatch_all_def)
    moreover have "list_all (\<lambda>a. \<forall>c. ccc c a = c) ?as \<and> list_all wf_action ?as"
      by (simp add: wf_action_def)
    ultimately show ?thesis by (intro exI [of _ ?as] exI [of _ "[]"]) simp
  qed
qed

lemma fold_ccc_neutral:
  "list_all (\<lambda>a. \<forall>c. ccc c a = c) as \<Longrightarrow> fold (\<lambda>a c. ccc c a) as c = c"
  by (induction as arbitrary: c) simp_all

lemma inv_zoom_response:
  assumes inv: "ccc_sys_inv E s" and p: "0 < pendingZoom s"
  shows "ccc_sys_inv E (processZoomTo_then E d z s)"
proof -
  from inv p have m: "mounted s" by (auto simp: ccc_sys_inv_def ccc_sys_init_def)
  from inv have d: "dyn_inv s" by (simp add: ccc_sys_inv_def)
  obtain as us where eq: "processZoomTo_then E d z s =
      dispatch_all as (s\<lparr>pendingZoom := pendingZoom s - 1, effects := effects s @ us\<rparr>)"
    and us: "sent_msgs us = []" and n: "list_all (\<lambda>a. \<forall>c. ccc c a = c) as" and wf: "list_all wf_action as"
    using processZoomTo_then_shape by blast
  let ?t = "processZoomTo_then E d z s"
  have "benign (s\<lparr>pendingZoom := pendingZoom s - 1\<rparr>)
      (s\<lparr>pendingZoom := pendingZoom s - 1, effects := effects s @ us\<rparr>)"
    using benign_frame [of "[]" us "s\<lparr>pendingZoom := pendingZoom s - 1\<rparr>"] us by simp
  with benign_zoom_r [OF benign_refl, of s "pendingZoom s - 1"]
  have "benign s (s\<lparr>pendingZoom := pendingZoom s - 1, effects := effects s @ us\<rparr>)" by (rule benign_trans)
  then have b: "benign s ?t"
    unfolding eq by (rule benign_dispatch_all_r [OF _ wf])
  have same: "st_ccc (store ?t) = st_ccc (store s)" "ready ?t = ready s"
    "currentContext ?t = currentContext s" "status ?t = status s"
    by (simp_all add: eq dispatch_all_eq fold_ccc_neutral [OF n])
  then have tb: "renders_taskbar ?t = renders_taskbar s" by (simp add: renders_taskbar_def)
  from d have "ready s \<longrightarrow> cccConnection s" "status s \<noteq> NORMAL \<longrightarrow> currentContext s = JNull"
    "renders_taskbar s \<longrightarrow> sock s = Open" by (simp_all add: dyn_inv_def)
  then show ?thesis
    by (intro inv_benign [OF inv b m]) (simp_all only: same tb)
qed

lemma inv_send_open:
  assumes inv: "ccc_sys_inv E s" and o: "sock s = Open"
  shows "ccc_sys_inv E (emit (Send m) s)"
proof -
  from inv o have l: "link_inv E s" and d: "dyn_inv s" and mt: "mounted s"
    by (auto simp: ccc_sys_inv_def ccc_sys_init_def)
  from l o have ne: "sent_msgs (effects s) \<noteq> []" unfolding link_inv_def by blast
  have "link_inv E (emit (Send m) s) = link_inv E s"
    unfolding link_inv_def emit_def using o ne by simp
  with l have "link_inv E (emit (Send m) s)" by simp
  moreover from d have "dyn_inv (emit (Send m) s)"
    by (simp add: dyn_inv_def emit_def renders_taskbar_def)
  ultimately show ?thesis using mt by (simp add: ccc_sys_inv_def emit_def)
qed

lemma buttonClicked_cases:
  assumes "sock s = Open"
  shows "benign s (out_state (buttonClicked k s)) \<or>
         (\<exists>m. benign (emit (Send m) s) (out_state (buttonClicked k s)))"
proof (cases "k = ''Commit''")
  case True
  show ?thesis
  proof (cases "cccConnection s")
    case False
    with True have "out_state (buttonClicked k s) = s"
      by (simp add: buttonClicked_def out_state_def)
    then show ?thesis by simp
  next
    case c: True
    show ?thesis
    proof (cases "js_prop (jget (st_ccc (store s)) ''feature'') ''geometry''")
      case (Inl e)
      with True c have "out_state (buttonClicked k s) = s"
        by (simp add: buttonClicked_def out_state_def)
      then show ?thesis by simp
    next
      case (Inr g)
      with True c assms have "out_state (buttonClicked k s) =
          stopEdit (emit (Send (commit_msg (currentContext s) g)) s)"
        by (simp add: buttonClicked_def ws_transmit_def out_state_def)
      then have "benign (emit (Send (commit_msg (currentContext s) g)) s) (out_state (buttonClicked k s))"
        by (simp add: benign_stopEdit_r [OF benign_refl])
      then show ?thesis by blast
    qed
  qed
next
  case False
  then have "out_state (buttonClicked k s) \<in>
      {stopEdit s, dispatch (RemoveLayer ''cccselection'') s, s}"
    by (simp add: buttonClicked_def Let_def out_state_def)
  then have "benign s (out_state (buttonClicked k s))"
    by (auto simp: wf_action_def benign_stopEdit_r [OF benign_refl] benign_dispatch_r [OF benign_refl])
  then show ?thesis ..
qed

lemma inv_button:
  assumes inv: "ccc_sys_inv E s" and o: "sock s = Open"
  shows "ccc_sys_inv E (finish (buttonClicked k s))"
  using buttonClicked_cases [OF o, of k]
proof
  assume "benign s (out_state (buttonClicked k s))"
  then show ?thesis by (rule inv_benign_open [OF inv o benign_finish])
next
  assume "\<exists>m. benign (emit (Send m) s) (out_state (buttonClicked k s))"
  then obtain m where "benign (emit (Send m) s) (out_state (buttonClicked k s))" ..
  moreover have "ccc_sys_inv E (emit (Send m) s)" by (rule inv_send_open [OF inv o])
  ultimately show ?thesis
    using o by (auto intro: inv_benign_open benign_finish simp: emit_def)
qed

lemma renders_taskbar_open: "ccc_sys_inv E s \<Longrightarrow> renders_taskbar s \<Longrightarrow> sock s = Open"
  by (simp add: ccc_sys_inv_def dyn_inv_def)

lemma taskbar_shown_open: "ccc_sys_inv E s \<Longrightarrow> taskbar_shown s \<Longrightarrow> sock s = Open"
  by (simp add: taskbar_shown_def renders_taskbar_open)

lemma enabled_button_taskbar:
  "(k, False) \<in> set (rendered_buttons s) \<Longrightarrow> taskbar_shown s"
  by (simp add: rendered_buttons_def split: if_splits)

lemma inv_config_failed:
  assumes inv: "ccc_sys_inv E s" and p: "pendingConfig s"
  shows "ccc_sys_inv E (configFailed s)"
  using pending_facts [OF inv p] by (simp add: inv_configFailed)

lemma inv_uncaught:
  assumes "ccc_sys_inv E s" and "mounted s"
  shows "ccc_sys_inv E (s\<lparr>effects := effects s @ [Uncaught e]\<rparr>)"
proof -
  have "link_inv E (s\<lparr>effects := effects s @ [Uncaught e]\<rparr>) = link_inv E s"
    by (rule link_inv_cong) simp_all
  moreover have "dyn_inv (s\<lparr>effects := effects s @ [Uncaught e]\<rparr>) = dyn_inv s"
    by (simp add: dyn_inv_def renders_taskbar_def)
  ultimately show ?thesis using assms by (simp add: ccc_sys_inv_def)
qed

lemma attr_click_cases:
  "attr_click entry f s = Inr s \<or> (\<exists>e. attr_click entry f s = Inl (e, s)) \<or>
   (\<exists>m. ws_transmit m s = attr_click entry f s)"
  by (auto simp: attr_click_def split: sum.split)

lemma inv_attr_click:
  assumes inv: "ccc_sys_inv E s" and m: "mounted s"
  shows "ccc_sys_inv E (finish (attr_click entry f s))"
  using attr_click_cases [of entry f s]
proof (elim disjE exE)
  assume "attr_click entry f s = Inr s"
  with inv show ?thesis by simp
next
  fix e assume "attr_click entry f s = Inl (e, s)"
  with inv m show ?thesis by (simp add: finish_def inv_uncaught)
next
  fix msg assume eq: "ws_transmit msg s = attr_click entry f s"
  show ?thesis
  proof (cases "sock s")
    case Open
    with eq [symmetric] inv show ?thesis by (simp add: ws_transmit_def inv_send_open)
  next
    case Connecting
    with eq [symmetric] inv m show ?thesis by (simp add: ws_transmit_def finish_def inv_uncaught)
  qed (use eq [symmetric] inv in \<open>simp_all add: ws_transmit_def\<close>)
qed

lemma ccc_step_inv:
  assumes inv: "ccc_sys_inv E s" and en: "ccc_enabled E s ev"
  shows "ccc_sys_inv E (ccc_handle E ev s)"
proof (cases ev)
  case Mount
  with en show ?thesis by (simp add: inv_mount [OF inv])
next
  case (ConfigResponse d ok)
  with en show ?thesis by (simp add: inv_configLoaded [OF inv])
next
  case ConfigRequestFailed
  with en show ?thesis by (simp add: inv_config_failed [OF inv])
next
  case WsOpen
  with en show ?thesis by (simp add: inv_onopen [OF inv])
next
  case WsError
  with en show ?thesis by (simp add: inv_onerror [OF inv])
next
  case WsClose
  with en show ?thesis by (simp add: inv_onclose [OF inv])
next
  case (WsMessage m u)
  with en show ?thesis by (simp add: inv_message [OF inv])
next
  case (ZoomToResponse d z)
  with en show ?thesis by (simp add: inv_zoom_response [OF inv])
next
  case (ButtonClick k)
  with en have "sock s = Open"
    by (simp add: taskbar_shown_open [OF inv] enabled_button_taskbar)
  with ButtonClick show ?thesis by (simp add: inv_button [OF inv])
next
  case TaskBarHide
  with en have "sock s = Open" by (simp add: taskbar_shown_open [OF inv])
  with TaskBarHide show ?thesis
    by (simp add: inv_benign_open [OF inv] benign_stopEdit_r [OF benign_refl])
next
  case (AttrLinkClick entry f)
  with en show ?thesis by (simp add: inv_attr_click [OF inv])
qed

lemma ccc_reach_inv: "ccc_reach E s \<Longrightarrow> ccc_sys_inv E s"
  by (induction rule: ccc_reach.induct) (simp_all add: inv_init ccc_step_inv)

lemma ccc_run_reach:
  "ccc_run E evs s = Some t \<Longrightarrow> ccc_reach E s \<Longrightarrow> ccc_reach E t"
  by (induction evs arbitrary: s) (auto split: if_splits intro: ccc_reach.step)

lemma inv_store_ccc: "ccc_sys_inv E s \<Longrightarrow> ccc_inv (st_ccc (store s))"
  by (simp add: ccc_sys_inv_def dyn_inv_def)

lemma commit_enabled_changed:
  "(''Commit'', False) \<in> set (rendered_buttons s) \<Longrightarrow>
   taskbar_shown s \<and> js_truthy (jget (st_ccc (store s)) ''changed'')"
  by (auto simp: rendered_buttons_def renderBody_buttons_def Let_def split: if_splits)

text \<open>What the invariant says of a state whose status is an error: the component has
  mounted, holds no connection and no pending configuration request, the socket is absent
  or lost, and the task bar is hidden.\<close>

lemma inv_error_facts:
  assumes inv: "ccc_sys_inv E s" and st: "status s \<noteq> NORMAL"
  shows "mounted s \<and> \<not> cccConnection s \<and> \<not> pendingConfig s \<and>
    (sock s = NoSocket \<or> sock s = Failing \<or> sock s = Closed) \<and> \<not> renders_taskbar s"
proof -
  have m: "mounted s"
  proof (rule ccontr)
    assume "\<not> mounted s"
    with inv have "s = ccc_sys_init" by (simp add: ccc_sys_inv_def)
    with st show False by (simp add: ccc_sys_init_def)
  qed
  from inv have l: "link_inv E s" by (simp add: ccc_sys_inv_def)
  with st have c: "\<not> cccConnection s" and p: "\<not> pendingConfig s"
    unfolding link_inv_def by blast+
  from l c have "sock s \<noteq> Connecting \<and> sock s \<noteq> Open" unfolding link_inv_def by blast
  then have "sock s = NoSocket \<or> sock s = Failing \<or> sock s = Closed" by (cases "sock s") simp_all
  with m c p st show ?thesis by (simp add: renders_taskbar_def)
qed

lemma inv_failing_status: "ccc_sys_inv E s \<Longrightarrow> sock s = Failing \<Longrightarrow> status s = CONNECTION_ERROR"
  unfolding ccc_sys_inv_def link_inv_def by blast

lemma inv_sent_head:
  "ccc_sys_inv E s \<Longrightarrow> sent_msgs (effects s) \<noteq> [] \<Longrightarrow>
   env_sessionParam E \<noteq> None \<and> env_sessionParam E \<noteq> Some [] \<and>
   hd (sent_msgs (effects s)) = connectGis_msg (session_token E)"
  unfolding ccc_sys_inv_def link_inv_def by blast

lemma inv_conn_session:
  "ccc_sys_inv E s \<Longrightarrow> cccConnection s \<Longrightarrow> session s = session_token E"
  unfolding ccc_sys_inv_def link_inv_def by blast

lemma inv_ready_conn: "ccc_sys_inv E s \<Longrightarrow> ready s \<Longrightarrow> cccConnection s"
  by (simp add: ccc_sys_inv_def dyn_inv_def)

lemma stopEdit_frame [simp]:
  "currentContext (stopEdit s) = currentContext s" "status (stopEdit s) = status s"
  "cccAppConfig (stopEdit s) = cccAppConfig s" "sock (stopEdit s) = sock s"
  "pendingZoom (stopEdit s) = pendingZoom s" "cccConnection (stopEdit s) = cccConnection s"
  by (simp_all add: stopEdit_def dispatch_all_eq)

lemma zoomToFeature_cases:
  "(\<exists>e. zoomToFeature E f s = Inl (e, s)) \<or>
   (\<exists>a. zoomToFeature E f s = Inr (dispatch a s) \<and> (\<forall>c. ccc c a = c) \<and> wf_action a)"
  by (auto simp: zoomToFeature_def wf_action_def split: option.split sum.split)

lemma zoomToFeature_Inr:
  "zoomToFeature E f s = Inr t \<Longrightarrow> \<exists>a. t = dispatch a s \<and> (\<forall>c. ccc c a = c)"
  using zoomToFeature_cases [of E f s] by auto

lemma zoomToFeature_Inl: "zoomToFeature E f s = Inl (e, t) \<Longrightarrow> t = s"
  using zoomToFeature_cases [of E f s] by auto

lemma zoomToFeature_Inr_frame:
  "zoomToFeature E f s = Inr t \<Longrightarrow> currentContext t = currentContext s \<and> status t = status s"
  by (auto dest!: zoomToFeature_Inr simp: dispatch_def)

lemma zoomToFeature_Inr_blocked:
  "zoomToFeature E f s = Inr t \<Longrightarrow> st_blocked (store t) = st_blocked (store s)"
  by (auto simp: zoomToFeature_def dispatch_def split: option.splits sum.splits if_splits)

lemma ctx_zoomToFeature_case:
  assumes "\<And>t'. zoomToFeature E f t = Inr t' \<Longrightarrow> currentContext (out_state (g t')) = currentContext t'"
  shows "currentContext (out_state (case zoomToFeature E f t of Inl err \<Rightarrow> Inl err | Inr t' \<Rightarrow> g t')) =
    currentContext t"
proof (cases "zoomToFeature E f t")
  case (Inl p)
  then show ?thesis by (cases p) (auto simp: out_state_Inl dest: zoomToFeature_Inl)
next
  case (Inr t')
  with assms show ?thesis by (simp add: zoomToFeature_Inr_frame)
qed

end
