(* ===== verification/SearchBox.thy ===== *)
theory SearchBox
  imports JsonText CccReducer CccZoom
begin

text \<open>
  The search box of \<^verbatim>\<open>src/js/plugins/SearchBox.jsx\<close>. Its React state
  (\<open>searchText\<close>, \<open>recentSearches\<close>, \<open>searchResults\<close>, \<open>resultsVisible\<close>,
  \<open>collapsedSections\<close>) and instance fields (\<open>searchBox\<close>, \<open>searchTimeout\<close>,
  \<open>preventBlur\<close>) are the record \<open>sb_state\<close>; the browser's pending timers and HTTP
  requests are kept beside them, each with the id the browser gives it, and everything the
  component does to the outside is appended to \<open>sb_effects\<close>: Redux dispatches (the
  actions of \<open>CccReducer.app_action\<close>), GET requests, calls on the input element.
  The rendering functions return the sections the component shows (\<open>sb_section\<close>);
  clicks address their entries.

  Two reads of the DOM are decided by the environment: \<open>blur()\<close> on the focused input
  runs \<open>onBlur\<close> at once, as browsers dispatch the event synchronously; \<open>focus()\<close>
  is an effect, and the focus event it causes is a later event. The answer of the search
  service is any JSON value: the rendering throws where JavaScript throws on it (a
  \<open>null\<close> entry, a \<open>.map\<close> or \<open>.filter\<close> of a non-array), which
  \<open>renderSearchResults\<close> returns as \<open>Inl TypeError\<close>.
\<close>

datatype sb_timer = StartSearchTimer | PreventBlurReset

datatype sb_request = SearchReq string | FeatureReq jval | LayerReq jval

datatype sb_effect =
    SbDispatch app_action
  | SbGet string "(string \<times> jval) list"
  | SbFocus
  | SbBlur
  | SbSelect
  | SbSelectionEnd
  | SbWarn string
  | SbUnhandled js_error

text \<open>The props and configuration entries the component reads.\<close>

record sb_env =
  resultLimit :: int
  searchServiceUrl :: string
  editServiceUrl :: string
  dataproductServiceUrl :: string
  minResultsExanded :: jval
  searchOptions :: jval
  mapProjection :: jval

record sb_state =
  searchText :: string
  recentSearches :: "jval list"
  searchResults :: jobj
  resultsVisible :: bool
  collapsedSections :: jobj
  searchBox :: bool
  searchTimeout :: "nat option"
  preventBlur :: bool
  timers :: "(nat \<times> sb_timer) list"
  pending :: "(nat \<times> sb_request) list"
  nextId :: nat
  sb_effects :: "sb_effect list"

text \<open>The state after the first render: the ref to the input is set.\<close>

definition sb_init :: sb_state where
  "sb_init = \<lparr>searchText = [], recentSearches = [], searchResults = [], resultsVisible = False,
     collapsedSections = [], searchBox = True, searchTimeout = None, preventBlur = False,
     timers = [], pending = [], nextId = 0, sb_effects = []\<rparr>"

definition sb_emit :: "sb_effect \<Rightarrow> sb_state \<Rightarrow> sb_state" where
  "sb_emit e s = s\<lparr>sb_effects := sb_effects s @ [e]\<rparr>"

definition set_timeout :: "sb_timer \<Rightarrow> sb_state \<Rightarrow> nat \<times> sb_state" where
  "set_timeout k s = (nextId s, s\<lparr>timers := timers s @ [(nextId s, k)], nextId := Suc (nextId s)\<rparr>)"

definition clear_timeout :: "nat option \<Rightarrow> sb_state \<Rightarrow> sb_state" where
  "clear_timeout t s = (case t of None \<Rightarrow> s
     | Some i \<Rightarrow> s\<lparr>timers := filter (\<lambda>(j, _). j \<noteq> i) (timers s)\<rparr>)"

definition send_request :: "sb_request \<Rightarrow> sb_effect \<Rightarrow> sb_state \<Rightarrow> sb_state" where
  "send_request r e s = sb_emit e (s\<lparr>pending := pending s @ [(nextId s, r)], nextId := Suc (nextId s)\<rparr>)"

text \<open>\<open>isEmpty\<close> of lodash: \<open>null\<close>, \<open>undefined\<close>, numbers and booleans are empty.\<close>

fun lodash_isEmpty :: "jval \<Rightarrow> bool" where
  "lodash_isEmpty (JArr vs) = (vs = [])"
| "lodash_isEmpty (JStr s) = (s = [])"
| "lodash_isEmpty (JObj ob) = (ob = [])"
| "lodash_isEmpty _ = True"

text \<open>\<open>x || []\<close>.\<close>

definition js_or_empty :: "jval \<Rightarrow> jval" where
  "js_or_empty v = (if js_truthy v then v else JArr [])"

text \<open>\<open>v.toLowerCase()\<close>: a TypeError on anything but a string.\<close>

definition js_lower :: "jval \<Rightarrow> js_error + string" where
  "js_lower v = (case v of JStr s \<Rightarrow> Inr (ascii_lower s) | _ \<Rightarrow> Inl TypeError)"

text \<open>\<open>x.k1.k2...\<close>: a chain of property reads.\<close>

fun js_path :: "jval \<Rightarrow> string list \<Rightarrow> js_error + jval" where
  "js_path v [] = Inr v"
| "js_path v (k # ks) = (case js_prop v k of Inl e \<Rightarrow> Inl e | Inr w \<Rightarrow> js_path w ks)"

datatype sb_section =
    Recent bool "jval list"
  | Filters bool "string list"
  | Places bool "jval list" "int option"
  | Layers bool "jval list"

text \<open>The \<open>filter\<close> of \<open>renderRecentResults\<close>: an entry is kept when its lower-case
  form contains the lower-case search text.\<close>

fun recent_filter :: "string \<Rightarrow> jval list \<Rightarrow> js_error + jval list" where
  "recent_filter q [] = Inr []"
| "recent_filter q (e # es) =
     (case js_lower e of
        Inl err \<Rightarrow> Inl err
      | Inr le \<Rightarrow> (case recent_filter q es of
          Inl err \<Rightarrow> Inl err
        | Inr r \<Rightarrow> Inr (if sublist q le then e # r else r)))"

definition renderRecentResults :: "sb_state \<Rightarrow> js_error + sb_section option" where
  "renderRecentResults s =
     (let q = ascii_lower (searchText s) in
      case recent_filter q (recentSearches s) of
        Inl e \<Rightarrow> Inl e
      | Inr r \<Rightarrow>
          (let shown = Inr (Some (Recent (js_truthy (jget (collapsedSections s) ''recent'')) r)) in
           if r = [] then Inr None
           else if length r = 1 then
             (case js_lower (hd r) of Inl e \<Rightarrow> Inl e | Inr l \<Rightarrow> if l = q then Inr None else shown)
           else shown))"

text \<open>\<open>.map(entry => entry.filterword + ": " + query_text)\<close> of \<open>renderFilters\<close>.\<close>

fun filter_values :: "jval list \<Rightarrow> string \<Rightarrow> js_error + string list" where
  "filter_values [] qt = Inr []"
| "filter_values (entry # es) qt =
     js_seq (js_prop entry ''filterword'') (\<lambda>fw.
     js_seq (filter_values es qt) (\<lambda>vs. Inr ((js_str fw @ '': '' @ qt) # vs)))"

text \<open>\<open>renderFilters\<close>: nothing for an empty or one-element \<open>result_counts\<close>
  (\<open>.length\<close> of a non-array non-string is \<open>undefined\<close>, and \<open>undefined < 2\<close> is
  false); the entries are only computed when the section is expanded.\<close>

definition renderFilters :: "sb_env \<Rightarrow> sb_state \<Rightarrow> jval \<Rightarrow> js_error + sb_section option" where
  "renderFilters E s resultCount =
     (let sr = searchResults s; rcs = jget sr ''result_counts'';
          short = (case rcs of JArr vs \<Rightarrow> length vs < 2 | JStr t \<Rightarrow> length t < 2 | _ \<Rightarrow> False) in
      if lodash_isEmpty rcs \<or> short then Inr None
      else
        (let initialCollapsed = js_lt resultCount (minResultsExanded E);
             c = jget (collapsedSections s) ''filter'';
             collapsed = (if c = JUndef then initialCollapsed else js_truthy c)
         in if collapsed then Inr (Some (Filters True []))
            else js_seq (js_array rcs) (\<lambda>vs.
                 js_seq (filter_values vs (js_str (jget sr ''query_text''))) (\<lambda>vals.
                 Inr (Some (Filters False vals))))))"

text \<open>\<open>rs.filter(result => result[k])\<close>.\<close>

fun filter_prop :: "string \<Rightarrow> jval list \<Rightarrow> js_error + jval list" where
  "filter_prop k [] = Inr []"
| "filter_prop k (r # rs) =
     js_seq (js_prop r k) (\<lambda>v. js_seq (filter_prop k rs) (\<lambda>fs. Inr (if js_truthy v then r # fs else fs)))"

text \<open>\<open>renderPlaces\<close>; \<open>additionalResults = resultCount - features.length\<close> is
  kept as a number, \<open>None\<close> for \<open>NaN\<close>. Reading \<open>entry.feature.display\<close>
  cannot throw, \<open>entry.feature\<close> being truthy.\<close>

definition renderPlaces :: "sb_state \<Rightarrow> jval \<Rightarrow> js_error + sb_section option" where
  "renderPlaces s resultCount =
     js_seq (js_array (js_or_empty (jget (searchResults s) ''results''))) (\<lambda>rs.
     js_seq (filter_prop ''feature'' rs) (\<lambda>features.
     if features = [] then Inr None
     else Inr (Some (Places (js_truthy (jget (collapsedSections s) ''places'')) features
            (map_option (\<lambda>n. n - int (length features)) (js_to_number (js_prim resultCount)))))))"

definition renderLayers :: "sb_state \<Rightarrow> js_error + sb_section option" where
  "renderLayers s =
     js_seq (js_array (js_or_empty (jget (searchResults s) ''results''))) (\<lambda>rs.
     js_seq (filter_prop ''dataproduct'' rs) (\<lambda>layers.
     if layers = [] then Inr None
     else Inr (Some (Layers (js_truthy (jget (collapsedSections s) ''layers'')) layers))))"

text \<open>The \<open>reduce\<close> of \<open>renderSearchResults\<close>: \<open>entry.count ? res + entry.count : res\<close>
  from 0. A string count turns the sum into a string.\<close>

fun count_fold :: "jval list \<Rightarrow> jval \<Rightarrow> js_error + jval" where
  "count_fold [] res = Inr res"
| "count_fold (entry # es) res =
     js_seq (js_prop entry ''count'') (\<lambda>c. count_fold es (if js_truthy c then js_add res c else res))"

definition result_count :: "sb_state \<Rightarrow> js_error + jval" where
  "result_count s =
     (let rcs = jget (searchResults s) ''result_counts'' in
      if js_truthy rcs then js_seq (js_array rcs) (\<lambda>vs. count_fold vs (JNum 0)) else Inr (JNum 0))"

text \<open>\<open>renderSearchResults\<close>: the count first, then the four sections in order; the
  first exception ends the render.\<close>

definition renderSearchResults :: "sb_env \<Rightarrow> sb_state \<Rightarrow> js_error + sb_section list" where
  "renderSearchResults E s =
     (if \<not> resultsVisible s then Inr [] else
      js_seq (result_count s) (\<lambda>resultCount.
      js_seq (renderRecentResults s) (\<lambda>r.
      js_seq (renderFilters E s resultCount) (\<lambda>f.
      js_seq (renderPlaces s resultCount) (\<lambda>p.
      js_seq (renderLayers s) (\<lambda>l.
      Inr (List.map_filter id [r, f, p, l])))))))"

definition setPreventBlur :: "sb_state \<Rightarrow> sb_state" where
  "setPreventBlur s = (case set_timeout PreventBlurReset (s\<lparr>preventBlur := True\<rparr>) of (t, s1) \<Rightarrow> s1)"

definition toggleSection :: "string \<Rightarrow> sb_state \<Rightarrow> sb_state" where
  "toggleSection key s = s\<lparr>collapsedSections :=
     obj_set (collapsedSections s) key (JBool (\<not> js_truthy (jget (collapsedSections s) key)))\<rparr>"

text \<open>\<open>searchTextChanged\<close>: the debounce. The previous timer is cancelled and a new
  one, which will run \<open>startSearch\<close>, is set.\<close>

definition searchTextChanged :: "string \<Rightarrow> sb_state \<Rightarrow> sb_state" where
  "searchTextChanged text s =
     (let s1 = sb_emit (SbDispatch (RemoveLayer ''searchselection'')) s;
          s2 = clear_timeout (searchTimeout s1) (s1\<lparr>searchText := text\<rparr>)
      in case set_timeout StartSearchTimer s2 of (t, s3) \<Rightarrow> s3\<lparr>searchTimeout := Some t\<rparr>)"

definition onFocus :: "sb_state \<Rightarrow> sb_state" where
  "onFocus s = (let s1 = s\<lparr>resultsVisible := True\<rparr> in if searchBox s1 then sb_emit SbSelect s1 else s1)"

definition onBlur :: "sb_state \<Rightarrow> sb_state" where
  "onBlur s = (if preventBlur s \<and> searchBox s then sb_emit SbFocus s
     else s\<lparr>resultsVisible := False, collapsedSections := []\<rparr>)"

definition onKeyDown :: "nat \<Rightarrow> sb_state \<Rightarrow> sb_state" where
  "onKeyDown keyCode s = (if keyCode = 27 \<and> searchBox s then sb_emit SbSelectionEnd s else s)"

definition search_filter :: string where
  "search_filter = ''dataproduct,ch.so.agi.av.gebaeudeadressen.gebaeudeeingaenge,'' @
     ''ch.so.agi.gemeindegrenzen.bezirk,ch.so.agi.gemeindegrenzen,ch.so.afu.fliessgewaesser.netz,'' @
     ''ch.so.agi.av.grundstuecke.rechtskraeftig,ch.so.arp.richtplan.nationalstrassen_bestehend''"

text \<open>\<open>startSearch\<close>: the request carries the text of the moment it is sent; its
  answer (\<open>searchDone\<close>) stores the results with that text as \<open>query_text\<close>.\<close>

definition startSearch :: "sb_env \<Rightarrow> sb_state \<Rightarrow> sb_state" where
  "startSearch E s =
     (let service = strip_trailing_slash (searchServiceUrl E) @ ''/'';
          text = searchText s;
          params = [(''searchtext'', JStr (js_trim text)), (''filter'', JStr (js_trim search_filter)),
                    (''limit'', JNum (resultLimit E))]
      in send_request (SearchReq text) (SbGet service params) s)"

text \<open>The properties \<open>{...v}\<close> copies: the keys of an object, the indices of an
  array or a string, nothing of the other values.\<close>

definition js_spread :: "jval \<Rightarrow> jobj" where
  "js_spread v = (case v of
       JObj ob \<Rightarrow> ob
     | JArr vs \<Rightarrow> zip (map nat_str [0..<length vs]) vs
     | JStr t \<Rightarrow> zip (map nat_str [0..<length t]) (map (\<lambda>c. JStr [c]) t)
     | _ \<Rightarrow> [])"

definition searchDone :: "string \<Rightarrow> jval \<Rightarrow> sb_state \<Rightarrow> sb_state" where
  "searchDone text data s = s\<lparr>searchResults :=
     obj_assign (obj_assign [] (js_spread data)) [(''query_text'', JStr text)]\<rparr>"

text \<open>\<open>updateRecentSearches\<close>: the query text of the shown results is put in front of
  the recent searches, which keep at most five entries, unless it is there already.\<close>

definition updateRecentSearches :: "sb_state \<Rightarrow> sb_state" where
  "updateRecentSearches s =
     (let text = jget (searchResults s) ''query_text'';
          s1 = (if list_ex (\<lambda>e. js_strict_eq e text) (recentSearches s) then s
                else s\<lparr>recentSearches := text # take 4 (recentSearches s)\<rparr>)
      in if searchBox s1 then onBlur (sb_emit SbBlur s1) else s1)"

text \<open>The filter of \<open>selectFeatureResult\<close>, built by a template literal:
  \<open>[["name","=","id"]]\<close> for a string id and \<open>[["name","=",id]]\<close> otherwise.\<close>

definition feature_filter :: "jval \<Rightarrow> string" where
  "feature_filter result =
     (let fid = field result ''feature_id'';
          pre = ''[['' @ [dq] @ js_str (field result ''id_field_name'') @ [dq] @ '','' @ [dq] @ ''='' @ [dq] @ '',''
      in case fid of
           JStr i \<Rightarrow> pre @ [dq] @ i @ [dq] @ '']]''
         | _ \<Rightarrow> pre @ js_str fid @ '']]'')"

definition selectFeatureResult :: "sb_env \<Rightarrow> jval \<Rightarrow> sb_state \<Rightarrow> sb_state" where
  "selectFeatureResult E result s =
     (let s1 = updateRecentSearches s;
          url = strip_trailing_slash (editServiceUrl E) @ ''/'' @ js_str (field result ''dataproduct_id'') @
                ''/?filter='' @ feature_filter result
      in send_request (FeatureReq result) (SbGet url []) s1)"

text \<open>\<open>showFeatureGeometry\<close>, the callback of that request. \<open>zfe\<close> is what qwc2's
  \<open>MapUtils.getZoomForExtent\<close> returns and \<open>bb\<close> the box \<open>reprojectBbox\<close> returns;
  the reads before the first dispatch throw on a missing \<open>searchOptions\<close>, on a
  \<open>null\<close> answer and on an answer without \<open>crs.properties\<close>.\<close>

definition showFeatureGeometry ::
  "sb_env \<Rightarrow> jval \<Rightarrow> jval \<Rightarrow> int \<Rightarrow> int \<times> int \<times> int \<times> int \<Rightarrow> sb_state \<Rightarrow> js_error + sb_state" where
  "showFeatureGeometry E item data zfe bb s =
     (case js_prop (searchOptions E) ''minScale'' of Inl e \<Rightarrow> Inl e | Inr _ \<Rightarrow>
      case js_prop data ''bbox'' of Inl e \<Rightarrow> Inl e | Inr _ \<Rightarrow>
      case js_path data [''crs'', ''properties'', ''name''] of Inl e \<Rightarrow> Inl e | Inr _ \<Rightarrow>
        (let zoom = max 0 (zfe - 1);
             s1 = sb_emit (SbDispatch (ZoomToPoint (extent_center bb) zoom (mapProjection E))) s
         in Inr (sb_emit (SbDispatch (AddLayerFeatures ''searchselection'' SELECTION
               (field data ''features'') True)) s1)))"

definition selectLayerResult :: "sb_env \<Rightarrow> jval \<Rightarrow> sb_state \<Rightarrow> sb_state" where
  "selectLayerResult E result s =
     send_request (LayerReq result)
       (SbGet (strip_trailing_slash (dataproductServiceUrl E) @ ''/weblayers'')
          [(''filter'', field result ''dataproduct_id'')])
       (updateRecentSearches s)"

definition addLayer :: "jval \<Rightarrow> jval \<Rightarrow> sb_state \<Rightarrow> js_error + sb_state" where
  "addLayer item data s =
     (case js_prop data (js_str (field item ''dataproduct_id'')) of
        Inl e \<Rightarrow> Inl e
      | Inr v \<Rightarrow> Inr (if \<not> lodash_isEmpty v
          then sb_emit (SbDispatch (SetCurrentTask (Some ''LayerTree'') None None))
                 (sb_emit (SbDispatch (AddThemeSublayer (JObj [(''sublayers'', v)]))) s)
          else s))"

end
