(* ===== verification/SearchBoxEvents.thy ===== *)
theory SearchBoxEvents
  imports SearchBox
begin

text \<open>
  The search box as an event system. An event is one callback the browser runs: input in
  the text field, focus and blur, a key, a mouse-down on the result list, a timer that
  fires, a click on a section title or on an entry, the answer or failure of a request.
  \<open>sb_handle\<close> runs the handler the JSX installs for it; \<open>sb_enabled\<close> says when the
  browser can deliver it (a timer or an answer must be pending, a click needs a rendered
  entry). \<open>sb_reach\<close> is the set of reachable states and \<open>sb_inv\<close> its invariant:
  the recent searches are distinct strings, at most five; shown results carry their query
  text as a string; at most one search timer is pending, the one in \<open>searchTimeout\<close>.
\<close>

datatype sb_event =
    TextInput string
  | FocusIn
  | FocusOut
  | KeyDown nat
  | ResultsMouseDown
  | TimerFires nat
  | ToggleSection string
  | ClickRecent nat
  | ClickFilter nat
  | ClickPlace nat
  | ClickLayer nat
  | SearchAnswer nat jval
  | FeatureAnswer nat jval int "int \<times> int \<times> int \<times> int"
  | LayerAnswer nat jval
  | RequestFailed nat

text \<open>The entries of a section the user can click: none while it is collapsed.\<close>

fun recent_of :: "sb_section \<Rightarrow> jval list option" where
  "recent_of (Recent c r) = (if c then None else Some r)"
| "recent_of _ = None"

fun filters_of :: "sb_section \<Rightarrow> string list option" where
  "filters_of (Filters c vs) = (if c then None else Some vs)"
| "filters_of _ = None"

fun places_of :: "sb_section \<Rightarrow> jval list option" where
  "places_of (Places c fs n) = (if c then None else Some fs)"
| "places_of _ = None"

fun layers_of :: "sb_section \<Rightarrow> jval list option" where
  "layers_of (Layers c ls) = (if c then None else Some ls)"
| "layers_of _ = None"

fun section_key :: "sb_section \<Rightarrow> string" where
  "section_key (Recent _ _) = ''recent''"
| "section_key (Filters _ _) = ''filter''"
| "section_key (Places _ _ _) = ''places''"
| "section_key (Layers _ _) = ''layers''"

definition sb_sections :: "sb_env \<Rightarrow> sb_state \<Rightarrow> sb_section list" where
  "sb_sections E s = (case renderSearchResults E s of Inl _ \<Rightarrow> [] | Inr secs \<Rightarrow> secs)"

definition shown :: "(sb_section \<Rightarrow> 'a list option) \<Rightarrow> sb_env \<Rightarrow> sb_state \<Rightarrow> 'a list" where
  "shown f E s = concat (List.map_filter f (sb_sections E s))"

definition drop_timer :: "nat \<Rightarrow> sb_state \<Rightarrow> sb_state" where
  "drop_timer i s = s\<lparr>timers := filter (\<lambda>(j, _). j \<noteq> i) (timers s)\<rparr>"

definition drop_pending :: "nat \<Rightarrow> sb_state \<Rightarrow> sb_state" where
  "drop_pending i s = s\<lparr>pending := filter (\<lambda>(j, _). j \<noteq> i) (pending s)\<rparr>"

text \<open>A rejected promise without a \<open>catch\<close> ends as an unhandled rejection.\<close>

definition sb_finish :: "sb_state \<Rightarrow> js_error + sb_state \<Rightarrow> sb_state" where
  "sb_finish s r = (case r of Inl e \<Rightarrow> sb_emit (SbUnhandled e) s | Inr t \<Rightarrow> t)"

fun sb_handle :: "sb_env \<Rightarrow> sb_event \<Rightarrow> sb_state \<Rightarrow> sb_state" where
  "sb_handle E (TextInput t) s = searchTextChanged t s"
| "sb_handle E FocusIn s = onFocus s"
| "sb_handle E FocusOut s = onBlur s"
| "sb_handle E (KeyDown k) s = onKeyDown k s"
| "sb_handle E ResultsMouseDown s = setPreventBlur s"
| "sb_handle E (TimerFires i) s =
     (case map_of (timers s) i of
        Some StartSearchTimer \<Rightarrow> startSearch E (drop_timer i s)
      | Some PreventBlurReset \<Rightarrow> (drop_timer i s)\<lparr>preventBlur := False\<rparr>
      | None \<Rightarrow> s)"
| "sb_handle E (ToggleSection k) s = toggleSection k s"
| "sb_handle E (ClickRecent i) s = searchTextChanged (js_str (shown recent_of E s ! i)) s"
| "sb_handle E (ClickFilter i) s = searchTextChanged (shown filters_of E s ! i) s"
| "sb_handle E (ClickPlace i) s = selectFeatureResult E (field (shown places_of E s ! i) ''feature'') s"
| "sb_handle E (ClickLayer i) s = selectLayerResult E (field (shown layers_of E s ! i) ''dataproduct'') s"
| "sb_handle E (SearchAnswer i d) s =
     (case map_of (pending s) i of
        Some (SearchReq t) \<Rightarrow> searchDone t d (drop_pending i s)
      | _ \<Rightarrow> s)"
| "sb_handle E (FeatureAnswer i d zfe bb) s =
     (case map_of (pending s) i of
        Some (FeatureReq r) \<Rightarrow> sb_finish (drop_pending i s) (showFeatureGeometry E r d zfe bb (drop_pending i s))
      | _ \<Rightarrow> s)"
| "sb_handle E (LayerAnswer i d) s =
     (case map_of (pending s) i of
        Some (LayerReq r) \<Rightarrow> sb_finish (drop_pending i s) (addLayer r d (drop_pending i s))
      | _ \<Rightarrow> s)"
| "sb_handle E (RequestFailed i) s =
     (case map_of (pending s) i of
        Some (SearchReq t) \<Rightarrow> sb_emit (SbWarn ''Search failed'') (drop_pending i s)
      | Some _ \<Rightarrow> drop_pending i s
      | None \<Rightarrow> s)"

fun is_search_req :: "sb_request option \<Rightarrow> bool" where
  "is_search_req (Some (SearchReq t)) = True"
| "is_search_req _ = False"

fun is_feature_req :: "sb_request option \<Rightarrow> bool" where
  "is_feature_req (Some (FeatureReq r)) = True"
| "is_feature_req _ = False"

fun is_layer_req :: "sb_request option \<Rightarrow> bool" where
  "is_layer_req (Some (LayerReq r)) = True"
| "is_layer_req _ = False"

text \<open>\<open>zfe\<close> is a zoom level of the map, so it is not negative.\<close>

fun sb_enabled :: "sb_env \<Rightarrow> sb_state \<Rightarrow> sb_event \<Rightarrow> bool" where
  "sb_enabled E s ResultsMouseDown = (sb_sections E s \<noteq> [])"
| "sb_enabled E s (TimerFires i) = (map_of (timers s) i \<noteq> None)"
| "sb_enabled E s (ToggleSection k) = (k \<in> set (map section_key (sb_sections E s)))"
| "sb_enabled E s (ClickRecent i) = (i < length (shown recent_of E s))"
| "sb_enabled E s (ClickFilter i) = (i < length (shown filters_of E s))"
| "sb_enabled E s (ClickPlace i) = (i < length (shown places_of E s))"
| "sb_enabled E s (ClickLayer i) = (i < length (shown layers_of E s))"
| "sb_enabled E s (SearchAnswer i d) = is_search_req (map_of (pending s) i)"
| "sb_enabled E s (FeatureAnswer i d zfe bb) = (is_feature_req (map_of (pending s) i) \<and> 0 \<le> zfe)"
| "sb_enabled E s (LayerAnswer i d) = is_layer_req (map_of (pending s) i)"
| "sb_enabled E s (RequestFailed i) = (map_of (pending s) i \<noteq> None)"
| "sb_enabled E s _ = True"

inductive sb_reach :: "sb_env \<Rightarrow> sb_state \<Rightarrow> bool" for E where
  init: "sb_reach E sb_init"
| step: "sb_reach E s \<Longrightarrow> sb_enabled E s ev \<Longrightarrow> sb_reach E (sb_handle E ev s)"

fun sb_run :: "sb_env \<Rightarrow> sb_event list \<Rightarrow> sb_state \<Rightarrow> sb_state option" where
  "sb_run E [] s = Some s"
| "sb_run E (ev # evs) s = (if sb_enabled E s ev then sb_run E evs (sb_handle E ev s) else None)"

fun is_jstr :: "jval \<Rightarrow> bool" where
  "is_jstr (JStr _) = True"
| "is_jstr _ = False"

definition sb_inv :: "sb_state \<Rightarrow> bool" where
  "sb_inv s \<longleftrightarrow>
     list_all is_jstr (recentSearches s) \<and> distinct (recentSearches s) \<and>
     length (recentSearches s) \<le> 5 \<and>
     (searchResults s = [] \<or> is_jstr (jget (searchResults s) ''query_text'')) \<and>
     (\<forall>(i, k) \<in> set (timers s). k = StartSearchTimer \<longrightarrow> searchTimeout s = Some i) \<and>
     distinct (map fst (timers s)) \<and> (\<forall>(i, k) \<in> set (timers s). i < nextId s)"

text \<open>A list field of the search answer the rendering can walk: absent (falsy), or an array
  without \<open>null\<close> or \<open>undefined\<close> entries, whose properties can be read.\<close>

fun entries_ok :: "jval \<Rightarrow> bool" where
  "entries_ok (JArr vs) = (JNull \<notin> set vs \<and> JUndef \<notin> set vs)"
| "entries_ok v = (\<not> js_truthy v)"

definition results_wf :: "jobj \<Rightarrow> bool" where
  "results_wf sr = (entries_ok (jget sr ''result_counts'') \<and> entries_ok (jget sr ''results''))"

lemma sb_run_reach:
  "sb_run E evs s = Some t \<Longrightarrow> sb_reach E s \<Longrightarrow> sb_reach E t"
  by (induction evs arbitrary: s) (auto split: if_splits intro: sb_reach.step)

lemma sb_inv_frame:
  assumes "sb_inv s" and "recentSearches t = recentSearches s" and "searchResults t = searchResults s"
    and "timers t = timers s" and "searchTimeout t = searchTimeout s" and "nextId s \<le> nextId t"
  shows "sb_inv t"
  using assms unfolding sb_inv_def by fastforce

lemma sb_inv_init: "sb_inv sb_init"
  by (simp add: sb_inv_def sb_init_def)

lemma sb_inv_emit [simp]: "sb_inv (sb_emit e s) = sb_inv s"
  by (simp add: sb_inv_def sb_emit_def)

lemma sb_inv_onBlur: "sb_inv s \<Longrightarrow> sb_inv (onBlur s)"
  by (simp add: onBlur_def sb_emit_def sb_inv_def)

lemma sb_inv_onFocus: "sb_inv s \<Longrightarrow> sb_inv (onFocus s)"
  by (simp add: onFocus_def sb_emit_def sb_inv_def Let_def)

lemma sb_inv_send_request: "sb_inv s \<Longrightarrow> sb_inv (send_request r e s)"
  by (erule sb_inv_frame) (simp_all add: send_request_def sb_emit_def)

lemma sb_inv_drop_pending: "sb_inv s \<Longrightarrow> sb_inv (drop_pending i s)"
  by (erule sb_inv_frame) (simp_all add: drop_pending_def)

lemma sb_inv_drop_timer:
  assumes "sb_inv s" shows "sb_inv (drop_timer i s)"
  using assms unfolding sb_inv_def drop_timer_def by (auto simp: distinct_map_filter)

lemma sb_inv_searchTextChanged:
  assumes inv: "sb_inv s" shows "sb_inv (searchTextChanged t s)"
proof -
  let ?n = "nextId s"
  let ?old = "filter (\<lambda>(j, _). Some j \<noteq> searchTimeout s) (timers s)"
  have clr: "timers (clear_timeout (searchTimeout s) s') = (if searchTimeout s = None then timers s' else
      filter (\<lambda>(j, _). Some j \<noteq> searchTimeout s) (timers s'))" for s'
    by (cases "searchTimeout s") (auto simp: clear_timeout_def intro: filter_cong)
  have eq: "searchTextChanged t s = s\<lparr>searchText := t, sb_effects := sb_effects s @ [SbDispatch (RemoveLayer ''searchselection'')],
      timers := (if searchTimeout s = None then timers s else ?old) @ [(?n, StartSearchTimer)],
      nextId := Suc ?n, searchTimeout := Some ?n\<rparr>"
    by (cases "searchTimeout s") (auto simp: searchTextChanged_def sb_emit_def clear_timeout_def set_timeout_def Let_def intro: filter_cong)
  from inv have "\<forall>(i, k) \<in> set (timers s). i < ?n" and "distinct (map fst (timers s))"
    and st: "\<forall>(i, k) \<in> set (timers s). k = StartSearchTimer \<longrightarrow> searchTimeout s = Some i"
    by (simp_all add: sb_inv_def)
  then show ?thesis using inv unfolding eq sb_inv_def
    by (auto simp: distinct_map_filter split: if_splits)
qed

lemma sb_inv_setPreventBlur: "sb_inv s \<Longrightarrow> sb_inv (setPreventBlur s)"
  by (auto simp: sb_inv_def setPreventBlur_def set_timeout_def)

lemma sb_inv_toggleSection: "sb_inv s \<Longrightarrow> sb_inv (toggleSection k s)"
  by (simp add: sb_inv_def toggleSection_def)

lemma sb_inv_onKeyDown: "sb_inv s \<Longrightarrow> sb_inv (onKeyDown k s)"
  by (simp add: onKeyDown_def)

lemma sb_inv_startSearch: "sb_inv s \<Longrightarrow> sb_inv (startSearch E s)"
  by (simp add: startSearch_def Let_def sb_inv_send_request)

lemma jget_query_text_searchDone [simp]:
  "jget (searchResults (searchDone t d s)) ''query_text'' = JStr t"
  by (simp add: searchDone_def jget_obj_assign)

lemma sb_inv_searchDone: "sb_inv s \<Longrightarrow> sb_inv (searchDone t d s)"
  by (simp add: sb_inv_def searchDone_def jget_obj_assign)

lemma sb_inv_updateRecentSearches:
  assumes inv: "sb_inv s" and r: "searchResults s \<noteq> []"
  shows "sb_inv (updateRecentSearches s)"
proof -
  from inv r obtain t where t: "jget (searchResults s) ''query_text'' = JStr t"
    by (cases "jget (searchResults s) ''query_text''") (auto simp: sb_inv_def)
  let ?s1 = "if JStr t \<in> set (recentSearches s) then s
             else s\<lparr>recentSearches := JStr t # take 4 (recentSearches s)\<rparr>"
  have "sb_inv ?s1"
    using inv by (auto simp: sb_inv_def list_all_iff dest: in_set_takeD)
  moreover have "list_ex (\<lambda>e. js_strict_eq e (JStr t)) (recentSearches s) = (JStr t \<in> set (recentSearches s))"
    by (simp add: list_ex_iff)
  ultimately show ?thesis
    by (simp add: updateRecentSearches_def t sb_inv_onBlur Let_def)
qed

lemma showFeatureGeometry_Inr:
  "showFeatureGeometry E r d z bb s = Inr t \<Longrightarrow> \<exists>es. t = s\<lparr>sb_effects := sb_effects s @ es\<rparr>"
  by (auto simp: showFeatureGeometry_def sb_emit_def split: sum.splits)

lemma addLayer_Inr:
  "addLayer r d s = Inr t \<Longrightarrow> \<exists>es. t = s\<lparr>sb_effects := sb_effects s @ es\<rparr>"
  by (auto simp: addLayer_def sb_emit_def split: sum.splits if_splits intro: exI [of _ "[]"])

lemma sb_inv_effects [simp]: "sb_inv (s\<lparr>sb_effects := es\<rparr>) = sb_inv s"
  by (simp add: sb_inv_def)

lemma sb_inv_finish:
  assumes "sb_inv s" and "\<And>t. r = Inr t \<Longrightarrow> \<exists>es. t = s\<lparr>sb_effects := sb_effects s @ es\<rparr>"
  shows "sb_inv (sb_finish s r)"
  using assms by (cases r) (auto simp: sb_finish_def)

lemma recent_only_sections:
  assumes "searchResults s = []"
  shows "\<forall>x \<in> set (sb_sections E s). \<exists>c r. x = Recent c r"
proof -
  have "result_count s = Inr (JNum 0)" "renderFilters E s n = Inr None" "renderPlaces s n = Inr None"
    "renderLayers s = Inr None" for n
    using assms by (simp_all add: result_count_def renderFilters_def renderPlaces_def renderLayers_def
        js_or_empty_def js_array_def Let_def)
  then show ?thesis
    by (auto simp: sb_sections_def renderSearchResults_def renderRecentResults_def List.map_filter_def
        js_seq_def Let_def split: sum.splits option.splits if_splits)
qed

lemma map_filter_all_None: "\<forall>x \<in> set xs. f x = None \<Longrightarrow> List.map_filter f xs = []"
  by (induction xs) (simp_all add: List.map_filter_def)

lemma shown_places_results:
  assumes "shown places_of E s \<noteq> []" shows "searchResults s \<noteq> []"
proof
  assume "searchResults s = []"
  then have "\<forall>x \<in> set (sb_sections E s). places_of x = None"
    using recent_only_sections by fastforce
  then have "shown places_of E s = []" by (simp add: shown_def map_filter_all_None)
  with assms show False by simp
qed

lemma shown_layers_results:
  assumes "shown layers_of E s \<noteq> []" shows "searchResults s \<noteq> []"
proof
  assume "searchResults s = []"
  then have "\<forall>x \<in> set (sb_sections E s). layers_of x = None"
    using recent_only_sections by fastforce
  then have "shown layers_of E s = []" by (simp add: shown_def map_filter_all_None)
  with assms show False by simp
qed

lemma sb_inv_preventBlur [simp]: "sb_inv (s\<lparr>preventBlur := b\<rparr>) = sb_inv s"
  by (simp add: sb_inv_def)

lemma sb_step_inv:
  assumes inv: "sb_inv s" and en: "sb_enabled E s ev"
  shows "sb_inv (sb_handle E ev s)"
proof (cases ev)
  case (TimerFires i)
  then show ?thesis
    using inv sb_inv_drop_timer [OF inv, of i]
    by (auto simp: sb_inv_startSearch split: option.split sb_timer.split)
next
  case (ClickPlace i)
  with en have "shown places_of E s \<noteq> []" by auto
  then have "searchResults s \<noteq> []" by (rule shown_places_results)
  with ClickPlace show ?thesis
    by (simp add: selectFeatureResult_def Let_def sb_inv_send_request sb_inv_updateRecentSearches [OF inv])
next
  case (ClickLayer i)
  with en have "shown layers_of E s \<noteq> []" by auto
  then have "searchResults s \<noteq> []" by (rule shown_layers_results)
  with ClickLayer show ?thesis
    by (simp add: selectLayerResult_def sb_inv_send_request sb_inv_updateRecentSearches [OF inv])
next
  case (SearchAnswer i d)
  then show ?thesis
    using inv sb_inv_drop_pending [OF inv, of i]
    by (auto simp: sb_inv_searchDone split: option.split sb_request.split)
next
  case (FeatureAnswer i d z bb)
  then show ?thesis
    using inv sb_inv_drop_pending [OF inv, of i]
    by (auto intro!: sb_inv_finish dest: showFeatureGeometry_Inr split: option.split sb_request.split)
next
  case (LayerAnswer i d)
  then show ?thesis
    using inv sb_inv_drop_pending [OF inv, of i]
    by (auto intro!: sb_inv_finish dest: addLayer_Inr split: option.split sb_request.split)
next
  case (RequestFailed i)
  then show ?thesis
    using inv sb_inv_drop_pending [OF inv, of i]
    by (auto split: option.split sb_request.split)
qed (use inv in \<open>simp_all add: sb_inv_searchTextChanged sb_inv_onFocus sb_inv_onBlur sb_inv_onKeyDown
       sb_inv_setPreventBlur sb_inv_toggleSection\<close>)

lemma sb_reach_inv: "sb_reach E s \<Longrightarrow> sb_inv s"
  by (induction rule: sb_reach.induct) (simp_all add: sb_inv_init sb_step_inv)

lemma recent_filter_strings:
  "list_all is_jstr rs \<Longrightarrow> \<exists>r. recent_filter q rs = Inr r \<and> set r \<subseteq> set rs"
proof (induction rs)
  case Nil
  then show ?case by simp
next
  case (Cons e rs)
  then obtain t where e: "e = JStr t" by (cases e) auto
  from Cons obtain r where "recent_filter q rs = Inr r" "set r \<subseteq> set rs" by auto
  with e show ?case by (auto simp: js_lower_def)
qed

lemma js_prop_entry: "v \<noteq> JNull \<Longrightarrow> v \<noteq> JUndef \<Longrightarrow> \<exists>x. js_prop v k = Inr x"
  by (cases v) simp_all

lemma js_prop_error: "js_prop v k = Inl e \<Longrightarrow> e = TypeError"
  by (cases v) simp_all

lemma count_fold_ok: "JNull \<notin> set vs \<Longrightarrow> JUndef \<notin> set vs \<Longrightarrow> \<exists>r. count_fold vs res = Inr r"
proof (induction vs arbitrary: res)
  case (Cons e vs)
  then obtain c where "js_prop e ''count'' = Inr c" using js_prop_entry by fastforce
  with Cons show ?case by simp
qed simp

lemma filter_values_ok: "JNull \<notin> set vs \<Longrightarrow> JUndef \<notin> set vs \<Longrightarrow> \<exists>r. filter_values vs qt = Inr r"
proof (induction vs)
  case (Cons e vs)
  then obtain w where "js_prop e ''filterword'' = Inr w" using js_prop_entry by fastforce
  with Cons show ?case by auto
qed simp

lemma filter_prop_ok: "JNull \<notin> set vs \<Longrightarrow> JUndef \<notin> set vs \<Longrightarrow> \<exists>r. filter_prop k vs = Inr r"
proof (induction vs)
  case (Cons e vs)
  then obtain w where "js_prop e k = Inr w" using js_prop_entry by fastforce
  with Cons show ?case by auto
qed simp

lemma filter_prop_null: "JNull \<in> set vs \<Longrightarrow> filter_prop k vs = Inl TypeError"
proof (induction vs)
  case (Cons e vs)
  show ?case
  proof (cases "e = JNull")
    case False
    with Cons have "filter_prop k vs = Inl TypeError" by simp
    then show ?thesis by (cases "js_prop e k") (auto dest: js_prop_error)
  qed simp
qed simp

lemma result_count_ok:
  "entries_ok (jget (searchResults s) ''result_counts'') \<Longrightarrow> \<exists>c. result_count s = Inr c"
  by (cases "jget (searchResults s) ''result_counts''")
     (auto simp: result_count_def js_array_def dest: count_fold_ok)

lemma renderFilters_ok:
  assumes "entries_ok (jget (searchResults s) ''result_counts'')"
  shows "\<exists>x. renderFilters E s n = Inr x"
proof (cases "jget (searchResults s) ''result_counts''")
  case (JArr vs)
  with assms obtain vals where "filter_values vs (js_str (jget (searchResults s) ''query_text'')) = Inr vals"
    using filter_values_ok by fastforce
  with JArr show ?thesis by (auto simp: renderFilters_def js_array_def Let_def)
qed (use assms in \<open>auto simp: renderFilters_def Let_def\<close>)

lemma renderPlaces_ok: "entries_ok (jget (searchResults s) ''results'') \<Longrightarrow> \<exists>x. renderPlaces s n = Inr x"
  by (cases "jget (searchResults s) ''results''")
     (auto simp: renderPlaces_def js_or_empty_def js_array_def dest: filter_prop_ok [where k = "''feature''"])

lemma renderLayers_ok: "entries_ok (jget (searchResults s) ''results'') \<Longrightarrow> \<exists>x. renderLayers s = Inr x"
  by (cases "jget (searchResults s) ''results''")
     (auto simp: renderLayers_def js_or_empty_def js_array_def dest: filter_prop_ok [where k = "''dataproduct''"])

lemma renderRecentResults_ok:
  assumes "list_all is_jstr (recentSearches s)"
  shows "\<exists>x. renderRecentResults s = Inr x"
proof -
  obtain r where r: "recent_filter (ascii_lower (searchText s)) (recentSearches s) = Inr r"
    and sub: "set r \<subseteq> set (recentSearches s)"
    using recent_filter_strings [OF assms] by blast
  show ?thesis
  proof (cases r)
    case Nil
    with r show ?thesis by (simp add: renderRecentResults_def)
  next
    case (Cons e rs)
    with sub assms have "is_jstr e" by (auto simp: list_all_iff)
    then obtain l where "js_lower e = Inr l" by (cases e) (simp_all add: js_lower_def)
    with r Cons show ?thesis by (simp add: renderRecentResults_def Let_def)
  qed
qed

lemma render_ok:
  assumes "list_all is_jstr (recentSearches s)" and "results_wf (searchResults s)"
  shows "\<exists>secs. renderSearchResults E s = Inr secs"
proof -
  from assms(2) have c: "entries_ok (jget (searchResults s) ''result_counts'')"
    and r: "entries_ok (jget (searchResults s) ''results'')" by (simp_all add: results_wf_def)
  obtain n where n: "result_count s = Inr n" using result_count_ok [OF c] by blast
  obtain x1 where 1: "renderRecentResults s = Inr x1" using renderRecentResults_ok [OF assms(1)] by blast
  obtain x2 where 2: "renderFilters E s n = Inr x2" using renderFilters_ok [OF c] by blast
  obtain x3 where 3: "renderPlaces s n = Inr x3" using renderPlaces_ok [OF r] by blast
  obtain x4 where 4: "renderLayers s = Inr x4" using renderLayers_ok [OF r] by blast
  show ?thesis by (simp add: renderSearchResults_def n 1 2 3 4)
qed

lemma single_search_timer:
  assumes "distinct (map fst xs)" and "\<forall>(i, k) \<in> set xs. k = StartSearchTimer \<longrightarrow> t = Some i"
  shows "length (filter (\<lambda>(i, k). k = StartSearchTimer) xs) \<le> 1"
proof -
  let ?ys = "filter (\<lambda>(i, k). k = StartSearchTimer) xs"
  have d: "distinct (map fst ?ys)" using assms(1) by (simp add: distinct_map_filter)
  have "set (map fst ?ys) \<subseteq> {the t}" using assms(2) by auto
  then have "card (set (map fst ?ys)) \<le> 1" using card_mono [of "{the t}"] by fastforce
  moreover have "card (set (map fst ?ys)) = length ?ys" using distinct_card [OF d] by simp
  ultimately show ?thesis by simp
qed

lemma clear_timeout_fields [simp]:
  "nextId (clear_timeout t s) = nextId s" "searchText (clear_timeout t s) = searchText s"
  "searchTimeout (clear_timeout t s) = searchTimeout s" "sb_effects (clear_timeout t s) = sb_effects s"
  by (cases t; simp add: clear_timeout_def)+

end
