(* ===== verification/SearchBoxProps.thy ===== *)
theory SearchBoxProps
  imports SearchBoxEvents
begin

text \<open>
  The properties of the search box (C16--C26), with witnesses that run it on a concrete
  configuration: a search for \<open>Basel\<close> whose answer lists one address, the
  selection of that address, and an answer whose \<open>results\<close> hold a \<open>null\<close>.
\<close>

definition sb_demo_env :: sb_env where
  "sb_demo_env = \<lparr>resultLimit = 20, searchServiceUrl = ''https://geo.so.ch/api/search/v2/'',
     editServiceUrl = ''https://geo.so.ch/api/data/v1/'',
     dataproductServiceUrl = ''https://geo.so.ch/api/dataproduct/v1/'', minResultsExanded = JNum 5,
     searchOptions = JObj [(''minScale'', JNum 1000)], mapProjection = JStr ''EPSG:2056''\<rparr>"

definition sb_demo_feature :: jval where
  "sb_demo_feature = JObj [(''display'', JStr ''Baselstrasse 1''),
     (''dataproduct_id'', JStr ''ch.so.agi.av.gebaeudeadressen.gebaeudeeingaenge''),
     (''id_field_name'', JStr ''egid''), (''feature_id'', JStr ''1234'')]"

definition sb_demo_answer :: jval where
  "sb_demo_answer = JObj [
     (''result_counts'', JArr [JObj [(''filterword'', JStr ''Adresse''), (''count'', JNum 1)],
                              JObj [(''filterword'', JStr ''Karte''), (''count'', JNull)]]),
     (''results'', JArr [JObj [(''feature'', sb_demo_feature)]])]"

definition sb_demo_geometry :: jval where
  "sb_demo_geometry = JObj [(''bbox'', JArr [JNum 2611000, JNum 1233000, JNum 2611100, JNum 1233100]),
     (''crs'', JObj [(''properties'', JObj [(''name'', JStr ''EPSG:2056'')])]), (''features'', JArr [])]"

definition sb_demo_searching :: sb_state where
  "sb_demo_searching = the (sb_run sb_demo_env [TextInput ''Basel'', TimerFires 0] sb_init)"

definition sb_demo_shown :: sb_state where
  "sb_demo_shown = the (sb_run sb_demo_env [SearchAnswer 1 sb_demo_answer, FocusIn] sb_demo_searching)"

definition sb_demo_selected :: sb_state where
  "sb_demo_selected = the (sb_run sb_demo_env [ClickPlace 0] sb_demo_shown)"

definition sb_demo_typing :: sb_state where
  "sb_demo_typing = the (sb_run sb_demo_env [TextInput ''Bas'', TextInput ''Basel''] sb_init)"

text \<open>The answer of a search whose \<open>results\<close> hold a \<open>null\<close> entry, shown.\<close>

definition sb_demo_null :: sb_state where
  "sb_demo_null = the (sb_run sb_demo_env [SearchAnswer 1 (JObj [(''results'', JArr [JNull])]), FocusIn]
     sb_demo_searching)"

lemma sb_demo_typing_reach: "sb_reach sb_demo_env sb_demo_typing"
proof -
  have "sb_run sb_demo_env [TextInput ''Bas'', TextInput ''Basel''] sb_init = Some sb_demo_typing"
    unfolding sb_demo_typing_def by code_simp
  then show ?thesis by (rule sb_run_reach) (rule sb_reach.init)
qed

lemma sb_demo_searching_reach: "sb_reach sb_demo_env sb_demo_searching"
proof -
  have "sb_run sb_demo_env [TextInput ''Basel'', TimerFires 0] sb_init = Some sb_demo_searching"
    unfolding sb_demo_searching_def by code_simp
  then show ?thesis by (rule sb_run_reach) (rule sb_reach.init)
qed

lemma sb_demo_shown_reach: "sb_reach sb_demo_env sb_demo_shown"
proof -
  have "sb_run sb_demo_env [SearchAnswer 1 sb_demo_answer, FocusIn] sb_demo_searching = Some sb_demo_shown"
    unfolding sb_demo_shown_def sb_demo_searching_def by code_simp
  then show ?thesis by (rule sb_run_reach) (rule sb_demo_searching_reach)
qed

lemma sb_demo_selected_reach: "sb_reach sb_demo_env sb_demo_selected"
proof -
  have "sb_run sb_demo_env [ClickPlace 0] sb_demo_shown = Some sb_demo_selected"
    unfolding sb_demo_selected_def sb_demo_shown_def sb_demo_searching_def by code_simp
  then show ?thesis by (rule sb_run_reach) (rule sb_demo_shown_reach)
qed

lemma sb_demo_null_reach: "sb_reach sb_demo_env sb_demo_null"
proof -
  have "sb_run sb_demo_env [SearchAnswer 1 (JObj [(''results'', JArr [JNull])]), FocusIn] sb_demo_searching =
      Some sb_demo_null"
    unfolding sb_demo_null_def sb_demo_searching_def by code_simp
  then show ?thesis by (rule sb_run_reach) (rule sb_demo_searching_reach)
qed

text \<open>C16: in every reachable state the recent searches are distinct strings, at most five.\<close>
theorem sb_recent_searches:
  assumes "sb_reach E s"
  shows "list_all is_jstr (recentSearches s) \<and> distinct (recentSearches s) \<and> length (recentSearches s) \<le> 5"
  using sb_reach_inv [OF assms] by (simp add: sb_inv_def)

text \<open>C17: in every reachable state whose stored search answer has lists the rendering
  can walk (\<open>result_counts\<close> and \<open>results\<close> absent, or arrays without \<open>null\<close>
  entries), rendering the result list does not throw: the recent searches are strings, so
  \<open>toLowerCase\<close> succeeds on them, and every entry has the properties that are read.\<close>
theorem sb_render_total:
  assumes "sb_reach E s" and "results_wf (searchResults s)"
  shows "\<exists>secs. renderSearchResults E s = Inr secs"
  using render_ok [OF _ assms(2)] sb_reach_inv [OF assms(1)] by (simp add: sb_inv_def)

text \<open>C18: the debounce: in every reachable state at most one search timer is pending.\<close>
theorem sb_single_search_timer:
  assumes "sb_reach E s"
  shows "length (filter (\<lambda>(i, k). k = StartSearchTimer) (timers s)) \<le> 1"
  using sb_reach_inv [OF assms] by (intro single_search_timer [where t = "searchTimeout s"]) (simp_all add: sb_inv_def)

text \<open>C19: the answer of a search request stores its results with the text of that request as
  \<open>query_text\<close>, whatever the text in the field is by then: an answer that arrives
  late overwrites newer results.\<close>
theorem searchAnswer_query_text:
  assumes "map_of (pending s) i = Some (SearchReq t)"
  shows "jget (searchResults (sb_handle E (SearchAnswer i d) s)) ''query_text'' = JStr t"
  using assms by simp

text \<open>C20: for a field name and a string id that need no escaping, the filter
  \<open>selectFeatureResult\<close> builds is the \<open>JSON.stringify\<close> encoding of
  \<open>[[name, "=", id]]\<close> that the data service parses.\<close>
theorem feature_filter_json:
  assumes "field r ''id_field_name'' = JStr n" and "field r ''feature_id'' = JStr i"
    and "json_plain n" and "json_plain i"
  shows "feature_filter r = json_stringify (JArr [JArr [JStr n, JStr ''='', JStr i]])"
proof -
  have "json_plain ''=''" by (simp add: json_plain_def dq_def bslash_def)
  with assms show ?thesis by (simp add: feature_filter_def json_quote_plain Let_def)
qed

text \<open>C21: \<open>showFeatureGeometry\<close> zooms to the centre of the box at level
  \<open>max(0, zfe - 1)\<close>, never below 0 and never above the level qwc2 computed, and then
  shows the features in the \<open>searchselection\<close> layer.\<close>
theorem showFeatureGeometry_zoom:
  assumes "showFeatureGeometry E item d zfe bb s = Inr t" and "0 \<le> zfe"
  shows "\<exists>z. sb_effects t = sb_effects s @
      [SbDispatch (ZoomToPoint (extent_center bb) z (mapProjection E)),
       SbDispatch (AddLayerFeatures ''searchselection'' SELECTION (field d ''features'') True)] \<and>
    0 \<le> z \<and> z \<le> zfe \<and> (0 < zfe \<longrightarrow> z = zfe - 1)"
  using assms by (auto simp: showFeatureGeometry_def sb_emit_def split: sum.splits)

text \<open>C22: selecting a result puts its query text in front of the recent searches, keeping at
  most five; a text that is already there keeps its place.\<close>
theorem updateRecentSearches_mru:
  assumes "jget (searchResults s) ''query_text'' = JStr t"
  shows "recentSearches (updateRecentSearches s) =
    (if JStr t \<in> set (recentSearches s) then recentSearches s else JStr t # take 4 (recentSearches s))"
  using assms by (simp add: updateRecentSearches_def Let_def list_ex_iff onBlur_def sb_emit_def)

text \<open>C23: clicking the title of a section inverts whether that section is collapsed and
  changes nothing else: the other sections keep their state, and so does the rest of the
  component.\<close>
theorem toggleSection_flip:
  "jget (collapsedSections (sb_handle E (ToggleSection k) s)) =
     (jget (collapsedSections s))(k := JBool (\<not> js_truthy (jget (collapsedSections s) k))) \<and>
   (sb_handle E (ToggleSection k) s)\<lparr>collapsedSections := collapsedSections s\<rparr> = s"
  by (auto simp: toggleSection_def)

text \<open>C24: typing in the field sets the text, cancels the pending search timer and starts
  exactly one new one, recorded in \<open>searchTimeout\<close>.\<close>
theorem searchTextChanged_debounce:
  assumes "sb_reach E s"
  shows "searchText (sb_handle E (TextInput t) s) = t \<and>
    filter (\<lambda>(i, k). k = StartSearchTimer) (timers (sb_handle E (TextInput t) s)) = [(nextId s, StartSearchTimer)] \<and>
    searchTimeout (sb_handle E (TextInput t) s) = Some (nextId s)"
proof -
  have inv: "sb_inv s" by (rule sb_reach_inv [OF assms])
  then have st: "\<forall>(i, k) \<in> set (timers s). k = StartSearchTimer \<longrightarrow> searchTimeout s = Some i"
    by (simp add: sb_inv_def)
  then have "filter (\<lambda>(i, k). k = StartSearchTimer) (timers (clear_timeout (searchTimeout s) s')) = []"
    if "timers s' = timers s" for s'
    using that by (cases "searchTimeout s") (auto simp: clear_timeout_def filter_empty_conv)
  then show ?thesis
    by (simp add: searchTextChanged_def sb_emit_def set_timeout_def Let_def split: prod.split)
qed

text \<open>C25: a \<open>null\<close> entry in the \<open>results\<close> of a search answer makes the rendering
  throw, since \<open>renderPlaces\<close> reads \<open>result.feature\<close> on it: whenever the list is
  shown and the counts can be walked, rendering such a reachable state is a TypeError.\<close>
theorem sb_render_null_result:
  assumes "sb_reach E s" and "resultsVisible s"
    and "entries_ok (jget (searchResults s) ''result_counts'')"
    and "jget (searchResults s) ''results'' = JArr rs" and "JNull \<in> set rs"
  shows "renderSearchResults E s = Inl TypeError"
proof -
  have "list_all is_jstr (recentSearches s)" using sb_reach_inv [OF assms(1)] by (simp add: sb_inv_def)
  then obtain x1 where 1: "renderRecentResults s = Inr x1" using renderRecentResults_ok by blast
  obtain n where n: "result_count s = Inr n" using result_count_ok [OF assms(3)] by blast
  obtain x2 where 2: "renderFilters E s n = Inr x2" using renderFilters_ok [OF assms(3)] by blast
  have 3: "renderPlaces s n = Inl TypeError"
    using assms(4,5) by (simp add: renderPlaces_def js_or_empty_def js_array_def filter_prop_null)
  show ?thesis using assms(2) by (simp add: renderSearchResults_def n 1 2 3)
qed

text \<open>C26: a string id with a double quote ends the JSON string of the filter early: for
  every result whose field name and id are strings and whose id has a double quote, the
  filter \<open>selectFeatureResult\<close> sends is not the encoding of \<open>[[name, "=", id]]\<close>
  (it is shorter than the encoding, which escapes the quote).\<close>
theorem feature_filter_quote:
  assumes "field r ''id_field_name'' = JStr n" and "field r ''feature_id'' = JStr i" and "dq \<in> set i"
  shows "feature_filter r \<noteq> json_stringify (JArr [JArr [JStr n, JStr ''='', JStr i]])"
proof -
  have "length (feature_filter r) = length n + length i + 13"
    using assms(1,2) by (simp add: feature_filter_def Let_def)
  moreover have "length n + length i + 14 \<le> length (json_stringify (JArr [JArr [JStr n, JStr ''='', JStr i]]))"
    using json_quote_length [of n] json_quote_length [of i] assms(3)
    by (simp add: json_quote_def json_esc_def dq_def bslash_def)
  ultimately have "length (feature_filter r) < length (json_stringify (JArr [JArr [JStr n, JStr ''='', JStr i]]))"
    by simp
  then show ?thesis by auto
qed

theorem sb_recent_searches_witness:
  "recentSearches sb_demo_selected = [JStr ''Basel''] \<and> list_all is_jstr (recentSearches sb_demo_selected) \<and>
   distinct (recentSearches sb_demo_selected) \<and> length (recentSearches sb_demo_selected) \<le> 5"
proof -
  have "recentSearches sb_demo_selected = [JStr ''Basel'']"
    unfolding sb_demo_selected_def sb_demo_shown_def sb_demo_searching_def by code_simp
  with sb_recent_searches [OF sb_demo_selected_reach] show ?thesis by simp
qed

theorem sb_render_total_witness:
  "\<exists>secs. renderSearchResults sb_demo_env sb_demo_shown = Inr secs \<and> secs \<noteq> []"
proof -
  have wf: "results_wf (searchResults sb_demo_shown)"
    unfolding sb_demo_shown_def sb_demo_searching_def by code_simp
  obtain secs where r: "renderSearchResults sb_demo_env sb_demo_shown = Inr secs"
    using sb_render_total [OF sb_demo_shown_reach wf] by blast
  have "sb_sections sb_demo_env sb_demo_shown \<noteq> []"
    unfolding sb_demo_shown_def sb_demo_searching_def by code_simp
  with r show ?thesis by (simp add: sb_sections_def)
qed

theorem sb_single_search_timer_witness:
  "length (filter (\<lambda>(i, k). k = StartSearchTimer) (timers sb_demo_typing)) = 1"
proof -
  have "filter (\<lambda>(i, k). k = StartSearchTimer) (timers sb_demo_typing) \<noteq> []"
    unfolding sb_demo_typing_def by code_simp
  with sb_single_search_timer [OF sb_demo_typing_reach] show ?thesis
    by (cases "filter (\<lambda>(i, k). k = StartSearchTimer) (timers sb_demo_typing)") simp_all
qed

theorem searchAnswer_query_text_witness:
  "jget (searchResults (sb_handle sb_demo_env (SearchAnswer 1 sb_demo_answer) sb_demo_searching)) ''query_text'' =
   JStr ''Basel''"
proof -
  have "map_of (pending sb_demo_searching) 1 = Some (SearchReq ''Basel'')"
    unfolding sb_demo_searching_def by code_simp
  then show ?thesis by (rule searchAnswer_query_text)
qed

theorem feature_filter_json_witness:
  "feature_filter sb_demo_feature = json_stringify (JArr [JArr [JStr ''egid'', JStr ''='', JStr ''1234'']])"
proof -
  have "json_plain ''egid''" "json_plain ''1234''" by code_simp+
  moreover have "field sb_demo_feature ''id_field_name'' = JStr ''egid''"
    "field sb_demo_feature ''feature_id'' = JStr ''1234''" by (simp_all add: sb_demo_feature_def)
  ultimately show ?thesis using feature_filter_json by blast
qed

theorem showFeatureGeometry_zoom_witness:
  "\<exists>t z. showFeatureGeometry sb_demo_env sb_demo_feature sb_demo_geometry 0
      (2611000, 1233000, 2611100, 1233100) sb_demo_shown = Inr t \<and>
    sb_effects t = sb_effects sb_demo_shown @
      [SbDispatch (ZoomToPoint (extent_center (2611000, 1233000, 2611100, 1233100)) z (JStr ''EPSG:2056'')),
       SbDispatch (AddLayerFeatures ''searchselection'' SELECTION (JArr []) True)] \<and> z = 0"
proof -
  have "\<not> isl (showFeatureGeometry sb_demo_env sb_demo_feature sb_demo_geometry 0
      (2611000, 1233000, 2611100, 1233100) sb_demo_shown)"
    by (simp add: showFeatureGeometry_def sb_demo_env_def sb_demo_geometry_def split: sum.split)
  then obtain t where t: "showFeatureGeometry sb_demo_env sb_demo_feature sb_demo_geometry 0
      (2611000, 1233000, 2611100, 1233100) sb_demo_shown = Inr t"
    by (cases "showFeatureGeometry sb_demo_env sb_demo_feature sb_demo_geometry 0
      (2611000, 1233000, 2611100, 1233100) sb_demo_shown") auto
  from showFeatureGeometry_zoom [OF t] t show ?thesis
    by (auto simp: sb_demo_env_def sb_demo_geometry_def)
qed

theorem updateRecentSearches_mru_witness:
  "recentSearches (updateRecentSearches sb_demo_shown) = [JStr ''Basel'']"
proof -
  have q: "jget (searchResults sb_demo_shown) ''query_text'' = JStr ''Basel''"
    unfolding sb_demo_shown_def sb_demo_searching_def by code_simp
  have "recentSearches sb_demo_shown = []"
    unfolding sb_demo_shown_def sb_demo_searching_def by code_simp
  with updateRecentSearches_mru [OF q] show ?thesis by simp
qed

theorem searchTextChanged_debounce_witness:
  "searchText (sb_handle sb_demo_env (TextInput ''Olten'') sb_demo_typing) = ''Olten'' \<and>
   filter (\<lambda>(i, k). k = StartSearchTimer) (timers (sb_handle sb_demo_env (TextInput ''Olten'') sb_demo_typing)) =
     [(2, StartSearchTimer)]"
proof -
  have "nextId sb_demo_typing = 2" unfolding sb_demo_typing_def by code_simp
  with searchTextChanged_debounce [OF sb_demo_typing_reach, of "''Olten''"] show ?thesis by simp
qed

theorem sb_render_null_result_witness:
  "renderSearchResults sb_demo_env sb_demo_null = Inl TypeError"
proof -
  have "resultsVisible sb_demo_null" "entries_ok (jget (searchResults sb_demo_null) ''result_counts'')"
    "jget (searchResults sb_demo_null) ''results'' = JArr [JNull]"
    unfolding sb_demo_null_def sb_demo_searching_def by code_simp+
  then show ?thesis using sb_render_null_result [OF sb_demo_null_reach] by simp
qed

theorem feature_filter_quote_witness:
  "feature_filter (JObj [(''id_field_name'', JStr ''egid''), (''feature_id'', JStr (''1'' @ [dq] @ ''x''))]) \<noteq>
   json_stringify (JArr [JArr [JStr ''egid'', JStr ''='', JStr (''1'' @ [dq] @ ''x'')]])"
  using feature_filter_quote [of "JObj [(''id_field_name'', JStr ''egid''), (''feature_id'', JStr (''1'' @ [dq] @ ''x''))]"
      "''egid''" "''1'' @ [dq] @ ''x''"]
  by simp

end
