(* ===== verification/Autologin.thy ===== *)
theory Autologin
  imports UriEncoding JsonText
begin

text \<open>
  The automatic login of \<^verbatim>\<open>src/js/Autologin.jsx\<close>. On mount the component does
  nothing but remove the \<open>config:autologin\<close> URL parameter when it is present (the
  application was reached through the login); otherwise it asks the authentication
  service who is logged in, and for an anonymous user probes the intranet URL; when the
  probe answers, it sends the browser to the login of the authentication service with the
  current page, its startup parameters and \<open>config:autologin=1\<close> as the return URL.

  The state \<open>al_state\<close> holds the query parameters of the page's URL, the
  \<open>startupParams\<close> object of the Redux store (which the code mutates), the pending
  requests, the effects and the address the browser was sent to. The page address without
  query is \<open>al_base\<close> and its fragment \<open>al_hash\<close>; Node's \<open>url.format\<close> writes a
  query object as \<open>k=v\<close> pairs joined by \<open>&\<close> with both sides encoded by
  \<open>encodeURIComponent\<close> (\<open>al_format\<close>). \<open>al_user\<close> is the value the code
  read as \<open>res.data.username\<close> from the answer of \<open>/info\<close>, \<open>None\<close> before a
  successful read.
\<close>

datatype al_request = InfoReq | ProbeReq

datatype al_effect =
    AlGet string
  | AlFetch string
  | AlRemoveParam string

record al_env =
  authServiceUrl :: string
  autologinUrl :: string
  al_base :: string
  al_hash :: string

record al_state =
  al_params :: "(string \<times> string) list"
  startupParams :: jval
  al_pending :: "al_request list"
  al_effects :: "al_effect list"
  al_location :: "string option"
  al_user :: "jval option"

definition autologin_key :: string where
  "autologin_key = ''config:autologin''"

text \<open>\<open>querystring.stringify\<close> (of the \<open>querystring\<close> package the bundled \<open>url\<close>
  uses) writes strings, booleans and finite numbers, and an empty value for anything else;
  an array value repeats its key once per element.\<close>

fun qs_value :: "jval \<Rightarrow> string" where
  "qs_value (JStr s) = s"
| "qs_value (JNum n) = int_str n"
| "qs_value (JBool b) = (if b then ''true'' else ''false'')"
| "qs_value _ = []"

definition qs_field :: "string \<Rightarrow> jval \<Rightarrow> string" where
  "qs_field k v =
     (let ks = encodeURIComponent k @ ''='' in
      case v of
        JArr vs \<Rightarrow> join_sep ''&'' (map (\<lambda>x. ks @ encodeURIComponent (qs_value x)) vs)
      | _ \<Rightarrow> ks @ encodeURIComponent (qs_value v))"

definition qs_stringify :: "jobj \<Rightarrow> string" where
  "qs_stringify q = join_sep ''&'' (map (\<lambda>(k, v). qs_field k v) q)"

definition al_format :: "al_env \<Rightarrow> jobj \<Rightarrow> string" where
  "al_format E q = al_base E @ (let qs = qs_stringify q in if qs = [] then [] else ''?'' @ qs) @ al_hash E"

definition componentDidMount :: "al_env \<Rightarrow> al_state \<Rightarrow> al_state" where
  "componentDidMount E s =
     (if map_of (al_params s) autologin_key \<noteq> None then
        s\<lparr>al_params := filter (\<lambda>(k, _). k \<noteq> autologin_key) (al_params s),
          al_effects := al_effects s @ [AlRemoveParam autologin_key]\<rparr>
      else s\<lparr>al_pending := al_pending s @ [InfoReq],
             al_effects := al_effects s @ [AlGet (authServiceUrl E @ ''/info'')]\<rparr>)"

text \<open>The \<open>then\<close> of the \<open>/info\<close> request; a TypeError (\<open>res.data\<close> is \<open>null\<close>)
  is swallowed by the \<open>catch\<close>.\<close>

definition info_answer :: "al_env \<Rightarrow> jval \<Rightarrow> al_state \<Rightarrow> al_state" where
  "info_answer E data s =
     (case js_prop data ''username'' of
        Inl e \<Rightarrow> s
      | Inr u \<Rightarrow> if js_truthy u then s\<lparr>al_user := Some u\<rparr>
                else s\<lparr>al_user := Some u, al_pending := al_pending s @ [ProbeReq],
                       al_effects := al_effects s @ [AlFetch (autologinUrl E)]\<rparr>)"

text \<open>The \<open>then\<close> of the probe: \<open>urlObj.query\<close> is the \<open>startupParams\<close> object itself,
  so setting \<open>config:autologin\<close> on it changes the store; without startup parameters the
  assignment throws and the \<open>catch\<close> swallows it.\<close>

definition probe_answer :: "al_env \<Rightarrow> al_state \<Rightarrow> al_state" where
  "probe_answer E s =
     (case startupParams s of
        JObj q \<Rightarrow>
          (let q' = obj_set q autologin_key (JNum 1) in
           s\<lparr>startupParams := JObj q',
             al_location := Some (authServiceUrl E @ ''login?url='' @ encodeURIComponent (al_format E q'))\<rparr>)
      | _ \<Rightarrow> s)"

datatype al_event = AlMount | InfoAnswer jval | InfoFailed | ProbeOk | ProbeFailed

definition al_take :: "al_request \<Rightarrow> al_state \<Rightarrow> al_state" where
  "al_take r s = s\<lparr>al_pending := remove1 r (al_pending s)\<rparr>"

fun al_handle :: "al_env \<Rightarrow> al_event \<Rightarrow> al_state \<Rightarrow> al_state" where
  "al_handle E AlMount s = componentDidMount E s"
| "al_handle E (InfoAnswer d) s = info_answer E d (al_take InfoReq s)"
| "al_handle E InfoFailed s = al_take InfoReq s"
| "al_handle E ProbeOk s = probe_answer E (al_take ProbeReq s)"
| "al_handle E ProbeFailed s = al_take ProbeReq s"

text \<open>The component mounts once; an answer needs its request; nothing runs after the
  browser has left the page.\<close>

fun al_enabled :: "al_state \<Rightarrow> al_event \<Rightarrow> bool" where
  "al_enabled s AlMount = (al_effects s = [] \<and> al_location s = None)"
| "al_enabled s (InfoAnswer d) = (InfoReq \<in> set (al_pending s) \<and> al_location s = None)"
| "al_enabled s InfoFailed = (InfoReq \<in> set (al_pending s) \<and> al_location s = None)"
| "al_enabled s ProbeOk = (ProbeReq \<in> set (al_pending s) \<and> al_location s = None)"
| "al_enabled s ProbeFailed = (ProbeReq \<in> set (al_pending s) \<and> al_location s = None)"

definition al_start :: "(string \<times> string) list \<Rightarrow> jval \<Rightarrow> al_state" where
  "al_start ps sp = \<lparr>al_params = ps, startupParams = sp, al_pending = [], al_effects = [],
     al_location = None, al_user = None\<rparr>"

inductive al_reach :: "al_env \<Rightarrow> al_state \<Rightarrow> al_state \<Rightarrow> bool" for E s0 where
  init: "al_reach E s0 s0"
| step: "al_reach E s0 s \<Longrightarrow> al_enabled s ev \<Longrightarrow> al_reach E s0 (al_handle E ev s)"

fun al_run :: "al_env \<Rightarrow> al_event list \<Rightarrow> al_state \<Rightarrow> al_state option" where
  "al_run E [] s = Some s"
| "al_run E (ev # evs) s = (if al_enabled s ev then al_run E evs (al_handle E ev s) else None)"

text \<open>The answer of \<open>/info\<close> named nobody.\<close>

fun anonymous_answer :: "jval option \<Rightarrow> bool" where
  "anonymous_answer (Some u) = (\<not> js_truthy u)"
| "anonymous_answer None = False"

text \<open>The invariant of a run from the page's start: before the component mounted nothing
  has changed; while \<open>/info\<close> is open nothing else is, and no answer was read; the probe is only requested, and the browser only sent away, after the service
  answered without a user; and nothing is requested when the page was reached with
  \<open>config:autologin\<close>.\<close>

definition al_inv :: "(string \<times> string) list \<Rightarrow> al_state \<Rightarrow> bool" where
  "al_inv ps s \<longleftrightarrow>
     (al_effects s = [] \<longrightarrow> al_params s = ps \<and> al_pending s = [] \<and> al_location s = None \<and> al_user s = None) \<and>
     (InfoReq \<in> set (al_pending s) \<longrightarrow> al_pending s = [InfoReq] \<and> al_user s = None) \<and>
     (ProbeReq \<in> set (al_pending s) \<longrightarrow> anonymous_answer (al_user s)) \<and>
     (al_location s \<noteq> None \<longrightarrow> anonymous_answer (al_user s)) \<and>
     (al_pending s \<noteq> [] \<or> al_location s \<noteq> None \<longrightarrow> map_of ps autologin_key = None)"

text \<open>The callbacks still to come, for the termination of the flow: three before the
  component mounted, two for an open \<open>/info\<close> request (its answer can start the probe),
  one for an open probe, none after the browser has left the page.\<close>

fun al_weight :: "al_request \<Rightarrow> nat" where
  "al_weight InfoReq = 2"
| "al_weight ProbeReq = 1"

definition al_budget :: "al_state \<Rightarrow> nat" where
  "al_budget s = (if al_location s \<noteq> None then 0
     else (if al_effects s = [] then 3 else 0) + sum_list (map al_weight (al_pending s)))"

lemma al_inv_start: "al_inv ps (al_start ps sp)"
  by (simp add: al_inv_def al_start_def)

lemma al_take_sub: "set (al_pending (al_take r s)) \<subseteq> set (al_pending s)"
  by (simp add: al_take_def set_remove1_subset)

lemma al_inv_take: "al_inv ps s \<Longrightarrow> al_effects s \<noteq> [] \<Longrightarrow> al_inv ps (al_take r s)"
  using al_take_sub [of r s] by (auto simp: al_inv_def al_take_def)

lemma al_step_inv:
  assumes inv: "al_inv ps s" and en: "al_enabled s ev"
  shows "al_inv ps (al_handle E ev s)"
proof (cases ev)
  case AlMount
  with en inv have "al_params s = ps" "al_pending s = []" "al_location s = None" "al_effects s = []"
    "al_user s = None"
    by (simp_all add: al_inv_def)
  with AlMount show ?thesis by (auto simp: al_inv_def componentDidMount_def)
next
  case (InfoAnswer d)
  with en inv have ne: "al_effects s \<noteq> []" "map_of ps autologin_key = None" "al_pending s = [InfoReq]"
    "al_user s = None" "al_location s = None"
    by (auto simp: al_inv_def)
  with InfoAnswer show ?thesis
    by (auto simp: info_answer_def al_inv_def al_take_def split: sum.split)
next
  case ProbeOk
  with en inv have ne: "al_effects s \<noteq> []" "anonymous_answer (al_user s)" "map_of ps autologin_key = None"
    by (auto simp: al_inv_def)
  have t: "al_inv ps (al_take ProbeReq s)" by (rule al_inv_take [OF inv ne(1)])
  with ProbeOk ne show ?thesis
    by (auto simp: probe_answer_def al_inv_def al_take_def Let_def split: jval.split)
next
  case InfoFailed
  with en inv have "al_effects s \<noteq> []" by (auto simp: al_inv_def)
  with InfoFailed show ?thesis by (simp add: al_inv_take [OF inv])
next
  case ProbeFailed
  with en inv have "al_effects s \<noteq> []" by (auto simp: al_inv_def)
  with ProbeFailed show ?thesis by (simp add: al_inv_take [OF inv])
qed

lemma al_reach_inv: "al_reach E (al_start ps sp) s \<Longrightarrow> al_inv ps s"
  by (induction rule: al_reach.induct) (simp_all add: al_inv_start al_step_inv)

lemma al_run_reach: "al_run E evs s = Some t \<Longrightarrow> al_reach E s0 s \<Longrightarrow> al_reach E s0 t"
  by (induction evs arbitrary: s) (auto split: if_splits intro: al_reach.step)

lemma al_budget_take:
  "r \<in> set (al_pending s) \<Longrightarrow> al_location s = None \<Longrightarrow> al_effects s \<noteq> [] \<Longrightarrow>
   al_budget (al_take r s) + al_weight r = al_budget s"
  by (simp add: al_budget_def al_take_def sum_list_map_remove1)

lemma al_budget_step:
  assumes inv: "al_inv ps s" and en: "al_enabled s ev"
  shows "al_budget (al_handle E ev s) < al_budget s"
proof (cases ev)
  case AlMount
  with en inv have "al_pending s = []" "al_location s = None" "al_effects s = []"
    by (simp_all add: al_inv_def)
  with AlMount show ?thesis by (simp add: al_budget_def componentDidMount_def)
next
  case (InfoAnswer d)
  with en inv have r: "InfoReq \<in> set (al_pending s)" "al_location s = None" "al_effects s \<noteq> []"
    by (auto simp: al_inv_def)
  from al_budget_take [OF r] InfoAnswer r show ?thesis
    by (auto simp: info_answer_def al_budget_def al_take_def split: sum.split)
next
  case InfoFailed
  with en inv have r: "InfoReq \<in> set (al_pending s)" "al_location s = None" "al_effects s \<noteq> []"
    by (auto simp: al_inv_def)
  from al_budget_take [OF r] InfoFailed show ?thesis by simp
next
  case ProbeOk
  with en inv have r: "ProbeReq \<in> set (al_pending s)" "al_location s = None" "al_effects s \<noteq> []"
    by (auto simp: al_inv_def)
  from al_budget_take [OF r] ProbeOk r show ?thesis
    by (auto simp: probe_answer_def al_budget_def al_take_def Let_def split: jval.split)
next
  case ProbeFailed
  with en inv have r: "ProbeReq \<in> set (al_pending s)" "al_location s = None" "al_effects s \<noteq> []"
    by (auto simp: al_inv_def)
  from al_budget_take [OF r] ProbeFailed show ?thesis by simp
qed

lemma al_run_budget:
  "al_reach E (al_start ps sp) s \<Longrightarrow> al_run E evs s = Some t \<Longrightarrow> length evs \<le> al_budget s"
proof (induction evs arbitrary: s)
  case Nil then show ?case by simp
next
  case (Cons ev evs)
  then have en: "al_enabled s ev" and run: "al_run E evs (al_handle E ev s) = Some t"
    by (simp_all split: if_splits)
  have "al_reach E (al_start ps sp) (al_handle E ev s)" by (rule al_reach.step [OF Cons.prems(1) en])
  from Cons.IH [OF this run] al_budget_step [where E = E, OF al_reach_inv [OF Cons.prems(1)] en] show ?case
    by simp
qed

end
