(* ===== verification/AutologinProps.thy ===== *)
theory AutologinProps
  imports Autologin
begin

text \<open>
  The properties of the automatic login (\<^verbatim>\<open>src/js/Autologin.jsx\<close>): the
  page reached through the login does not start the login again, the browser is only
  sent to the login for an anonymous user, the return URL decodes to the page with
  \<open>config:autologin=1\<close>, the startup parameters of the store are changed in place,
  an anonymous visit with startup parameters does reach the login, and every run of the
  flow ends after at most three callbacks. The fixtures are
  a visit to the map with startup parameters \<open>t=default\<close>, once from outside and once
  returning from the login.
\<close>

definition al_demo_env :: al_env where
  "al_demo_env = \<lparr>authServiceUrl = ''https://geo.so.ch/auth/'', autologinUrl = ''https://intranet.so.ch/'',
     al_base = ''https://geo.so.ch/map/'', al_hash = []\<rparr>"

definition al_demo_params :: jval where
  "al_demo_params = JObj [(''t'', JStr ''default'')]"

definition al_demo_returned :: al_state where
  "al_demo_returned = the (al_run al_demo_env [AlMount] (al_start [(''config:autologin'', ''1'')] al_demo_params))"

definition al_demo_redirected :: al_state where
  "al_demo_redirected = the (al_run al_demo_env [AlMount, InfoAnswer (JObj [(''username'', JNull)]), ProbeOk]
     (al_start [] al_demo_params))"

lemma al_demo_returned_reach:
  "al_reach al_demo_env (al_start [(''config:autologin'', ''1'')] al_demo_params) al_demo_returned"
proof -
  have "al_run al_demo_env [AlMount] (al_start [(''config:autologin'', ''1'')] al_demo_params) = Some al_demo_returned"
    unfolding al_demo_returned_def by code_simp
  then show ?thesis by (rule al_run_reach) (rule al_reach.init)
qed

lemma al_demo_redirected_run:
  "al_run al_demo_env [AlMount, InfoAnswer (JObj [(''username'', JNull)]), ProbeOk]
     (al_start [] al_demo_params) = Some al_demo_redirected"
  unfolding al_demo_redirected_def by code_simp

lemma al_demo_redirected_reach:
  "al_reach al_demo_env (al_start [] al_demo_params) al_demo_redirected"
  by (rule al_run_reach [OF al_demo_redirected_run al_reach.init])

text \<open>C31: when the page is reached with \<open>config:autologin\<close> in its URL (the return from
  the login), no request is ever sent and the browser is never redirected: the automatic
  login cannot loop.\<close>

theorem autologin_no_loop:
  assumes "map_of ps autologin_key \<noteq> None" and "al_reach E (al_start ps sp) s"
  shows "al_location s = None \<and> al_pending s = []"
  using al_reach_inv [OF assms(2)] assms(1) unfolding al_inv_def by blast

lemma autologin_no_loop_witness:
  "map_of [(''config:autologin'', ''1'')] autologin_key \<noteq> None \<and>
   al_location al_demo_returned = None \<and> al_pending al_demo_returned = []"
  using autologin_no_loop [OF _ al_demo_returned_reach] by (simp add: autologin_key_def)

text \<open>C32: the browser is only sent to the login after the authentication service answered:
  the \<open>username\<close> the code read from the answer of \<open>/info\<close> is falsy.\<close>

theorem autologin_redirect_anonymous:
  assumes "al_reach E (al_start ps sp) s" and "al_location s \<noteq> None"
  shows "\<exists>u. al_user s = Some u \<and> \<not> js_truthy u"
proof -
  have "anonymous_answer (al_user s)" using al_reach_inv [OF assms(1)] assms(2) unfolding al_inv_def by blast
  then show ?thesis by (cases "al_user s") simp_all
qed

lemma autologin_redirect_anonymous_witness:
  "al_location al_demo_redirected \<noteq> None \<and> (\<exists>u. al_user al_demo_redirected = Some u \<and> \<not> js_truthy u)"
proof -
  have "al_location al_demo_redirected \<noteq> None"
    unfolding al_demo_redirected_def by code_simp
  with autologin_redirect_anonymous [OF al_demo_redirected_reach] show ?thesis by simp
qed

text \<open>C33: the \<open>url\<close> parameter of the login address decodes to the page address with the
  startup parameters and \<open>config:autologin=1\<close>, so the login returns to a page on which
  the component does nothing (C31). The parameter is written into the \<open>startupParams\<close>
  object of the store itself: \<open>url.parse\<close> is given that object as the query, so the
  store is changed in place and every reader of it sees \<open>config:autologin\<close>.\<close>

theorem autologin_return_url:
  assumes "startupParams s = JObj q"
  shows "\<exists>u. al_location (probe_answer E s) = Some (authServiceUrl E @ ''login?url='' @ u) \<and>
    decodeURIComponent u = Some (al_format E (obj_set q autologin_key (JNum 1))) \<and>
    map_of (obj_set q autologin_key (JNum 1)) autologin_key = Some (JNum 1) \<and>
    startupParams (probe_answer E s) = JObj (obj_set q autologin_key (JNum 1))"
  using assms decode_encode_append [of "al_format E (obj_set q autologin_key (JNum 1))" "[]"]
  by (simp add: probe_answer_def Let_def)

lemma autologin_return_url_witness:
  "\<exists>u. al_location (probe_answer al_demo_env (al_start [] al_demo_params)) =
      Some (''https://geo.so.ch/auth/login?url='' @ u) \<and>
    decodeURIComponent u = Some ''https://geo.so.ch/map/?t=default&config%3Aautologin=1''"
proof -
  have sp: "startupParams (al_start [] al_demo_params) = JObj [(''t'', JStr ''default'')]"
    by (simp add: al_start_def al_demo_params_def)
  have fmt: "al_format al_demo_env (obj_set [(''t'', JStr ''default'')] autologin_key (JNum 1)) =
      ''https://geo.so.ch/map/?t=default&config%3Aautologin=1''"
    unfolding al_demo_env_def autologin_key_def by code_simp
  have auth: "authServiceUrl al_demo_env = ''https://geo.so.ch/auth/''" by (simp add: al_demo_env_def)
  from autologin_return_url [OF sp, of al_demo_env] obtain u where
    "al_location (probe_answer al_demo_env (al_start [] al_demo_params)) =
       Some (authServiceUrl al_demo_env @ ''login?url='' @ u)"
    and "decodeURIComponent u = Some (al_format al_demo_env (obj_set [(''t'', JStr ''default'')] autologin_key (JNum 1)))"
    by blast
  with fmt auth show ?thesis by auto
qed

text \<open>C35: an anonymous visit with startup parameters, from outside the login, reaches the
  login: mounting, the \<open>/info\<close> answer without a user and the probe's answer are each
  enabled in turn, and the last one sends the browser to the login with the encoded
  return URL.\<close>

theorem autologin_anonymous_redirects:
  assumes "map_of ps autologin_key = None" and "js_prop d ''username'' = Inr u" and "\<not> js_truthy u"
  shows "\<exists>t. al_run E [AlMount, InfoAnswer d, ProbeOk] (al_start ps (JObj q)) = Some t \<and>
    al_location t = Some (authServiceUrl E @ ''login?url='' @
      encodeURIComponent (al_format E (obj_set q autologin_key (JNum 1))))"
  using assms
  by (simp add: al_start_def componentDidMount_def info_answer_def probe_answer_def al_take_def Let_def)

lemma autologin_anonymous_redirects_witness:
  "\<exists>t. al_run al_demo_env [AlMount, InfoAnswer (JObj [(''username'', JNull)]), ProbeOk]
      (al_start [] (JObj [(''t'', JStr ''default'')])) = Some t \<and>
    al_location t = Some (''https://geo.so.ch/auth/login?url='' @
      encodeURIComponent (al_format al_demo_env [(''t'', JStr ''default''), (''config:autologin'', JNum 1)]))"
  using autologin_anonymous_redirects [of "[]" "JObj [(''username'', JNull)]" JNull al_demo_env
      "[(''t'', JStr ''default'')]"]
  by (simp add: autologin_key_def al_demo_env_def)

text \<open>C37: the automatic login terminates: from the page's start, any sequence of
  callbacks the browser can deliver has at most three elements (mount, the \<open>/info\<close>
  answer, the probe's answer), whatever the answers are. The proof is a budget of the
  callbacks still to come that every enabled callback decreases (\<open>al_budget_step\<close>).\<close>

theorem autologin_terminates:
  assumes "al_run E evs (al_start ps sp) = Some t"
  shows "length evs \<le> 3"
  using al_run_budget [OF al_reach.init assms] by (simp add: al_budget_def al_start_def)

lemma autologin_terminates_witness:
  "length [AlMount, InfoAnswer (JObj [(''username'', JNull)]), ProbeOk] \<le> 3"
  by (rule autologin_terminates [OF al_demo_redirected_run])

end
