(* ===== verification/Webpack.thy ===== *)
theory Webpack
  imports JsonText
begin

text \<open>
  The bundler configuration \<^verbatim>\<open>src/webpack.config.js\<close>. The module computes one object
  from the environment variable \<open>NODE_ENV\<close> (\<open>None\<close> when it is not set) and the
  directory of the file (\<open>__dirname\<close>, an absolute path without a trailing slash):
  \<open>webpack_config\<close> is that object, with the plugin list as a datatype of the plugins
  the file instantiates and the module rules as records whose \<open>test\<close> and \<open>exclude\<close>
  regular expressions are the predicates on the resource path they match. The way webpack
  uses the rules (a rule applies when its test matches, an \<open>include\<close> path is a prefix and
  no \<open>exclude\<close> matches; the loaders of all applying rules are concatenated in rule order
  and run from the last to the first) is \<open>rule_matches\<close> and \<open>loaders_for\<close>;
  \<open>path.join\<close> is \<open>path_join\<close>.
\<close>

datatype wp_plugin =
    DefinePlugin jobj
  | NamedModulesPlugin
  | NormalModuleReplacementPlugin string string
  | NoErrorsPlugin
  | LoaderOptionsPlugin bool bool
  | UglifyJsPlugin jobj
  | HotModuleReplacementPlugin

record wp_rule =
  rule_test :: "string \<Rightarrow> bool"
  rule_exclude :: "(string \<Rightarrow> bool) option"
  rule_include :: "string list option"
  rule_use :: "string list"
  rule_query :: jobj

record wp_config =
  devtool :: string
  wp_entry :: "(string \<times> string) list"
  out_path :: string
  publicPath :: string
  out_filename :: string
  wp_plugins :: "wp_plugin list"
  wp_extensions :: "string list"
  wp_rules :: "wp_rule list"

text \<open>Line 4: \<open>process.env.NODE_ENV || 'development'\<close>; the empty string is falsy.\<close>

definition node_env :: "string option \<Rightarrow> string" where
  "node_env e = (case e of None \<Rightarrow> ''development'' | Some v \<Rightarrow> if v = [] then ''development'' else v)"

definition is_prod :: "string option \<Rightarrow> bool" where
  "is_prod e = (node_env e = ''production'')"

text \<open>\<open>path.join(dir, ...)\<close> for an absolute \<open>dir\<close> and relative segments; a leading
  \<open>./\<close> of a segment is dropped.\<close>

definition path_join :: "string \<Rightarrow> string list \<Rightarrow> string" where
  "path_join d segs = d @ concat (map (\<lambda>p. CHR ''/'' # (if take 2 p = ''./'' then drop 2 p else p)) segs)"

definition mapstore_libs :: "string \<Rightarrow> string \<Rightarrow> string" where
  "mapstore_libs d lib = path_join d [''qwc2'', ''MapStore2'', ''web'', ''client'', ''libs'', lib]"

definition uglify_options :: jobj where
  "uglify_options =
     [(''compress'', JObj [(''warnings'', JBool False), (''screw_ie8'', JBool True),
        (''conditionals'', JBool True), (''unused'', JBool True), (''comparisons'', JBool True),
        (''sequences'', JBool True), (''dead_code'', JBool True), (''evaluate'', JBool True),
        (''if_return'', JBool True), (''join_vars'', JBool True)]),
      (''output'', JObj [(''comments'', JBool False)])]"

text \<open>Lines 7--47: the plugin list, with the optimiser of the mode pushed last.\<close>

definition plugins_of :: "string option \<Rightarrow> string \<Rightarrow> wp_plugin list" where
  "plugins_of e d =
     [DefinePlugin [(''process.env'', JObj [(''NODE_ENV'', JStr (json_quote (node_env e)))])],
      NamedModulesPlugin,
      DefinePlugin [(''__DEVTOOLS__'', JBool (\<not> is_prod e))],
      NormalModuleReplacementPlugin ''leaflet$'' (mapstore_libs d ''leaflet''),
      NormalModuleReplacementPlugin ''openlayers$'' (mapstore_libs d ''openlayers''),
      NormalModuleReplacementPlugin ''proj4$'' (mapstore_libs d ''proj4''),
      NoErrorsPlugin,
      LoaderOptionsPlugin (\<not> is_prod e) (is_prod e)] @
     (if is_prod e then [UglifyJsPlugin uglify_options] else [HotModuleReplacementPlugin])"

text \<open>The regular expressions of the rules. A pattern ending in \<open>$\<close> without \<open>^\<close>
  matches when the path ends with one of its alternatives.\<close>

definition ends_with :: "string \<Rightarrow> string \<Rightarrow> bool" where
  "ends_with x f = (drop (length f - length x) f = x)"

definition starts_with :: "string \<Rightarrow> string \<Rightarrow> bool" where
  "starts_with p f = (take (length p) f = p)"

definition has_substr :: "string \<Rightarrow> string \<Rightarrow> bool" where
  "has_substr x f = list_ex (\<lambda>i. take (length x) (drop i f) = x) [0..<Suc (length f)]"

definition is_digit :: "char \<Rightarrow> bool" where
  "is_digit c = ((48::nat) \<le> of_char c \<and> of_char c \<le> (57::nat))"

text \<open>\<open>.\<close> of a regular expression: any character but a line terminator.\<close>

definition re_dot :: "char \<Rightarrow> bool" where
  "re_dot c = (c \<noteq> CHR 0x0A \<and> c \<noteq> CHR 0x0D)"

fun version_suffix :: "string \<Rightarrow> bool" where
  "version_suffix [q, v, eq, d1, c1, d2, c2, d3] =
     (q = CHR ''?'' \<and> v = CHR ''v'' \<and> eq = CHR ''='' \<and> is_digit d1 \<and> re_dot c1 \<and>
      is_digit d2 \<and> re_dot c2 \<and> is_digit d3)"
| "version_suffix _ = False"

definition css_test :: "string \<Rightarrow> bool" where
  "css_test f = ends_with ''.css'' f"

definition font_exts :: "string list" where
  "font_exts = [''.ttf'', ''.eot'', ''.svg'']"

text \<open>\<open>/\.(ttf|eot|svg)(\?v=[0-9].[0-9].[0-9])?$/\<close>.\<close>

definition font_test :: "string \<Rightarrow> bool" where
  "font_test f = (list_ex (\<lambda>x. ends_with x f) font_exts \<or>
     (8 \<le> length f \<and> version_suffix (drop (length f - 8) f) \<and>
      list_ex (\<lambda>x. ends_with x (take (length f - 8) f)) font_exts))"

definition img_test :: "string \<Rightarrow> bool" where
  "img_test f = list_ex (\<lambda>x. ends_with x f) [''.png'', ''.jpg'', ''.gif'']"

text \<open>\<open>/\.jsx?$/\<close> and \<open>/node_modules/\<close>.\<close>

definition js_test :: "string \<Rightarrow> bool" where
  "js_test f = (ends_with ''.js'' f \<or> ends_with ''.jsx'' f)"

definition node_modules :: "string \<Rightarrow> bool" where
  "node_modules f = has_substr ''node_modules'' f"

definition hot_dirs :: "string \<Rightarrow> string list" where
  "hot_dirs d = [path_join d [''js''], path_join d [''qwc2'', ''QWC2Components''],
     path_join d [''qwc2'', ''MapStore2'', ''web'', ''client'']]"

definition mk_rule :: "(string \<Rightarrow> bool) \<Rightarrow> string list \<Rightarrow> jobj \<Rightarrow> wp_rule" where
  "mk_rule t u q = \<lparr>rule_test = t, rule_exclude = None, rule_include = None, rule_use = u, rule_query = q\<rparr>"

text \<open>Lines 66--81: the module rules.\<close>

definition rules_of :: "string \<Rightarrow> wp_rule list" where
  "rules_of d =
     [mk_rule css_test [''style-loader'', ''css-loader''] [],
      mk_rule font_test [''file-loader''] [(''name'', JStr ''[name].[ext]'')],
      mk_rule img_test [''url-loader''] [(''name'', JStr ''[path][name].[ext]''), (''limit'', JNum 8192)],
      \<lparr>rule_test = js_test, rule_exclude = Some node_modules, rule_include = Some (hot_dirs d),
       rule_use = [''react-hot-loader''], rule_query = []\<rparr>,
      \<lparr>rule_test = js_test, rule_exclude = Some node_modules, rule_include = None,
       rule_use = [''babel-loader''], rule_query = []\<rparr>]"

text \<open>Lines 49--83: the exported configuration.\<close>

definition webpack_config :: "string option \<Rightarrow> string \<Rightarrow> wp_config" where
  "webpack_config e d = \<lparr>
     devtool = (if is_prod e then ''source-map'' else ''eval''),
     wp_entry = [(''webpack-dev-server'', ''webpack-dev-server/client?http://0.0.0.0:8081''),
              (''webpack'', ''webpack/hot/only-dev-server''),
              (''QWC2App'', path_join d [''js'', ''app''])],
     out_path = path_join d [''./dist''],
     publicPath = ''/dist/'',
     out_filename = ''[name].js'',
     wp_plugins = plugins_of e d,
     wp_extensions = [''.js'', ''.jsx''],
     wp_rules = rules_of d\<rparr>"

text \<open>How webpack applies a rule to a resource path, and the loaders a module gets.\<close>

definition rule_matches :: "wp_rule \<Rightarrow> string \<Rightarrow> bool" where
  "rule_matches r f = (rule_test r f \<and>
     (case rule_include r of None \<Rightarrow> True | Some ps \<Rightarrow> list_ex (\<lambda>p. starts_with p f) ps) \<and>
     (case rule_exclude r of None \<Rightarrow> True | Some x \<Rightarrow> \<not> x f))"

definition loaders_for :: "wp_config \<Rightarrow> string \<Rightarrow> string list" where
  "loaders_for c f = concat (map rule_use (filter (\<lambda>r. rule_matches r f) (wp_rules c)))"

text \<open>The plugins that depend on the mode: the optimiser of a production build and the
  hot replacement of a development build.\<close>

fun mode_plugin :: "wp_plugin \<Rightarrow> bool" where
  "mode_plugin (UglifyJsPlugin _) = True"
| "mode_plugin HotModuleReplacementPlugin = True"
| "mode_plugin _ = False"

lemma ends_with_iff: "ends_with x f \<longleftrightarrow> (\<exists>zs. f = zs @ x)"
proof
  assume "ends_with x f"
  then have "f = take (length f - length x) f @ x"
    unfolding ends_with_def by (metis append_take_drop_id)
  then show "\<exists>zs. f = zs @ x" ..
next
  assume "\<exists>zs. f = zs @ x"
  then show "ends_with x f" by (auto simp: ends_with_def)
qed

lemma ends_with_last: "ends_with x f \<Longrightarrow> x \<noteq> [] \<Longrightarrow> last f = last x"
  by (auto simp: ends_with_iff)

lemma ends_with_both: "ends_with x f \<Longrightarrow> ends_with y f \<Longrightarrow> ends_with x y \<or> ends_with y x"
  by (auto simp: ends_with_iff append_eq_append_conv2)

lemma version_suffix_last: "version_suffix v \<Longrightarrow> is_digit (last v)"
  by (induction v rule: version_suffix.induct) simp_all

lemma last_drop_length: "n < length f \<Longrightarrow> last (drop n f) = last f"
  by (simp add: last_drop)

lemma js_not_suffixes:
  assumes "js_test f"
    and "list_all (\<lambda>y. \<not> ends_with ''.js'' y \<and> \<not> ends_with y ''.js'' \<and>
      \<not> ends_with ''.jsx'' y \<and> \<not> ends_with y ''.jsx'') ys"
  shows "\<not> list_ex (\<lambda>y. ends_with y f) ys"
proof -
  have "\<not> ends_with y f"
    if "\<not> ends_with ''.js'' y" "\<not> ends_with y ''.js''" "\<not> ends_with ''.jsx'' y" "\<not> ends_with y ''.jsx''" for y
  proof
    assume "ends_with y f"
    from assms(1) consider "ends_with ''.js'' f" | "ends_with ''.jsx'' f" unfolding js_test_def by blast
    then show False
      by cases (use that ends_with_both [OF \<open>ends_with y f\<close>] in blast)+
  qed
  with assms(2) show ?thesis by (induction ys) auto
qed

lemma js_not_css: assumes "js_test f" shows "\<not> css_test f"
proof -
  have "\<not> list_ex (\<lambda>y. ends_with y f) [''.css'']"
    by (rule js_not_suffixes [OF assms]) (simp add: ends_with_def)
  then show ?thesis by (simp add: css_test_def)
qed

lemma js_not_img: assumes "js_test f" shows "\<not> img_test f"
  unfolding img_test_def by (rule js_not_suffixes [OF assms]) (simp add: ends_with_def)

lemma js_last: "js_test f \<Longrightarrow> last f = CHR ''s'' \<or> last f = CHR ''x''"
  unfolding js_test_def by (auto dest!: ends_with_last)

lemma js_not_font: "js_test f \<Longrightarrow> \<not> font_test f"
proof
  assume js: "js_test f" and "font_test f"
  then consider "list_ex (\<lambda>x. ends_with x f) font_exts"
    | "8 \<le> length f" "version_suffix (drop (length f - 8) f)"
    unfolding font_test_def by blast
  then show False
  proof cases
    case 1
    moreover have "\<not> list_ex (\<lambda>x. ends_with x f) font_exts"
      by (rule js_not_suffixes [OF js]) (simp add: ends_with_def font_exts_def)
    ultimately show False by blast
  next
    case 2
    then have "is_digit (last f)"
      using version_suffix_last [OF 2(2)] last_drop_length [of "length f - 8" f] by simp
    with js_last [OF js] show False by (auto simp: is_digit_def)
  qed
qed

lemma mk_rule_matches [simp]: "rule_matches (mk_rule t u q) f = t f"
  by (simp add: rule_matches_def mk_rule_def)

lemma mk_rule_use [simp]: "rule_use (mk_rule t u q) = u"
  by (simp add: mk_rule_def)

text \<open>C38: the mode: the build is a production build exactly when \<open>NODE_ENV\<close> is
  \<open>production\<close>; then the source maps are separate files, \<open>__DEVTOOLS__\<close> is false and
  the loaders minimise, and in every mode \<open>process.env.NODE_ENV\<close> is defined as the JSON
  string of the mode. The entries of the development server and of hot reloading are
  bundled in both modes. Of the plugins that depend on the mode, a production build has
  exactly the optimiser \<open>UglifyJsPlugin\<close> and a development build exactly the hot
  module replacement.\<close>

theorem webpack_mode:
  "is_prod e = (e = Some ''production'') \<and>
   devtool (webpack_config e d) = (if e = Some ''production'' then ''source-map'' else ''eval'') \<and>
   DefinePlugin [(''__DEVTOOLS__'', JBool (e \<noteq> Some ''production''))] \<in> set (wp_plugins (webpack_config e d)) \<and>
   LoaderOptionsPlugin (e \<noteq> Some ''production'') (e = Some ''production'') \<in> set (wp_plugins (webpack_config e d)) \<and>
   DefinePlugin [(''process.env'', JObj [(''NODE_ENV'', JStr (json_quote (node_env e)))])]
     \<in> set (wp_plugins (webpack_config e d)) \<and>
   map fst (wp_entry (webpack_config e d)) = [''webpack-dev-server'', ''webpack'', ''QWC2App''] \<and>
   filter mode_plugin (wp_plugins (webpack_config e d)) =
     (if e = Some ''production'' then [UglifyJsPlugin uglify_options] else [HotModuleReplacementPlugin])"
proof -
  have p: "is_prod e = (e = Some ''production'')"
    by (auto simp: is_prod_def node_env_def split: option.splits)
  then show ?thesis by (simp add: webpack_config_def plugins_of_def)
qed

text \<open>C40: a JavaScript module (\<open>.js\<close> or \<open>.jsx\<close>) gets no loader when it lies in
  \<open>node_modules\<close>; otherwise it gets \<open>babel-loader\<close>, preceded by
  \<open>react-hot-loader\<close> when it lies in one of the application's directories. Webpack runs
  the list from the right, so Babel compiles the JSX before the hot loader wraps it; no
  style, font or image loader applies to it.\<close>

theorem webpack_js_loaders:
  assumes "js_test f"
  shows "loaders_for (webpack_config e d) f =
    (if node_modules f then []
     else if list_ex (\<lambda>p. starts_with p f) (hot_dirs d) then [''react-hot-loader'', ''babel-loader'']
     else [''babel-loader''])"
  using assms js_not_css [OF assms] js_not_font [OF assms] js_not_img [OF assms]
  by (simp add: loaders_for_def webpack_config_def rules_of_def rule_matches_def mk_rule_def)

theorem webpack_js_loaders_witness:
  "js_test ''/srv/qwc2-app/js/plugins/SearchBox.jsx'' \<and>
   loaders_for (webpack_config (Some ''production'') ''/srv/qwc2-app'') ''/srv/qwc2-app/js/plugins/SearchBox.jsx'' =
     [''react-hot-loader'', ''babel-loader'']"
proof -
  have js: "js_test ''/srv/qwc2-app/js/plugins/SearchBox.jsx''"
    by (simp add: js_test_def ends_with_def)
  have "\<not> node_modules ''/srv/qwc2-app/js/plugins/SearchBox.jsx''"
    unfolding node_modules_def has_substr_def by code_simp
  moreover have "list_ex (\<lambda>p. starts_with p ''/srv/qwc2-app/js/plugins/SearchBox.jsx'') (hot_dirs ''/srv/qwc2-app'')"
    unfolding hot_dirs_def path_join_def starts_with_def by code_simp
  ultimately show ?thesis
    using js webpack_js_loaders [OF js, of "Some ''production''" "''/srv/qwc2-app''"] by simp
qed

end
