(* ===== verification/AppCompose.thy ===== *)
theory AppCompose
  imports CccProtocol SearchBoxProps
begin

text \<open>
  The application runs the bridge (\<^verbatim>\<open>CCCInterface.jsx\<close>) and the search box
  (\<^verbatim>\<open>SearchBox.jsx\<close>) side by side; they share the Redux store and nothing else.
  The search box never reads the store (its props are the map's projection and its
  configuration), and the actions it dispatches (\<open>sb_store_action\<close>: the
  \<open>searchselection\<close> layer, \<open>zoomToPoint\<close>, \<open>addThemeSublayer\<close> and
  \<open>setCurrentTask('LayerTree')\<close>, bound in the \<open>connect\<close> call of the file) reach the
  store in the order it dispatches them. \<open>app_sys\<close> is the pair of the two components'
  states, the store being the one of the bridge's state; \<open>app_handle\<close> runs one event of
  either component, and a search box event also runs its new dispatches on the store.
  React mounts every plugin of the application before it delivers the first user event,
  so the search box's events are enabled once the bridge is mounted.
\<close>

fun sb_store_action :: "app_action \<Rightarrow> bool" where
  "sb_store_action (RemoveLayer l) = (l = ''searchselection'')"
| "sb_store_action (AddLayerFeatures l r fs c) = (l = ''searchselection'')"
| "sb_store_action (ZoomToPoint c z p) = True"
| "sb_store_action (AddThemeSublayer v) = True"
| "sb_store_action (SetCurrentTask t m c) = (t = Some ''LayerTree'' \<and> m = None \<and> c = None)"
| "sb_store_action _ = False"

fun sb_effect_ok :: "sb_effect \<Rightarrow> bool" where
  "sb_effect_ok (SbDispatch a) = sb_store_action a"
| "sb_effect_ok _ = True"

fun sb_dispatches :: "sb_effect list \<Rightarrow> app_action list" where
  "sb_dispatches [] = []"
| "sb_dispatches (SbDispatch a # es) = a # sb_dispatches es"
| "sb_dispatches (e # es) = sb_dispatches es"

text \<open>A search box step keeps the effects it had and appends well-formed ones.\<close>

definition sb_grows :: "sb_state \<Rightarrow> sb_state \<Rightarrow> bool" where
  "sb_grows s t = (take (length (sb_effects s)) (sb_effects t) = sb_effects s \<and>
     list_all sb_effect_ok (drop (length (sb_effects s)) (sb_effects t)))"

definition store_run :: "app_action list \<Rightarrow> ccc_sys \<Rightarrow> ccc_sys" where
  "store_run as s = s\<lparr>store := fold (\<lambda>a st. store_dispatch st a) as (store s)\<rparr>"

record app_sys =
  app_ccc :: ccc_sys
  app_sb :: sb_state

datatype app_event = CccEv ccc_event | SbEv sb_event

fun app_handle :: "ccc_env \<Rightarrow> sb_env \<Rightarrow> app_event \<Rightarrow> app_sys \<Rightarrow> app_sys" where
  "app_handle E F (CccEv ev) st = st\<lparr>app_ccc := ccc_handle E ev (app_ccc st)\<rparr>"
| "app_handle E F (SbEv ev) st =
     (let sb = sb_handle F ev (app_sb st)
      in \<lparr>app_ccc = store_run (sb_dispatches (drop (length (sb_effects (app_sb st))) (sb_effects sb)))
             (app_ccc st),
          app_sb = sb\<rparr>)"

fun app_enabled :: "ccc_env \<Rightarrow> sb_env \<Rightarrow> app_sys \<Rightarrow> app_event \<Rightarrow> bool" where
  "app_enabled E F st (CccEv ev) = ccc_enabled E (app_ccc st) ev"
| "app_enabled E F st (SbEv ev) = (mounted (app_ccc st) \<and> sb_enabled F (app_sb st) ev)"

definition app_init :: app_sys where
  "app_init = \<lparr>app_ccc = ccc_sys_init, app_sb = sb_init\<rparr>"

inductive app_reach :: "ccc_env \<Rightarrow> sb_env \<Rightarrow> app_sys \<Rightarrow> bool" for E F where
  init: "app_reach E F app_init"
| step: "app_reach E F st \<Longrightarrow> app_enabled E F st ev \<Longrightarrow> app_reach E F (app_handle E F ev st)"

fun app_run :: "ccc_env \<Rightarrow> sb_env \<Rightarrow> app_event list \<Rightarrow> app_sys \<Rightarrow> app_sys option" where
  "app_run E F [] st = Some st"
| "app_run E F (ev # evs) st =
     (if app_enabled E F st ev then app_run E F evs (app_handle E F ev st) else None)"

text \<open>The fixtures: the bridge's configuration of the examples, and a state of the
  application in which the bridge edits (its task is blocked) while the search box waits
  for the answer of a layer request, and the same with the bridge showing an object
  (action \<open>Show\<close>, the task \<open>CccEdit\<close> not blocked).\<close>

definition demo_env :: ccc_env where
  "demo_env = \<lparr>env_cccConfigService = ''https://geo.so.ch/api/ccc/'',
     env_sessionParam = Some ''abc'', env_appintegrationParam = Some ''baugk'',
     env_themes = JObj [(''items'', JArr [JObj [(''name'', JStr ''plan'')]])], env_scales = [1000, 500, 250]\<rparr>"

definition app_demo_layer :: jval where
  "app_demo_layer = JObj [(''dataproduct_id'', JStr ''ch.so.afu.gewaesserschutz'')]"

definition app_demo_editing :: app_sys where
  "app_demo_editing = \<lparr>app_ccc = ccc_sys_init\<lparr>mounted := True,
       store := store_init\<lparr>st_task := Some ''CccEdit'', st_blocked := True\<rparr>\<rparr>,
     app_sb = sb_init\<lparr>pending := [(0, LayerReq app_demo_layer)], nextId := 1\<rparr>\<rparr>"

definition app_demo_showing :: app_sys where
  "app_demo_showing = \<lparr>app_ccc = ccc_sys_init\<lparr>mounted := True,
       store := store_init\<lparr>st_ccc := [(''action'', JStr ''Show''), (''geomType'', JNull), (''feature'', JNull)],
         st_task := Some ''CccEdit''\<rparr>\<rparr>,
     app_sb = sb_init\<lparr>pending := [(0, LayerReq app_demo_layer)], nextId := 1\<rparr>\<rparr>"

lemma sb_step_grows: "sb_grows s (sb_handle F ev s)"
proof (cases ev)
  case (TimerFires i)
  then show ?thesis
    by (auto simp: sb_grows_def startSearch_def send_request_def sb_emit_def drop_timer_def Let_def
        split: option.split sb_timer.split)
next
  case (ClickPlace i)
  then show ?thesis
    by (simp add: sb_grows_def selectFeatureResult_def updateRecentSearches_def send_request_def
        sb_emit_def onBlur_def Let_def)
next
  case (ClickLayer i)
  then show ?thesis
    by (simp add: sb_grows_def selectLayerResult_def updateRecentSearches_def send_request_def
        sb_emit_def onBlur_def Let_def)
next
  case (SearchAnswer i d)
  then show ?thesis
    by (auto simp: sb_grows_def searchDone_def drop_pending_def split: option.split sb_request.split)
next
  case (FeatureAnswer i d z bb)
  then show ?thesis
    by (auto simp: sb_grows_def sb_finish_def showFeatureGeometry_def sb_emit_def drop_pending_def
        split: option.split sb_request.split sum.split)
next
  case (LayerAnswer i d)
  then show ?thesis
    by (auto simp: sb_grows_def sb_finish_def addLayer_def sb_emit_def drop_pending_def
        split: option.split sb_request.split sum.split)
next
  case (RequestFailed i)
  then show ?thesis
    by (auto simp: sb_grows_def sb_emit_def drop_pending_def split: option.split sb_request.split)
qed (simp_all add: sb_grows_def searchTextChanged_def onFocus_def onBlur_def onKeyDown_def
      setPreventBlur_def toggleSection_def sb_emit_def clear_timeout_def set_timeout_def Let_def
      split: option.split)

lemma sb_dispatches_ok: "list_all sb_effect_ok es \<Longrightarrow> list_all sb_store_action (sb_dispatches es)"
  by (induction es rule: sb_dispatches.induct) simp_all

lemma sb_step_dispatches:
  "list_all sb_store_action
     (sb_dispatches (drop (length (sb_effects s)) (sb_effects (sb_handle F ev s))))"
  using sb_step_grows [of s F ev] by (simp add: sb_grows_def sb_dispatches_ok)

lemma keys_mem_obj_set:
  "(k' \<in> set (map fst (obj_set ob k v))) = (k' = k \<or> k' \<in> set (map fst ob))"
  by (auto simp: keys_obj_set)

lemma cccselection_keys: "cccselection st = (''cccselection'' \<in> set (map fst (st_layers st)))"
  by (force simp: cccselection_def list_ex_iff)

text \<open>What a search box action does to the store: nothing to the \<open>ccc\<close> slice, the
  \<open>cccselection\<close> layer and the blocked flag, and nothing to a blocked task.\<close>

lemma sb_action_store:
  assumes "sb_store_action a"
  shows "st_ccc (store_dispatch st a) = st_ccc st"
    and "cccselection (store_dispatch st a) = cccselection st"
    and "st_blocked (store_dispatch st a) = st_blocked st"
    and "st_blocked st \<Longrightarrow> st_task (store_dispatch st a) = st_task st"
  using assms
proof -
  show "st_ccc (store_dispatch st a) = st_ccc st" using assms by (cases a) simp_all
  show "st_blocked (store_dispatch st a) = st_blocked st" using assms by (cases a) simp_all
  show "st_blocked st \<Longrightarrow> st_task (store_dispatch st a) = st_task st" using assms by (cases a) simp_all
  show "cccselection (store_dispatch st a) = cccselection st"
  proof (cases a)
    case (RemoveLayer l)
    with assms show ?thesis by (auto simp: cccselection_keys)
  next
    case (AddLayerFeatures l r fs c)
    with assms show ?thesis
      by (simp add: cccselection_keys keys_mem_obj_set del: set_map split: option.split)
  qed (use assms in \<open>simp_all add: store_dispatch_def cccselection_def\<close>)
qed

lemma sb_actions_store:
  assumes "list_all sb_store_action as"
  shows "st_ccc (store (store_run as s)) = st_ccc (store s) \<and>
    cccselection (store (store_run as s)) = cccselection (store s) \<and>
    st_blocked (store (store_run as s)) = st_blocked (store s) \<and>
    (st_blocked (store s) \<longrightarrow> st_task (store (store_run as s)) = st_task (store s))"
  using assms unfolding store_run_def
proof (induction as arbitrary: s)
  case (Cons a as)
  have "sb_store_action a" and r: "list_all sb_store_action as" using Cons.prems by simp_all
  from Cons.IH [OF r, of "s\<lparr>store := store_dispatch (store s) a\<rparr>"] sb_action_store [OF \<open>sb_store_action a\<close>]
  show ?case by simp
qed simp

lemma store_run_frame: "(store_run as s)\<lparr>store := store s\<rparr> = s"
  by (simp add: store_run_def)

lemma inv_store_run:
  assumes inv: "ccc_sys_inv E s" and m: "mounted s" and as: "list_all sb_store_action as"
  shows "ccc_sys_inv E (store_run as s)"
proof -
  have wf: "list_all wf_action as"
    using as by (induction as) (auto simp: wf_action_def elim: sb_store_action.elims)
  have b: "benign s (store_run as s)"
    using benign_frame [OF wf, of "[]" s] by (simp add: store_run_def)
  have same: "ready (store_run as s) = ready s" "currentContext (store_run as s) = currentContext s"
    "renders_taskbar (store_run as s) = renders_taskbar s"
    using sb_actions_store [OF as, of s] by (simp_all add: store_run_def renders_taskbar_def)
  from inv have "ready s \<longrightarrow> cccConnection s" "status s \<noteq> NORMAL \<longrightarrow> currentContext s = JNull"
    "renders_taskbar s \<longrightarrow> sock s = Open" by (simp_all add: ccc_sys_inv_def dyn_inv_def)
  then show ?thesis by (intro inv_benign [OF inv b m]) (simp_all only: same)
qed

lemma app_run_reach: "app_run E F evs st = Some t \<Longrightarrow> app_reach E F st \<Longrightarrow> app_reach E F t"
  by (induction evs arbitrary: st) (auto split: if_splits intro: app_reach.step)

text \<open>The composed application keeps the invariants of both components: the search
  box's dispatches keep the bridge's invariant (they are ccc-neutral store actions, a rely
  condition of the bridge), and the search box's state is one it reaches on its own.\<close>

lemma app_reach_components:
  assumes "app_reach E F st"
  shows "ccc_sys_inv E (app_ccc st) \<and> sb_reach F (app_sb st) \<and> sb_inv (app_sb st)"
  using assms
proof (induction rule: app_reach.induct)
  case init
  show ?case by (simp add: app_init_def inv_init sb_reach.init sb_inv_init)
next
  case (step st ev)
  show ?case
  proof (cases ev)
    case (CccEv e)
    with step show ?thesis by (simp add: ccc_step_inv)
  next
    case (SbEv e)
    with step.hyps(2) have m: "mounted (app_ccc st)" and en: "sb_enabled F (app_sb st) e" by simp_all
    have r: "sb_reach F (sb_handle F e (app_sb st))" using step.IH en by (blast intro: sb_reach.step)
    have "ccc_sys_inv E (store_run (sb_dispatches (drop (length (sb_effects (app_sb st)))
        (sb_effects (sb_handle F e (app_sb st))))) (app_ccc st))"
      using step.IH m sb_step_dispatches by (blast intro: inv_store_run)
    with SbEv r show ?thesis by (simp add: Let_def sb_reach_inv)
  qed
qed

lemma sb_dispatches_mem: "SbDispatch a \<in> set es \<Longrightarrow> a \<in> set (sb_dispatches es)"
  by (induction es rule: sb_dispatches.induct) auto

text \<open>On an unblocked task, the search box's actions leave the task as it is unless one of
  them is its \<open>setCurrentTask('LayerTree')\<close>.\<close>

lemma sb_actions_task:
  assumes "list_all sb_store_action as" and "\<not> st_blocked (store s)"
  shows "st_task (store (store_run as s)) =
    (if SetCurrentTask (Some ''LayerTree'') None None \<in> set as then Some ''LayerTree'' else st_task (store s))"
  using assms
proof (induction as arbitrary: s)
  case Nil
  show ?case by (simp add: store_run_def)
next
  case (Cons a as)
  let ?s' = "s\<lparr>store := store_dispatch (store s) a\<rparr>"
  have a: "sb_store_action a" and r: "list_all sb_store_action as" using Cons.prems(1) by simp_all
  have nb: "\<not> st_blocked (store ?s')" using Cons.prems(2) sb_action_store(3) [OF a] by simp
  have t: "st_task (store ?s') =
      (if a = SetCurrentTask (Some ''LayerTree'') None None then Some ''LayerTree'' else st_task (store s))"
    using a Cons.prems(2) by (cases a) auto
  have "store_run (a # as) s = store_run as ?s'" by (simp add: store_run_def)
  with Cons.IH [OF r nb] t show ?case by auto
qed





end
