(* ===== verification/Spec2Isabelle.thy ===== *)
theory Spec2Isabelle
  imports CccProtocol SearchBoxProps AutologinProps Webpack AppCompose
begin

text \<open>
  \<^bold>\<open>A verification library for the sogis-qwc2-app plugins.\<close>

  The repository extends the qwc2 web map viewer with a bridge to a collaborative editing
  service (CCC), a search box, an automatic login, and the Redux reducer the bridge
  stores its state in, and is bundled by a webpack configuration. This library models the
  bridge and its reducer, the search box, the automatic login and the bundler
  configuration in full, and the helpers they depend on, as a shallow embedding: every handler of the source is a HOL
  function on an explicit state, every exception a value of a sum type, every call of a
  Redux action an element of an effect log.

  \<^bold>\<open>Theories and what they model.\<close>
  \<^item> \<open>Prelude\<close>: JSON values (\<open>jval\<close>), JavaScript truthiness, property reads that
    throw on \<open>null\<close>/\<open>undefined\<close> (\<open>js_prop\<close>), objects as association lists with
    \<open>o[k] = v\<close> (\<open>obj_set\<close>) and \<open>Object.assign\<close> (\<open>obj_assign\<close>), the strict and
    loose equality tests the sources use; \<open>js_seq\<close> runs statements that may throw in
    order, \<open>js_array\<close> is the TypeError of \<open>.map\<close>/\<open>.filter\<close>/\<open>.find\<close>/\<open>.reduce\<close>
    on a non-array, \<open>find_by\<close> is \<open>xs.find(x => x[k] === v)\<close>.
  \<^item> \<open>CccReducer\<close>: \<^verbatim>\<open>src/js/plugins/reducers/ccc.js\<close>, the reducer \<open>ccc\<close>, and
    \<open>app_action\<close>, the actions the plugins dispatch, which is the interface between the
    components and the store.
  \<^item> \<open>Store\<close>: the slices of the Redux store the bridge reads back: the \<open>ccc\<close> slice
    and, from qwc2, the current task with its blocked flag and the layer list
    (\<open>store_dispatch\<close> runs every reducer on an action). The qwc2 reducers are not part
    of the repository; they are modelled by the behaviour the bridge relies on.
  \<^item> \<open>UriEncoding\<close>: \<open>encodeURIComponent\<close> and its inverse.
  \<^item> \<open>CccZoom\<close>: \<open>getMaxZoomForMinScale\<close> and the extent computations of
    \<^verbatim>\<open>CCCInterface.jsx\<close>, with OpenLayers' reading of a GeoJSON geometry
    (\<open>geometry_points\<close>, nested \<open>GeometryCollection\<close>s included) and its extent.
  \<^item> \<open>CccInterface\<close>: the component \<open>CCCInterface\<close> of
    \<^verbatim>\<open>src/js/plugins/CCCInterface.jsx\<close>, one definition per method: \<open>initialize\<close>
    and \<open>mount\<close> (\<open>componentDidMount\<close>/\<open>componentWillReceiveProps\<close>),
    \<open>configLoaded\<close>/\<open>configFailed\<close> (the two callbacks of the configuration request),
    \<open>loadTheme\<close>, \<open>createWebSocket\<close>, \<open>onopen\<close>/\<open>onerror\<close>/\<open>onclose\<close>,
    \<open>processWebSocketMessage\<close>, \<open>processZoomTo\<close> and its callback
    \<open>processZoomTo_then\<close>, \<open>zoomToFeature\<close>, \<open>buttonClicked\<close>, \<open>stopEdit\<close>, the
    rendered buttons (\<open>renderBody_buttons\<close>; \<open>renders_taskbar\<close> is the test of
    \<open>render\<close>, \<open>taskbar_shown\<close> adds qwc2's condition that the current task is
    \<open>CccEdit\<close>, \<open>rendered_buttons\<close> the buttons shown), and the exported
    function \<open>CCCAttributeCalculator\<close> with its click handler (\<open>attr_click\<close>), which
    reads the same module variables. Its state
    \<open>ccc_sys\<close> joins the module variables \<open>CccConnection\<close>/\<open>CccAppConfig\<close>, the
    instance fields, the React state, the store and the effect log.
  \<^item> \<open>CccProtocol\<close>: the component as an event system: \<open>ccc_event\<close> are the callbacks
    the browser delivers, \<open>ccc_enabled\<close> when it can deliver them, \<open>ccc_handle\<close> the
    handler; \<open>ccc_reach\<close> is the inductive set of reachable states and
    \<open>ccc_sys_inv\<close> its invariant (\<open>ccc_reach_inv\<close>, by rule induction with one
    preservation lemma per event). \<open>benign\<close> is the relation of steps that send
    nothing and only touch the store, the context, \<open>ready\<close> and the zoom counter;
    the message and button handlers are shown to be benign compositionally.
  \<^item> \<open>JsonText\<close>: \<open>String(v)\<close>, \<open>JSON.stringify\<close>, the ASCII parts of
    \<open>toLowerCase\<close> and \<open>trim\<close>, \<open>ToNumber\<close> (\<open>js_to_number\<close>, \<open>None\<close> for
    \<open>NaN\<close>), \<open>a < b\<close> (\<open>js_lt\<close>) and \<open>a + b\<close> (\<open>js_add\<close>).
  \<^item> \<open>SearchBox\<close>: the component \<open>SearchBox\<close> of
    \<^verbatim>\<open>src/js/plugins/SearchBox.jsx\<close>, one definition per method: the rendering
    functions (\<open>renderRecentResults\<close>, \<open>renderFilters\<close>, \<open>renderPlaces\<close>,
    \<open>renderLayers\<close>, \<open>renderSearchResults\<close>) return the shown sections, or the
    TypeError JavaScript throws on the answer of the search service; the handlers
    (\<open>searchTextChanged\<close>, \<open>onFocus\<close>, \<open>onBlur\<close>, \<open>onKeyDown\<close>,
    \<open>setPreventBlur\<close>, \<open>toggleSection\<close>, \<open>startSearch\<close>, \<open>updateRecentSearches\<close>,
    \<open>selectFeatureResult\<close>, \<open>showFeatureGeometry\<close>, \<open>selectLayerResult\<close>,
    \<open>addLayer\<close>) update \<open>sb_state\<close>, whose pending browser timers and HTTP requests
    carry the ids the browser gives them. It dispatches the same \<open>app_action\<close>s as the
    bridge.
  \<^item> \<open>SearchBoxEvents\<close>: the search box as an event system (\<open>sb_event\<close>,
    \<open>sb_handle\<close>, \<open>sb_enabled\<close>, \<open>sb_reach\<close>) and its invariant \<open>sb_inv\<close>,
    proved by rule induction (\<open>sb_reach_inv\<close>).
  \<^item> \<open>SearchBoxProps\<close>: the properties of the search box (C16--C26).
  \<^item> \<open>Autologin\<close>: the component of \<^verbatim>\<open>src/js/Autologin.jsx\<close>: its
    \<open>componentDidMount\<close> and the callbacks of its two requests (\<open>info_answer\<close> for
    \<open>/info\<close>, \<open>probe_answer\<close> for the intranet probe), with \<open>url.format\<close> of the
    return address (\<open>al_format\<close>); the component as an event system (\<open>al_event\<close>,
    \<open>al_handle\<close>, \<open>al_enabled\<close>, \<open>al_reach\<close>) and its invariant \<open>al_inv\<close>
    (\<open>al_reach_inv\<close>). The redirect \<open>window.location.href = ...\<close> is the field
    \<open>al_location\<close>: once it is set no callback runs.
  \<^item> \<open>AutologinProps\<close>: the properties of the automatic login (C31--C33, C35, C37).
  \<^item> \<open>Webpack\<close>: \<^verbatim>\<open>src/webpack.config.js\<close> as the function
    \<open>webpack_config\<close> of \<open>NODE_ENV\<close> and \<open>__dirname\<close>: the mode
    (\<open>node_env\<close>, \<open>is_prod\<close>), the plugin list (\<open>plugins_of\<close>, a datatype of
    the plugins), the entries and output, and the module rules (\<open>rules_of\<close>) whose
    regular expressions are the predicates \<open>css_test\<close>, \<open>font_test\<close>,
    \<open>img_test\<close>, \<open>js_test\<close>, \<open>node_modules\<close>; \<open>loaders_for\<close> is the way
    webpack applies the rules to a module. Its properties are C38 and C40.
  \<^item> \<open>AppCompose\<close>: the application as the two interacting components, the bridge
    and the search box, side by side on the shared store (\<open>app_sys\<close>, \<open>app_event\<close>,
    \<open>app_handle\<close>, \<open>app_enabled\<close>, \<open>app_reach\<close>): an event of the search box
    runs the actions it dispatches (\<open>sb_store_action\<close>, the actions its \<open>connect\<close>
    binds) on the store the bridge reads. Its properties are C34 and C39; it also holds
    the bridge's configuration of the examples (\<open>demo_env\<close>).
  \<^item> This theory: the properties of the bridge that span its components (C1--C11,
    C15, C27--C30, C36),
    with witnesses that run the component on a concrete configuration.

  \<^bold>\<open>Properties.\<close> C1--C5 are about every reachable state: the first message sent is
  the handshake, Commit cannot throw and sends the edited geometry, \<open>stopEdit\<close> resets
  the task and selection, the store and connection stay consistent, an error screen is
  final. C6--C11 give the functional behaviour of the message handlers and of the zoom
  callback, including the behaviours recorded as findings (an enabled Commit button right
  after \<open>editGeoObject\<close>, a \<open>zoomTo\<close> request for a missing key, zoom level
  \<open>min(maxZoom, zfe - 1)\<close>, which is \<open>-1\<close> for \<open>zfe = 0\<close>, a stale feature after
  \<open>stopEdit\<close>). C12--C13 (in \<open>CccZoom\<close>) show the zoom loop equal to a
  \<open>takeWhile\<close> specification and bounded; C14 (in \<open>CccReducer\<close>) gives the reducer
  as an update of the abstract map with the \<open>changed\<close> flag written out; C15 (here) is
  the configuration request of the mount, whose \<open>app\<close> parameter decodes to the URL
  parameter (by the round trip of \<open>UriEncoding\<close>). C16--C26 (in \<open>SearchBoxProps\<close>)
  are about the search box: its recent searches stay distinct strings and at most five,
  rendering does not throw on an answer whose lists can be walked (C17) and throws on a
  \<open>null\<close> result (C25), the debounce keeps one search timer, a late answer overwrites
  newer results, the feature filter is the JSON encoding for plain names and ids and is not
  for an id with a double quote (C26), the zoom level is clamped at 0, a section title
  click flips that section only (C23). C27--C30 (here) are about
  \<open>CCCAttributeCalculator\<close>: its link is shown only while the bridge is connecting or
  connected, a click while connecting throws, a click on an open socket sends the mapped
  context, and falsy values are sent as \<open>null\<close>. C31--C33 and C35 (in \<open>AutologinProps\<close>)
  are about the automatic login: the return from the login never starts it again, the
  browser is sent to the login only after \<open>/info\<close> answered with a falsy user name
  (\<open>al_user\<close> is the value the code read), the return URL decodes to the page with
  \<open>config:autologin=1\<close> written into the store's startup parameters in place, an
  anonymous visit does reach the login, and (C37) every run of the flow ends after at most
  three callbacks, by a budget of the callbacks still to come (\<open>al_budget\<close>) that each
  enabled callback decreases. C36 (here) shows that an exception of \<open>loadTheme\<close> is
  reported as a configuration error and no socket is opened. C38 and C40 (in
  \<open>Webpack\<close>) give the mode of the build with its one mode-dependent plugin, and the
  loaders of every JavaScript module. C34 and C39 (in \<open>AppCompose\<close>) are about the
  composition: while the bridge's task is not blocked, the search box's
  \<open>setCurrentTask('LayerTree')\<close> hides the bridge's task bar (C34); a step of the search
  box changes nothing else the bridge reads (its \<open>ccc\<close> slice, \<open>cccselection\<close>)
  and, while the edit task is blocked, neither the task nor the buttons (C39). In every
  reachable state of the application the bridge's invariant holds and the search box is
  in a state it reaches on its own (\<open>app_reach_components\<close>).

  \<^bold>\<open>Modelling choices.\<close> JSON numbers are integers (no property depends on a
  fraction); map centres are reals. Asynchronous callbacks are separate events, so every
  interleaving of answers, socket events and clicks the browser allows is a run of
  \<open>ccc_reach\<close>; the outcome of browser and library calls the code cannot observe
  before it runs (the verdict on the WebSocket URL, \<open>JSON.parse\<close>, \<open>uuid.v4()\<close>,
  qwc2's \<open>getZoomForExtent\<close>, the answer of \<open>/info\<close>) is a parameter of the event. No loop of the model
  needs fuel: every loop of the source is over a finite list and is structural recursion,
  and OpenLayers' reading of nested geometry collections terminates by the size of the
  value. A string that is not a decimal integer converts to \<open>NaN\<close>, and so does a
  fraction: no property depends on one. A zoom box that is not four integers gives
  \<open>NaN\<close> coordinates, which the model leaves out (no zoom).

  \<^bold>\<open>Not modelled.\<close> Rendering beyond the buttons of the bridge with their
  \<open>disabled\<close> flags and the sections and entries of the search box (JSX markup, CSS,
  i18n, icons); the qwc2 library itself (its reducers appear only through
  the behaviour above); of webpack, only the way it selects the loaders of a module
  (the plugins are data, their effect on the bundle is not modelled); Node's
  \<open>path.join\<close> only for an absolute directory and relative segments.
\<close>

definition demo_config :: jval where
  "demo_config = JObj [(''title'', JStr ''Baugesuch''), (''map'', JStr ''plan''),
     (''cccServer'', JStr ''wss://geo.so.ch/ccc''), (''editGeomType'', JStr ''Point''),
     (''minEditScale'', JNum 400)]"

definition demo_edit_msg :: jval where
  "demo_edit_msg = JObj [(''method'', JStr ''editGeoObject''), (''context'', JStr ''ctx1''),
     (''data'', JObj [(''type'', JStr ''Point''), (''coordinates'', JArr [JNum 10, JNum 20])])]"

definition demo_create_msg :: jval where
  "demo_create_msg = JObj [(''method'', JStr ''createGeoObject''), (''context'', JStr ''ctx2'')]"

definition demo_zoom_answer :: jval where
  "demo_zoom_answer = JObj [(''result'', JObj [
     (''bbox'', JArr [JNum 2600000, JNum 1200000, JNum 2600100, JNum 1200100]),
     (''minScale'', JNum 400), (''crs'', JStr ''EPSG:2056''), (''features'', JArr [])])]"

definition demo_connected :: ccc_sys where
  "demo_connected = the (ccc_run demo_env [Mount, ConfigResponse demo_config True, WsOpen] ccc_sys_init)"

definition demo_edited :: ccc_sys where
  "demo_edited = the (ccc_run demo_env [WsMessage (Some demo_edit_msg) ''u1''] demo_connected)"

definition demo_failing :: ccc_sys where
  "demo_failing = the (ccc_run demo_env [WsError] demo_connected)"

definition demo_notify_config :: jval where
  "demo_notify_config = JObj [(''title'', JStr ''Baugesuch''), (''map'', JStr ''plan''),
     (''notifyLayers'', JArr [JObj [(''layer'', JStr ''grundstuecke''),
        (''mapping'', JArr [JObj [(''agdi_attr_name'', JStr ''nummer''), (''ccc_attr_name'', JStr ''nr'')],
                            JObj [(''agdi_attr_name'', JStr ''flaeche''), (''ccc_attr_name'', JStr ''area'')]])]])]"

definition demo_parcel :: jval where
  "demo_parcel = JObj [(''layername'', JStr ''grundstuecke''),
     (''properties'', JObj [(''nummer'', JStr ''1234''), (''flaeche'', JNum 0)])]"

definition demo_notify_connecting :: ccc_sys where
  "demo_notify_connecting = the (ccc_run demo_env [Mount, ConfigResponse demo_notify_config True] ccc_sys_init)"

definition demo_notify_open :: ccc_sys where
  "demo_notify_open = the (ccc_run demo_env [WsOpen] demo_notify_connecting)"

lemma demo_connected_reach: "ccc_reach demo_env demo_connected"
proof -
  have "ccc_run demo_env [Mount, ConfigResponse demo_config True, WsOpen] ccc_sys_init = Some demo_connected"
    unfolding demo_connected_def by code_simp
  then show ?thesis by (rule ccc_run_reach) (rule ccc_reach.init)
qed

lemma demo_edited_reach: "ccc_reach demo_env demo_edited"
proof -
  have "ccc_run demo_env [WsMessage (Some demo_edit_msg) ''u1''] demo_connected = Some demo_edited"
    unfolding demo_edited_def by code_simp
  then show ?thesis by (rule ccc_run_reach) (rule demo_connected_reach)
qed

lemma demo_failing_reach: "ccc_reach demo_env demo_failing"
proof -
  have "ccc_run demo_env [WsError] demo_connected = Some demo_failing"
    unfolding demo_failing_def by code_simp
  then show ?thesis by (rule ccc_run_reach) (rule demo_connected_reach)
qed

lemma demo_notify_connecting_reach: "ccc_reach demo_env demo_notify_connecting"
proof -
  have "ccc_run demo_env [Mount, ConfigResponse demo_notify_config True] ccc_sys_init = Some demo_notify_connecting"
    unfolding demo_notify_connecting_def by code_simp
  then show ?thesis by (rule ccc_run_reach) (rule ccc_reach.init)
qed

lemma demo_notify_open_reach: "ccc_reach demo_env demo_notify_open"
proof -
  have "ccc_run demo_env [WsOpen] demo_notify_connecting = Some demo_notify_open"
    unfolding demo_notify_open_def demo_notify_connecting_def by code_simp
  then show ?thesis by (rule ccc_run_reach) (rule demo_notify_connecting_reach)
qed

text \<open>C1: the first message the component ever sends on the socket is the
  \<open>connectGis\<close> handshake carrying the \<open>session\<close> URL parameter in braces.\<close>

theorem handshake_first:
  assumes "ccc_reach E s" and "sent_msgs (effects s) \<noteq> []"
  shows "\<exists>p. env_sessionParam E = Some p \<and> p \<noteq> [] \<and>
    hd (sent_msgs (effects s)) = connectGis_msg (JStr (''{'' @ p @ ''}''))"
  using inv_sent_head [OF ccc_reach_inv [OF assms(1)] assms(2)]
  by (auto simp: session_token_def)

theorem handshake_first_witness:
  "ccc_reach demo_env demo_connected \<and> sent_msgs (effects demo_connected) \<noteq> [] \<and>
   hd (sent_msgs (effects demo_connected)) = connectGis_msg (JStr ''{abc}'')"
proof -
  have "sent_msgs (effects demo_connected) = [connectGis_msg (JStr ''{abc}'')]"
    unfolding demo_connected_def by code_simp
  moreover have "env_sessionParam demo_env = Some ''abc''" by (simp add: demo_env_def)
  ultimately show ?thesis
    using handshake_first [OF demo_connected_reach] demo_connected_reach by auto
qed

text \<open>C2: in every reachable state where the Commit button is rendered enabled, clicking it
  cannot throw: the component sends \<open>notifyEditGeoObjectDone\<close> with the current
  context and the geometry of the edited feature, and then ends the edit.\<close>

theorem commit_sends_geometry:
  assumes "ccc_reach E s" and "ccc_enabled E s (ButtonClick ''Commit'')"
  shows "ccc_handle E (ButtonClick ''Commit'') s =
    stopEdit (emit (Send (commit_msg (currentContext s)
      (field (jget (st_ccc (store s)) ''feature'') ''geometry''))) s)"
proof -
  have inv: "ccc_sys_inv E s" by (rule ccc_reach_inv [OF assms(1)])
  from assms(2) have tb: "taskbar_shown s" and ch: "js_truthy (jget (st_ccc (store s)) ''changed'')"
    using commit_enabled_changed by simp_all
  have o: "sock s = Open" by (rule taskbar_shown_open [OF inv tb])
  have c: "cccConnection s" by (rule inv_open_conn [OF inv o])
  from inv_store_ccc [OF inv] ch have "js_truthy (jget (st_ccc (store s)) ''feature'')"
    by (simp add: ccc_inv_def)
  then have "js_prop (jget (st_ccc (store s)) ''feature'') ''geometry'' =
      Inr (field (jget (st_ccc (store s)) ''feature'') ''geometry'')"
    by (intro js_prop_Inr_field) auto
  with o c show ?thesis by (simp add: buttonClicked_def ws_transmit_def)
qed

theorem commit_sends_geometry_witness:
  "ccc_reach demo_env demo_edited \<and> ccc_enabled demo_env demo_edited (ButtonClick ''Commit'') \<and>
   ccc_handle demo_env (ButtonClick ''Commit'') demo_edited =
     stopEdit (emit (Send (commit_msg (JStr ''ctx1'')
       (JObj [(''type'', JStr ''Point''), (''coordinates'', JArr [JNum 10, JNum 20])]))) demo_edited)"
proof -
  have en: "ccc_enabled demo_env demo_edited (ButtonClick ''Commit'')"
    unfolding demo_edited_def demo_connected_def by code_simp
  have ctx: "currentContext demo_edited = JStr ''ctx1''"
    unfolding demo_edited_def demo_connected_def by code_simp
  have g: "field (jget (st_ccc (store demo_edited)) ''feature'') ''geometry'' =
      JObj [(''type'', JStr ''Point''), (''coordinates'', JArr [JNum 10, JNum 20])]"
    unfolding demo_edited_def demo_connected_def by code_simp
  show ?thesis
    using commit_sends_geometry [OF demo_edited_reach en] en demo_edited_reach
    by (simp only: ctx g simp_thms)
qed

text \<open>C3: ending an edit (\<open>stopEdit\<close>) clears the current task and unblocks it,
  removes the \<open>cccselection\<close> layer, resets the action and the \<open>changed\<close> flag,
  and so hides the task bar, whatever state it starts from.\<close>

theorem stopEdit_resets:
  "st_task (store (stopEdit s)) = None \<and> \<not> st_blocked (store (stopEdit s)) \<and>
   \<not> cccselection (store (stopEdit s)) \<and> jget (st_ccc (store (stopEdit s))) ''action'' = JNull \<and>
   \<not> js_truthy (jget (st_ccc (store (stopEdit s))) ''changed'') \<and> \<not> taskbar_shown (stopEdit s)"
  by (simp add: stopEdit_def dispatch_all_eq jget_obj_assign changed_of_def taskbar_shown_def renders_taskbar_def
      cccselection_def list_ex_iff)

text \<open>C4: in every reachable state the \<open>ccc\<close> slice keeps its invariant (a
  \<open>changed\<close> flag comes with a feature), \<open>ready\<close> implies an open connection
  object, the task bar is only shown over an open socket, and a connection carries the
  session token of the URL.\<close>

theorem reach_consistent:
  assumes "ccc_reach E s"
  shows "ccc_inv (st_ccc (store s)) \<and> (ready s \<longrightarrow> cccConnection s) \<and>
    (taskbar_shown s \<longrightarrow> sock s = Open \<and> cccConnection s) \<and>
    (cccConnection s \<longrightarrow> session s = session_token E)"
proof -
  have inv: "ccc_sys_inv E s" by (rule ccc_reach_inv [OF assms])
  show ?thesis
    using inv_store_ccc [OF inv] inv_ready_conn [OF inv] taskbar_shown_open [OF inv]
      inv_open_conn [OF inv] inv_conn_session [OF inv] by blast
qed

theorem reach_consistent_witness:
  "ccc_inv (st_ccc (store demo_edited)) \<and> taskbar_shown demo_edited \<and> sock demo_edited = Open"
proof -
  have "taskbar_shown demo_edited" unfolding demo_edited_def demo_connected_def by code_simp
  with reach_consistent [OF demo_edited_reach] show ?thesis by blast
qed

text \<open>C5: an error screen is final: once the status is \<open>CONFIG_ERROR\<close> or
  \<open>CONNECTION_ERROR\<close>, no event the browser can still deliver changes the status,
  sends a message or renders a button.\<close>

theorem error_state_final:
  assumes "ccc_reach E s" and "status s \<noteq> NORMAL" and "ccc_enabled E s ev"
  shows "status (ccc_handle E ev s) = status s \<and>
    sent_msgs (effects (ccc_handle E ev s)) = sent_msgs (effects s) \<and>
    rendered_buttons (ccc_handle E ev s) = []"
proof -
  have inv: "ccc_sys_inv E s" by (rule ccc_reach_inv [OF assms(1)])
  note f = inv_error_facts [OF inv assms(2)]
  show ?thesis
  proof (cases ev)
    case WsClose
    with assms(3) f have "sock s = Failing" by auto
    with inv have "status s = CONNECTION_ERROR" by (rule inv_failing_status)
    with WsClose show ?thesis by (simp add: onclose_def reset_def rendered_buttons_def taskbar_shown_def renders_taskbar_def)
  next
    case (ZoomToResponse d z)
    obtain as us where eq: "processZoomTo_then E d z s =
        dispatch_all as (s\<lparr>pendingZoom := pendingZoom s - 1, effects := effects s @ us\<rparr>)"
      and "sent_msgs us = []"
      using processZoomTo_then_shape by blast
    with ZoomToResponse assms(2) show ?thesis
      by (simp add: dispatch_all_eq rendered_buttons_def taskbar_shown_def renders_taskbar_def)
  next
    case (ButtonClick k)
    with assms(3) f show ?thesis by (auto dest: enabled_button_taskbar simp: taskbar_shown_def)
  next
    case (AttrLinkClick entry g)
    with f show ?thesis by (simp add: attr_click_def rendered_buttons_def taskbar_shown_def)
  qed (use assms(3) f in \<open>auto simp: taskbar_shown_def\<close>)
qed

theorem error_state_final_witness:
  "status demo_failing = CONNECTION_ERROR \<and> ccc_enabled demo_env demo_failing WsClose \<and>
   status (ccc_handle demo_env WsClose demo_failing) = CONNECTION_ERROR \<and>
   sent_msgs (effects (ccc_handle demo_env WsClose demo_failing)) = sent_msgs (effects demo_failing)"
proof -
  have st: "status demo_failing = CONNECTION_ERROR" unfolding demo_failing_def demo_connected_def by code_simp
  have en: "ccc_enabled demo_env demo_failing WsClose" unfolding demo_failing_def demo_connected_def by code_simp
  from error_state_final [OF demo_failing_reach _ en] st en show ?thesis by simp
qed

text \<open>C6: a \<open>createGeoObject\<close> message puts the component into drawing mode: the
  action becomes \<open>Draw\<close> with the configured geometry type, nothing is marked changed,
  the \<open>CccEdit\<close> task is opened and blocked and the previous selection is gone.\<close>

theorem createGeoObject_starts_drawing:
  assumes "m \<noteq> JNull" and "field m ''method'' = JStr ''createGeoObject''"
    and "js_prop (cccAppConfig s) ''editGeomType'' = Inr gt"
  shows "\<exists>t. processWebSocketMessage E (Some m) u s = Inr t \<and>
    jget (st_ccc (store t)) ''action'' = JStr ''Draw'' \<and> jget (st_ccc (store t)) ''geomType'' = gt \<and>
    \<not> js_truthy (jget (st_ccc (store t)) ''changed'') \<and>
    st_task (store t) = Some ''CccEdit'' \<and> st_blocked (store t) \<and> \<not> cccselection (store t)"
  using assms
  by (simp add: processWebSocketMessage_def Let_def strict_eq_str_def stopEdit_def dispatch_all_eq
      processZoomTo_def emit_def jget_obj_assign changed_of_def cccselection_def list_ex_iff)

text \<open>C7: after an \<open>editGeoObject\<close> message is handled without error, the Commit
  button is rendered enabled at once: the reducer marks the new feature as changed
  before the user has edited anything.\<close>

theorem editGeoObject_enables_commit:
  assumes "m \<noteq> JNull" and "field m ''method'' = JStr ''editGeoObject''"
    and "status s = NORMAL" and "processWebSocketMessage E (Some m) u s = Inr t"
  shows "(''Commit'', False) \<in> set (rendered_buttons t)"
proof -
  let ?d = "field m ''data''"
  let ?f = "geo_feature u ?d"
  let ?s1 = "if js_truthy (field m ''context'') then s\<lparr>currentContext := field m ''context''\<rparr> else s"
  let ?acts = "\<lambda>gt. [ChangeCCCState [(''action'', JStr ''Edit''), (''geomType'', gt), (''feature'', ?f)],
      SetCurrentTask (Some ''CccEdit'') None None, SetCurrentTaskBlocked True]"
  have "processWebSocketMessage E (Some m) u s =
      (case zoomToFeature E ?f (stopEdit ?s1) of Inl err \<Rightarrow> Inl err
       | Inr s3 \<Rightarrow> (case js_prop ?d ''type'' of Inl e \<Rightarrow> Inl (e, s3)
           | Inr gt \<Rightarrow> Inr (dispatch_all (?acts gt) s3)))"
    using assms(1,2) by (simp add: processWebSocketMessage_def Let_def strict_eq_str_def)
  with assms(4) obtain s3 gt where z: "zoomToFeature E ?f (stopEdit ?s1) = Inr s3"
    and t: "t = dispatch_all (?acts gt) s3"
    by (auto split: sum.splits)
  from zoomToFeature_Inr_frame [OF z] assms(3) have "status t = NORMAL"
    by (simp add: t dispatch_all_eq)
  moreover have "jget (st_ccc (store t)) ''action'' = JStr ''Edit''"
    "jget (st_ccc (store t)) ''changed'' = JBool True"
    by (simp_all add: t dispatch_all_eq jget_obj_assign changed_of_def geo_feature_def)
  moreover have "\<not> st_blocked (store s3)"
    using zoomToFeature_Inr_blocked [OF z] by (simp add: stopEdit_def dispatch_all_eq)
  then have "st_task (store t) = Some ''CccEdit''" by (simp add: t dispatch_all_eq)
  ultimately show ?thesis
    by (simp add: rendered_buttons_def taskbar_shown_def renders_taskbar_def renderBody_buttons_def strict_eq_str_def)
qed

text \<open>C8: a \<open>createGeoObject\<close> message whose \<open>zoomTo\<close> is not \<open>null\<close> makes
  the component post it to the \<open>zoomTo\<close> service, also when the key is missing
  (\<open>undefined !== null\<close>), and count one more outstanding zoom request.\<close>

theorem createGeoObject_requests_zoom:
  assumes "m \<noteq> JNull" and "field m ''method'' = JStr ''createGeoObject''"
    and "\<not> js_strict_eq (field m ''zoomTo'') JNull"
  shows "HttpPost (strip_trailing_slash (env_cccConfigService E) @ ''/zoomTo'') (field m ''zoomTo'')
      \<in> set (effects (out_state (processWebSocketMessage E (Some m) u s))) \<and>
    pendingZoom (out_state (processWebSocketMessage E (Some m) u s)) = Suc (pendingZoom s)"
  using assms
  by (simp add: processWebSocketMessage_def Let_def stopEdit_def dispatch_all_eq
      processZoomTo_def emit_def out_state_def split: sum.split)

text \<open>C9: the answer of the \<open>zoomTo\<close> service makes the map zoom to the centre of the
  returned box at level \<open>min maxZoom (zfe - 1)\<close>: never above the level allowed by the
  minimum scale, but \<open>-1\<close> when qwc2 answers level 0, because the code does not clamp
  at 0 as \<open>SearchBox\<close> does.\<close>

theorem zoom_response_level:
  assumes "js_truthy d" and "js_truthy (field d ''result'')"
    and "bbox4 (field (field d ''result'') ''bbox'') = Some bb"
  shows "\<exists>rest. effects (processZoomTo_then E d zfe s) = effects s @
      Dispatch (ZoomToPoint (extent_center bb)
        (min (int (getMaxZoomForMinScale (env_scales E) (field (field d ''result'') ''minScale''))) (zfe - 1))
        (field (field d ''result'') ''crs'')) # rest"
  using assms by (auto simp: processZoomTo_then_def Let_def dispatch_def)

text \<open>C10: every message other than \<open>null\<close> that carries a truthy \<open>context\<close> makes
  it the current context, whatever its method and also when its handler throws; a message
  without one leaves the context as it was.\<close>

theorem message_context:
  assumes "m \<noteq> JNull"
  shows "currentContext (out_state (processWebSocketMessage E (Some m) u s)) =
    (if js_truthy (field m ''context'') then field m ''context'' else currentContext s)"
  using assms
  by (simp add: processWebSocketMessage_def Let_def out_state_Inr out_state_Inl dispatch_all_eq
      dispatch_def processZoomTo_def emit_def ctx_zoomToFeature_case split: sum.split)

text \<open>C11: ending an edit keeps the edited feature in the \<open>ccc\<close> slice: only the
  action, the geometry type and the \<open>changed\<close> flag are reset.\<close>

theorem stopEdit_keeps_feature:
  assumes "keys_distinct (st_ccc (store s))"
  shows "jget (st_ccc (store (stopEdit s))) ''feature'' = jget (st_ccc (store s)) ''feature''"
  using assms
  by (simp add: stopEdit_def dispatch_all_eq jget_obj_assign jget_def map_of_rev_distinct)

theorem createGeoObject_starts_drawing_witness:
  "\<exists>t. processWebSocketMessage demo_env (Some demo_create_msg) ''u2'' demo_connected = Inr t \<and>
     jget (st_ccc (store t)) ''action'' = JStr ''Draw'' \<and>
     jget (st_ccc (store t)) ''geomType'' = JStr ''Point'' \<and> st_task (store t) = Some ''CccEdit''"
proof -
  have cfg: "js_prop (cccAppConfig demo_connected) ''editGeomType'' = Inr (JStr ''Point'')"
    unfolding demo_connected_def by code_simp
  have "demo_create_msg \<noteq> JNull" "field demo_create_msg ''method'' = JStr ''createGeoObject''"
    by (simp_all add: demo_create_msg_def)
  from createGeoObject_starts_drawing [OF this cfg] show ?thesis by blast
qed

theorem editGeoObject_enables_commit_witness:
  "\<exists>t. processWebSocketMessage demo_env (Some demo_edit_msg) ''u1'' demo_connected = Inr t \<and>
     (''Commit'', False) \<in> set (rendered_buttons t)"
proof -
  have "\<not> isl (processWebSocketMessage demo_env (Some demo_edit_msg) ''u1'' demo_connected)"
    unfolding demo_connected_def by code_simp
  then obtain t where t: "processWebSocketMessage demo_env (Some demo_edit_msg) ''u1'' demo_connected = Inr t"
    by (cases "processWebSocketMessage demo_env (Some demo_edit_msg) ''u1'' demo_connected") auto
  have st: "status demo_connected = NORMAL" unfolding demo_connected_def by code_simp
  have "demo_edit_msg \<noteq> JNull" "field demo_edit_msg ''method'' = JStr ''editGeoObject''"
    by (simp_all add: demo_edit_msg_def)
  from editGeoObject_enables_commit [OF this st t] t show ?thesis by blast
qed

theorem createGeoObject_requests_zoom_witness:
  "HttpPost ''https://geo.so.ch/api/ccc/zoomTo'' JUndef \<in>
     set (effects (out_state (processWebSocketMessage demo_env (Some demo_create_msg) ''u2'' demo_connected)))"
  using createGeoObject_requests_zoom [of demo_create_msg demo_env "''u2''" demo_connected]
  by (simp add: demo_create_msg_def demo_env_def strip_trailing_slash_def)

theorem zoom_response_level_witness:
  "\<exists>rest. effects (processZoomTo_then demo_env demo_zoom_answer 0 demo_connected) =
     effects demo_connected @ Dispatch (ZoomToPoint (2600050, 1200050) (-1) (JStr ''EPSG:2056'')) # rest"
  using zoom_response_level [of demo_zoom_answer "(2600000, 1200000, 2600100, 1200100)" demo_env 0 demo_connected]
  by (simp add: demo_zoom_answer_def extent_center_def)

theorem message_context_witness:
  "currentContext (out_state (processWebSocketMessage demo_env (Some demo_edit_msg) ''u1'' demo_connected)) =
   JStr ''ctx1''"
  using message_context [of demo_edit_msg demo_env "''u1''" demo_connected]
  by (simp add: demo_edit_msg_def)

theorem stopEdit_keeps_feature_witness:
  "jget (st_ccc (store (stopEdit demo_edited))) ''feature'' =
   geo_feature ''u1'' (JObj [(''type'', JStr ''Point''), (''coordinates'', JArr [JNum 10, JNum 20])])"
proof -
  have kd: "keys_distinct (st_ccc (store demo_edited))"
    unfolding demo_edited_def demo_connected_def by code_simp
  have "jget (st_ccc (store demo_edited)) ''feature'' =
      geo_feature ''u1'' (JObj [(''type'', JStr ''Point''), (''coordinates'', JArr [JNum 10, JNum 20])])"
    unfolding demo_edited_def demo_connected_def by code_simp
  with stopEdit_keeps_feature [OF kd] show ?thesis by simp
qed

text \<open>C27: the identify panel shows the notify link only while the bridge is working: in
  every reachable state where \<open>CCCAttributeCalculator\<close> returns an entry, the status is
  \<open>NORMAL\<close> and the socket is connecting or open.\<close>

theorem attr_link_only_connected:
  assumes "ccc_reach E s" and "CCCAttributeCalculator s layer f = Inr (Some entry)"
  shows "status s = NORMAL \<and> (sock s = Connecting \<or> sock s = Open)"
proof -
  from assms(2) have c: "cccConnection s"
    by (auto simp: CCCAttributeCalculator_def split: if_splits)
  from ccc_reach_inv [OF assms(1)] have "link_inv E s" by (simp add: ccc_sys_inv_def)
  with c show ?thesis unfolding link_inv_def by blast
qed

text \<open>C28: clicking a notify link while the socket is still connecting throws an
  \<open>InvalidStateError\<close> out of the click handler; nothing is sent and the state is
  otherwise unchanged.\<close>

theorem attr_click_connecting:
  assumes "ccc_reach E s" and "sock s = Connecting"
    and "mapped_props f = Inr mp" and "field entry ''mapping'' = JArr ms" and "map_context mp ms [] = Inr ctx"
  shows "ccc_handle E (AttrLinkClick entry f) s = s\<lparr>effects := effects s @ [Uncaught InvalidStateError]\<rparr>"
proof -
  have inv: "ccc_sys_inv E s" by (rule ccc_reach_inv [OF assms(1)])
  then have "link_inv E s" by (simp add: ccc_sys_inv_def)
  with assms(2) have "cccConnection s" unfolding link_inv_def by blast
  with assms(2-5) show ?thesis by (simp add: attr_click_def ws_transmit_def finish_def js_array_def)
qed

text \<open>C29: on an open socket, clicking a notify link sends \<open>notifyGeoObjectSelected\<close>
  with the context built from the mapping of the entry.\<close>

theorem attr_click_open:
  assumes "ccc_reach E s" and "sock s = Open"
    and "mapped_props f = Inr mp" and "field entry ''mapping'' = JArr ms" and "map_context mp ms [] = Inr ctx"
  shows "ccc_handle E (AttrLinkClick entry f) s = emit (Send (notify_msg ctx)) s"
proof -
  have "cccConnection s" by (rule inv_open_conn [OF ccc_reach_inv [OF assms(1)] assms(2)])
  with assms(2-5) show ?thesis by (simp add: attr_click_def ws_transmit_def js_array_def)
qed

text \<open>C30: a mapped attribute is sent under its CCC name with its value when the value is
  truthy and as \<open>null\<close> otherwise, so \<open>0\<close>, \<open>""\<close> and \<open>false\<close> arrive as
  \<open>null\<close>.\<close>

theorem map_context_value:
  assumes "map_of props a = Some v"
  shows "map_context (JObj props) [JObj [(''agdi_attr_name'', JStr a), (''ccc_attr_name'', JStr c)]] [] =
    Inr [(c, if js_truthy v then v else JNull)]"
  using assms by (simp add: jget_def)

theorem attr_link_only_connected_witness:
  "CCCAttributeCalculator demo_notify_connecting (JStr ''grundstuecke'') demo_parcel \<noteq> Inr None \<and>
   status demo_notify_connecting = NORMAL \<and> sock demo_notify_connecting = Connecting"
proof -
  have l: "CCCAttributeCalculator demo_notify_connecting (JStr ''grundstuecke'') demo_parcel =
      Inr (Some (hd (feature_list (field demo_notify_config ''notifyLayers''))))"
    unfolding demo_notify_connecting_def by code_simp
  from attr_link_only_connected [OF demo_notify_connecting_reach l]
  have "status demo_notify_connecting = NORMAL" by simp
  moreover have "sock demo_notify_connecting = Connecting"
    unfolding demo_notify_connecting_def by code_simp
  ultimately show ?thesis using l by simp
qed

theorem attr_click_connecting_witness:
  "ccc_handle demo_env (AttrLinkClick (hd (feature_list (field demo_notify_config ''notifyLayers''))) demo_parcel)
     demo_notify_connecting =
   demo_notify_connecting\<lparr>effects := effects demo_notify_connecting @ [Uncaught InvalidStateError]\<rparr>"
proof -
  have "sock demo_notify_connecting = Connecting" unfolding demo_notify_connecting_def by code_simp
  moreover have "mapped_props demo_parcel = Inr (field demo_parcel ''properties'')"
    by (simp add: mapped_props_def demo_parcel_def)
  moreover have "field (hd (feature_list (field demo_notify_config ''notifyLayers''))) ''mapping'' =
      JArr (feature_list (field (hd (feature_list (field demo_notify_config ''notifyLayers''))) ''mapping''))"
    by code_simp
  moreover have "map_context (field demo_parcel ''properties'')
      (feature_list (field (hd (feature_list (field demo_notify_config ''notifyLayers''))) ''mapping'')) [] =
      Inr [(''nr'', JStr ''1234''), (''area'', JNull)]"
    by code_simp
  ultimately show ?thesis by (rule attr_click_connecting [OF demo_notify_connecting_reach])
qed

theorem attr_click_open_witness:
  "ccc_handle demo_env (AttrLinkClick (hd (feature_list (field demo_notify_config ''notifyLayers''))) demo_parcel)
     demo_notify_open =
   emit (Send (notify_msg [(''nr'', JStr ''1234''), (''area'', JNull)])) demo_notify_open"
proof -
  have "sock demo_notify_open = Open" unfolding demo_notify_open_def demo_notify_connecting_def by code_simp
  moreover have "mapped_props demo_parcel = Inr (field demo_parcel ''properties'')"
    by (simp add: mapped_props_def demo_parcel_def)
  moreover have "field (hd (feature_list (field demo_notify_config ''notifyLayers''))) ''mapping'' =
      JArr (feature_list (field (hd (feature_list (field demo_notify_config ''notifyLayers''))) ''mapping''))"
    by code_simp
  moreover have "map_context (field demo_parcel ''properties'')
      (feature_list (field (hd (feature_list (field demo_notify_config ''notifyLayers''))) ''mapping'')) [] =
      Inr [(''nr'', JStr ''1234''), (''area'', JNull)]"
    by code_simp
  ultimately show ?thesis by (rule attr_click_open [OF demo_notify_open_reach])
qed

theorem map_context_value_witness:
  "map_context (JObj [(''flaeche'', JNum 0)]) [JObj [(''agdi_attr_name'', JStr ''flaeche''), (''ccc_attr_name'', JStr ''area'')]] [] =
   Inr [(''area'', JNull)]"
  using map_context_value [of "[(''flaeche'', JNum 0)]" "''flaeche''" "JNum 0" "''area''"] by simp

text \<open>C36: the \<open>catch\<close> of the configuration request also catches what
  \<open>loadTheme\<close> throws: when the \<open>themes\<close> prop has no \<open>items\<close> array, a
  configuration answer with a title ends in \<open>CONFIG_ERROR\<close> after the document title is
  set, and no WebSocket is created.\<close>

theorem configLoaded_items_missing:
  assumes "js_prop d ''title'' = Inr t" and "js_truthy (env_themes E)"
    and "js_array (field (env_themes E) ''items'') = Inl e"
  shows "status (configLoaded E d ok s) = CONFIG_ERROR \<and> \<not> cccConnection (configLoaded E d ok s) \<and>
    sock (configLoaded E d ok s) = sock s \<and> effects (configLoaded E d ok s) = effects s @ [SetTitle t]"
proof -
  have "env_themes E \<noteq> JNull" "env_themes E \<noteq> JUndef" using assms(2) by auto
  then have "js_prop (env_themes E) ''items'' = Inr (field (env_themes E) ''items'')"
    by (cases "env_themes E") (simp_all add: field_def)
  then have "loadTheme E u = Inl e" for u using assms(3) by (simp add: loadTheme_def)
  with assms(1) show ?thesis by (simp add: configLoaded_def configFailed_def reset_def emit_def)
qed

theorem configLoaded_items_missing_witness:
  "status (configLoaded (demo_env\<lparr>env_themes := JObj []\<rparr>) (JObj [(''title'', JStr ''CCC'')]) True ccc_sys_init) =
     CONFIG_ERROR \<and>
   \<not> cccConnection (configLoaded (demo_env\<lparr>env_themes := JObj []\<rparr>) (JObj [(''title'', JStr ''CCC'')]) True ccc_sys_init)"
  using configLoaded_items_missing [of "JObj [(''title'', JStr ''CCC'')]" "JStr ''CCC''"
      "demo_env\<lparr>env_themes := JObj []\<rparr>" TypeError True ccc_sys_init]
  by (simp add: js_array_def)

text \<open>C15: mounting the component with the URL parameters \<open>session\<close> and
  \<open>appintegration\<close> sends exactly one request, the configuration request, whose
  \<open>app\<close> parameter the service decodes back to the \<open>appintegration\<close> parameter,
  whatever characters it contains (\<open>&\<close>, \<open>=\<close>, spaces); the session becomes the
  parameter in braces and the component waits for the configuration.\<close>

theorem initialize_config_request:
  assumes "env_sessionParam E = Some sp" and "sp \<noteq> []"
    and "env_appintegrationParam E = Some app" and "app \<noteq> []"
  shows "\<exists>u. effects (ccc_handle E Mount ccc_sys_init) = [HttpGet (env_cccConfigService E @ ''?app='' @ u)] \<and>
    decodeURIComponent u = Some app \<and>
    session (ccc_handle E Mount ccc_sys_init) = JStr (''{'' @ sp @ ''}'') \<and>
    pendingConfig (ccc_handle E Mount ccc_sys_init)"
  using assms decode_encode_URIComponent [of app]
  by (simp add: mount_def initialize_def param_val_def emit_def ccc_sys_init_def Let_def)

theorem initialize_config_request_witness: "\<exists>u. effects (ccc_handle demo_env Mount ccc_sys_init) =
      [HttpGet (''https://geo.so.ch/api/ccc/'' @ ''?app='' @ u)] \<and> decodeURIComponent u = Some ''baugk''"
proof -
  have sp: "env_sessionParam demo_env = Some ''abc''" and app: "env_appintegrationParam demo_env = Some ''baugk''"
    and cfg: "env_cccConfigService demo_env = ''https://geo.so.ch/api/ccc/''" by (simp_all add: demo_env_def)
  obtain u where "effects (ccc_handle demo_env Mount ccc_sys_init) =
      [HttpGet (env_cccConfigService demo_env @ ''?app='' @ u)]" and "decodeURIComponent u = Some ''baugk''"
    using initialize_config_request [OF sp _ app] by auto
  then show ?thesis unfolding cfg by blast
qed

end
